theory Spec2Isabelle
  imports Complex_Main "HOL-Library.Sublist" "HOL-Library.AList" "HOL-Library.Log_Nat" "HOL-Library.Product_Lexorder"
begin

section \<open>Text primitives\<close>

text \<open>
  Python strings are modelled as \<open>string\<close> (lists of 8-bit characters). The character
  classes and the case mapping below are those of the ASCII range, where they agree with
  Python's \<open>str.lower\<close> and with the classes \<open>\d\<close>, \<open>\s\<close>, \<open>\w\<close> of the \<open>re\<close> module on
  \<open>str\<close> patterns. Characters above 127 are treated as caseless non-word characters.
\<close>

definition is_upper :: "char \<Rightarrow> bool" where
  "is_upper c = (65 \<le> (of_char c :: nat) \<and> (of_char c :: nat) \<le> 90)"

definition lower_char :: "char \<Rightarrow> char" where
  "lower_char c =
     (if is_upper c then ''abcdefghijklmnopqrstuvwxyz'' ! ((of_char c :: nat) - 65) else c)"

definition lower :: "string \<Rightarrow> string" where
  "lower s = map lower_char s"

definition is_digit :: "char \<Rightarrow> bool" where
  "is_digit c = (48 \<le> (of_char c :: nat) \<and> (of_char c :: nat) \<le> 57)"

definition is_alpha :: "char \<Rightarrow> bool" where
  "is_alpha c = (is_upper c \<or> (97 \<le> (of_char c :: nat) \<and> (of_char c :: nat) \<le> 122))"

definition is_word :: "char \<Rightarrow> bool" where
  "is_word c = (is_alpha c \<or> is_digit c \<or> c = CHR ''_'')"

text \<open>\<open>\s\<close> on \<open>str\<close>: tab, newline, vertical tab, form feed, carriage return, the four
  separators 0x1C..0x1F and the space.\<close>

definition is_space :: "char \<Rightarrow> bool" where
  "is_space c = ((9 \<le> (of_char c :: nat) \<and> (of_char c :: nat) \<le> 13) \<or>
                 (28 \<le> (of_char c :: nat) \<and> (of_char c :: nat) \<le> 32))"

text \<open>\<open>int(s)\<close> on a string of decimal digits.\<close>

definition digits_to_int :: "string \<Rightarrow> int" where
  "digits_to_int s = foldl (\<lambda>acc c. 10 * acc + (int (of_char c) - 48)) 0 s"

text \<open>\<open>s.split(sep)\<close> for a one-character separator: never empty, one more piece than
  separators.\<close>

fun split_on :: "char \<Rightarrow> string \<Rightarrow> string list" where
  "split_on sep [] = [[]]"
| "split_on sep (x # xs) =
     (if x = sep then [] # split_on sep xs
      else (case split_on sep xs of
              [] \<Rightarrow> [[x]]
            | l # ls \<Rightarrow> (x # l) # ls))"

text \<open>Truthiness of an optional string: \<open>None\<close> and \<open>''''\<close> are falsy.\<close>

fun truthy :: "string option \<Rightarrow> bool" where
  "truthy None = False"
| "truthy (Some s) = (s \<noteq> [])"


section \<open>The regular expressions of the source\<close>

text \<open>
  The patterns used by the analysed functions are sequences of literals, ordered
  alternations of literals \<open>(?:a|b)\<close>, greedy bounded repetitions of one character class
  (\<open>\s+\<close>, \<open>\d{1,2}\<close>, \<open>:?\<close>), at most one capture group around such a repetition, and the
  word boundary \<open>\b\<close>; a pattern may be a top-level alternation of such sequences. The
  matcher is the backtracking matcher of \<open>re\<close>: alternatives are tried in order, a
  repetition tries the longest run first.
\<close>

datatype cls = Digit | Space | Word | Handle | Only char

fun in_cls :: "cls \<Rightarrow> char \<Rightarrow> bool" where
  "in_cls Digit c = is_digit c"
| "in_cls Space c = is_space c"
| "in_cls Word c = is_word c"
| "in_cls Handle c = (is_alpha c \<or> is_digit c \<or> c = CHR ''.'' \<or> c = CHR ''_'')"
| "in_cls (Only d) c = (c = d)"

datatype atom =
    Lit string
  | Alts "string list"
  | Rep cls nat "nat option"
  | Cap cls nat "nat option"
  | WordB

record regex =
  alternatives :: "atom list list"
  ignorecase :: bool

fun first_some :: "('a \<Rightarrow> 'b option) \<Rightarrow> 'a list \<Rightarrow> 'b option" where
  "first_some f [] = None"
| "first_some f (x # xs) = (case f x of Some y \<Rightarrow> Some y | None \<Rightarrow> first_some f xs)"

definition lit_prefix :: "bool \<Rightarrow> string \<Rightarrow> string \<Rightarrow> bool" where
  "lit_prefix ic l s =
     (if ic then lower l = lower (take (length l) s) else l = take (length l) s)"

text \<open>The character just before the position reached after consuming \<open>n\<close> characters.\<close>

definition prev_after :: "char option \<Rightarrow> string \<Rightarrow> nat \<Rightarrow> char option" where
  "prev_after prev s n = (if n = 0 \<or> length s < n then prev else Some (s ! (n - 1)))"

definition at_boundary :: "char option \<Rightarrow> string \<Rightarrow> bool" where
  "at_boundary prev s =
     ((case prev of None \<Rightarrow> False | Some c \<Rightarrow> is_word c) \<noteq>
      (case s of [] \<Rightarrow> False | c # _ \<Rightarrow> is_word c))"

text \<open>The lengths a greedy repetition tries, longest first.\<close>

definition rep_counts :: "cls \<Rightarrow> nat \<Rightarrow> nat option \<Rightarrow> string \<Rightarrow> nat list" where
  "rep_counts c lo hi s =
     (let run = length (takeWhile (in_cls c) s);
          top = (case hi of None \<Rightarrow> run | Some h \<Rightarrow> min h run)
      in rev [lo ..< Suc top])"

fun match_seq ::
  "bool \<Rightarrow> atom list \<Rightarrow> char option \<Rightarrow> string \<Rightarrow> string option \<Rightarrow>
   (string option \<times> string) option" where
  "match_seq ic [] prev s cap = Some (cap, s)"
| "match_seq ic (Lit l # r) prev s cap =
     (if lit_prefix ic l s
      then match_seq ic r (prev_after prev s (length l)) (drop (length l) s) cap
      else None)"
| "match_seq ic (Alts ls # r) prev s cap =
     first_some (\<lambda>l. if lit_prefix ic l s
                      then match_seq ic r (prev_after prev s (length l)) (drop (length l) s) cap
                      else None) ls"
| "match_seq ic (Rep c lo hi # r) prev s cap =
     first_some (\<lambda>n. match_seq ic r (prev_after prev s n) (drop n s) cap)
       (rep_counts c lo hi s)"
| "match_seq ic (Cap c lo hi # r) prev s cap =
     first_some (\<lambda>n. match_seq ic r (prev_after prev s n) (drop n s) (Some (take n s)))
       (rep_counts c lo hi s)"
| "match_seq ic (WordB # r) prev s cap =
     (if at_boundary prev s then match_seq ic r prev s cap else None)"

text \<open>A match at the current position: the reported text (the group when the pattern has
  one, else the whole match) and the number of characters consumed.\<close>

definition match_here :: "regex \<Rightarrow> char option \<Rightarrow> string \<Rightarrow> (string \<times> nat) option" where
  "match_here re prev s =
     (case first_some (\<lambda>alt. match_seq (ignorecase re) alt prev s None) (alternatives re) of
        None \<Rightarrow> None
      | Some (cap, rest) \<Rightarrow>
          (let n = length s - length rest
           in Some (case cap of Some g \<Rightarrow> g | None \<Rightarrow> take n s, n)))"

text \<open>\<open>re.findall\<close>: leftmost matches, left to right, not overlapping. None of the
  patterns below matches the empty string; a zero-length match would advance by one
  character.\<close>

fun findall_from :: "regex \<Rightarrow> char option \<Rightarrow> nat \<Rightarrow> string \<Rightarrow> string list" where
  "findall_from re prev skip [] = []"
| "findall_from re prev (Suc k) (c # cs) = findall_from re (Some c) k cs"
| "findall_from re prev 0 (c # cs) =
     (case match_here re prev (c # cs) of
        None \<Rightarrow> findall_from re (Some c) 0 cs
      | Some (g, n) \<Rightarrow> g # findall_from re (Some c) (n - 1) cs)"

definition findall :: "regex \<Rightarrow> string \<Rightarrow> string list" where
  "findall re s = findall_from re None 0 s"

definition search :: "regex \<Rightarrow> string \<Rightarrow> bool" where
  "search re s = (findall re s \<noteq> [])"

definition pat :: "atom list \<Rightarrow> regex" where
  "pat as = \<lparr>alternatives = [as], ignorecase = False\<rparr>"

definition ipat :: "atom list \<Rightarrow> regex" where
  "ipat as = \<lparr>alternatives = [as], ignorecase = True\<rparr>"


section \<open>Double-precision arithmetic\<close>

text \<open>
  A Python \<open>float\<close> is an IEEE 754 binary64 number. Such a number is modelled by the
  rational it denotes, and each arithmetic operation by the exact operation followed by
  the rounding to the nearest number with a 53-bit significand, a tie going to the even
  significand. The exponent range is not bounded: overflow and gradual underflow do not
  occur for the magnitudes computed here.
\<close>

text \<open>\<open>round(x)\<close> to the nearest integer, a tie to the even neighbour.\<close>

definition round_half_even :: "rat \<Rightarrow> int" where
  "round_half_even x =
     (let f = \<lfloor>x\<rfloor>; d = x - of_int f
      in if d < 1 / 2 then f else if 1 / 2 < d then f + 1 else if even f then f else f + 1)"

definition pow2 :: "int \<Rightarrow> rat" where
  "pow2 e = (if 0 \<le> e then 2 ^ nat e else 1 / 2 ^ nat (- e))"

text \<open>For \<open>x > 0\<close>, the exponent \<open>e\<close> with \<open>2^e \<le> x < 2^(e+1)\<close>.\<close>

definition binade :: "rat \<Rightarrow> int" where
  "binade x =
     (let e0 = bitlen (fst (quotient_of x)) - bitlen (snd (quotient_of x))
      in if pow2 e0 \<le> x then e0 else e0 - 1)"

text \<open>The double nearest to a rational.\<close>

definition dbl :: "rat \<Rightarrow> rat" where
  "dbl x =
     (if x = 0 then 0
      else let u = pow2 (binade \<bar>x\<bar> - 52)
           in of_int (round_half_even (x / u)) * u)"

definition fadd :: "rat \<Rightarrow> rat \<Rightarrow> rat" where
  "fadd a b = dbl (a + b)"

definition fmul :: "rat \<Rightarrow> rat \<Rightarrow> rat" where
  "fmul a b = dbl (a * b)"

definition fdiv :: "rat \<Rightarrow> rat \<Rightarrow> rat" where
  "fdiv a b = dbl (a / b)"
section \<open>Age extraction (\<open>extract_age\<close>)\<close>

text \<open>The four direct age patterns, in the order of the source:
  \<^verbatim>\<open>(?:I am|I'm)\s+(\d{1,2})\<close>, \<^verbatim>\<open>age\s*:?\s*(\d{1,2})\<close>,
  \<^verbatim>\<open>(\d{1,2})\s*(?:years|yrs)\s*old\<close>, \<^verbatim>\<open>(\d{1,2})\s*y\.?o\<close>, all with IGNORECASE.\<close>

definition age_patterns :: "regex list" where
  "age_patterns =
     [ipat [Alts [''I am'', [CHR ''I'', CHR 0x27, CHR ''m'']], Rep Space 1 None,
            Cap Digit 1 (Some 2)],
      ipat [Lit ''age'', Rep Space 0 None, Rep (Only CHR '':'') 0 (Some 1), Rep Space 0 None,
            Cap Digit 1 (Some 2)],
      ipat [Cap Digit 1 (Some 2), Rep Space 0 None, Alts [''years'', ''yrs''],
            Rep Space 0 None, Lit ''old''],
      ipat [Cap Digit 1 (Some 2), Rep Space 0 None, Lit ''y'',
            Rep (Only CHR ''.'') 0 (Some 1), Lit ''o'']]"

text \<open>The birth-year patterns: \<^verbatim>\<open>born\s+in\s+(\d{4})\<close>, \<^verbatim>\<open>b\.\s*(\d{4})\<close>,
  \<^verbatim>\<open>est\.\s*(\d{4})\<close>.\<close>

definition year_patterns :: "regex list" where
  "year_patterns =
     [ipat [Lit ''born'', Rep Space 1 None, Lit ''in'', Rep Space 1 None,
            Cap Digit 4 (Some 4)],
      ipat [Lit ''b.'', Rep Space 0 None, Cap Digit 4 (Some 4)],
      ipat [Lit ''est.'', Rep Space 0 None, Cap Digit 4 (Some 4)]]"

text \<open>The chain of \<open>if/elif\<close> that names the age group (written out twice in the
  source, with the same bounds).\<close>

definition age_group_of :: "int \<Rightarrow> string" where
  "age_group_of age =
     (if age < 18 then ''Under 18''
      else if age < 25 then ''18-24''
      else if age < 30 then ''25-29''
      else if age < 35 then ''25-34''
      else if age < 45 then ''35-44''
      else ''45+'')"

text \<open>The first loop: each pattern in turn; only \<open>matches[0]\<close> is read; a value outside
  13..100 sends the loop on to the next pattern.\<close>

fun direct_age :: "regex list \<Rightarrow> string \<Rightarrow> int option" where
  "direct_age [] text = None"
| "direct_age (p # ps) text =
     (case findall p text of
        [] \<Rightarrow> direct_age ps text
      | m # _ \<Rightarrow>
          (let age = digits_to_int m
           in if 13 \<le> age \<and> age \<le> 100 then Some age else direct_age ps text))"

text \<open>The second loop, over the birth-year patterns; \<open>current_year\<close> is
  \<open>datetime.now().year\<close>.\<close>

fun birth_year_age :: "int \<Rightarrow> regex list \<Rightarrow> string \<Rightarrow> int option" where
  "birth_year_age current_year [] text = None"
| "birth_year_age current_year (p # ps) text =
     (case findall p text of
        [] \<Rightarrow> birth_year_age current_year ps text
      | m # _ \<Rightarrow>
          (let year = digits_to_int m
           in if 1920 \<le> year \<and> year \<le> current_year - 13 then Some (current_year - year)
              else birth_year_age current_year ps text))"

text \<open>The third loop, over the lines of the text.\<close>

fun stage_guess :: "string list \<Rightarrow> string option" where
  "stage_guess [] = None"
| "stage_guess (post # posts) =
     (if sublist ''college'' (lower post) \<or> sublist ''university'' (lower post)
      then Some ''18-24''
      else if sublist ''career'' (lower post) \<or> sublist ''job'' (lower post)
      then Some ''25-29''
      else stage_guess posts)"

definition extract_age :: "int \<Rightarrow> string \<Rightarrow> int option \<times> string option" where
  "extract_age current_year text =
     (if text = [] then (None, None)
      else case direct_age age_patterns text of
        Some age \<Rightarrow> (Some age, Some (age_group_of age))
      | None \<Rightarrow>
         (case birth_year_age current_year year_patterns text of
            Some age \<Rightarrow> (Some age, Some (age_group_of age))
          | None \<Rightarrow>
             (case stage_guess (split_on CHR 0x0A text) of
                Some g \<Rightarrow> (None, Some g)
              | None \<Rightarrow> (None, Some ''25-29''))))"

text \<open>The values the first loop reads: the first match of each pattern that matches, in
  pattern order.\<close>

definition first_mentions :: "string \<Rightarrow> int list" where
  "first_mentions text =
     map (\<lambda>ms. digits_to_int (hd ms))
       (filter (\<lambda>ms. ms \<noteq> []) (map (\<lambda>p. findall p text) age_patterns))"

definition plausible_age :: "int \<Rightarrow> bool" where
  "plausible_age n = (13 \<le> n \<and> n \<le> 100)"


section \<open>Posts\<close>

text \<open>
  A post is one element of the \<open>edges\<close> list of the timeline; the fields are the ones the
  analysis reads from its \<open>node\<close>, each with the default of the \<open>.get\<close> that reads it:
  \<open>caption.text\<close> (\<open>''''\<close> when absent), \<open>taken_at\<close>, \<open>like_count\<close> and \<open>comment_count\<close> (0
  when absent), whether \<open>is_paid_partnership\<close> is the value \<open>True\<close>, \<open>user.username\<close>,
  \<open>owner.username\<close>, and the \<open>username\<close> of each element of \<open>coauthor_producers\<close> (no
  element when the list is absent).
\<close>

record post =
  caption_text :: string
  taken_at :: "int option"
  like_count :: int
  comment_count :: int
  is_paid_partnership :: bool
  user_username :: "string option"
  owner_username :: "string option"
  coauthor_usernames :: "string option list"


section \<open>Niche classification (\<open>identify_niche\<close>)\<close>

text \<open>\<open>extract_hashtags\<close>: \<^verbatim>\<open>re.findall(r'#(\w+)', text)\<close>.\<close>

definition hashtag_pattern :: regex where
  "hashtag_pattern = pat [Lit ''#'', Cap Word 1 None]"

definition extract_hashtags :: "string \<Rightarrow> string list" where
  "extract_hashtags text = (if text = [] then [] else findall hashtag_pattern text)"

definition all_hashtags :: "post list \<Rightarrow> string list" where
  "all_hashtags posts = concat (map (\<lambda>p. extract_hashtags (caption_text p)) posts)"

text \<open>The frequency table: a dictionary in insertion order, keyed by the lowercased
  tag.\<close>

definition hashtag_counts :: "post list \<Rightarrow> (string \<times> nat) list" where
  "hashtag_counts posts =
     foldl (\<lambda>counts tag.
              AList.update (lower tag)
                ((case map_of counts (lower tag) of None \<Rightarrow> 0 | Some n \<Rightarrow> n) + 1) counts)
       [] (all_hashtags posts)"

definition niche_categories :: "(string \<times> string list) list" where
  "niche_categories =
    [(''Fashion & Style'', [''fashion'', ''style'', ''outfit'', ''clothing'', ''model'', ''dress'',
        ''accessories'', ''fashionista'']),
     (''Beauty'', [''makeup'', ''skincare'', ''beauty'', ''cosmetics'', ''haircare'', ''nails'',
        ''glam'', ''makeupartist'']),
     (''Lifestyle'', [''lifestyle'', ''life'', ''daily'', ''routine'', ''inspiration'',
        ''motivation'']),
     (''Fitness'', [''fitness'', ''workout'', ''gym'', ''exercise'', ''health'', ''training'',
        ''muscle'', ''fit'']),
     (''Health'', [''health'', ''wellness'', ''nutrition'', ''diet'', ''healthy'', ''mindfulness'',
        ''meditation'']),
     (''Food'', [''food'', ''cooking'', ''recipe'', ''chef'', ''foodie'', ''cuisine'', ''baking'',
        ''delicious'', ''yummy'']),
     (''Travel'', [''travel'', ''wanderlust'', ''adventure'', ''explore'', ''tourism'',
        ''vacation'', ''trip'', ''journey'', ''destination'']),
     (''Technology'', [''technology'', ''tech'', ''gadget'', ''device'', ''software'', ''app'',
        ''smartphone'', ''computer'']),
     (''Gaming'', [''gaming'', ''gamer'', ''videogames'', ''game'', ''esports'', ''playstation'',
        ''xbox'', ''nintendo'']),
     (''Entertainment'', [''entertainment'', ''movie'', ''film'', ''tv'', ''television'',
        ''cinema'', ''streaming'']),
     (''Comedy'', [''comedy'', ''funny'', ''humor'', ''laugh'', ''joke'', ''prank'', ''skit'']),
     (''Education'', [''education'', ''learning'', ''school'', ''knowledge'', ''teach'', ''study'',
        ''student'', ''lesson'']),
     (''Business'', [''business'', ''entrepreneur'', ''marketing'', ''startup'', ''success'',
        ''money'']),
     (''Finance'', [''finance'', ''investing'', ''stocks'', ''cryptocurrency'', ''money'',
        ''financial'', ''wealth'']),
     (''Art & Design'', [''art'', ''artist'', ''drawing'', ''painting'', ''creative'', ''design'',
        ''illustration'']),
     (''Music'', [''music'', ''musician'', ''song'', ''singer'', ''artist'', ''band'', ''concert'']),
     (''Dance'', [''dance'', ''dancer'', ''choreography'', ''ballet'', ''hiphop'']),
     (''Sports'', [''sports'', ''athlete'', ''basketball'', ''football'', ''soccer'', ''baseball'',
        ''tennis'']),
     (''Pets & Animals'', [''pets'', ''dog'', ''cat'', ''animal'', ''puppy'', ''kitten'',
        ''wildlife'']),
     (''Family & Parenting'', [''family'', ''parenting'', ''mom'', ''dad'', ''children'', ''kids'',
        ''baby''])]"

text \<open>\<open>any(keyword in tag for keyword in keywords)\<close>: \<open>in\<close> on strings is the substring
  test.\<close>

definition any_keyword_in :: "string list \<Rightarrow> string \<Rightarrow> bool" where
  "any_keyword_in keywords tag = list_ex (\<lambda>keyword. sublist keyword tag) keywords"

text \<open>The scoring loops: for each counted tag, for each category, \<open>niche_scores[category]
  += count\<close> when a keyword occurs in the tag. Every category is a key of \<open>niche_scores\<close>
  from the start, so the update never misses.\<close>

definition score_tag ::
  "(string \<times> nat) list \<Rightarrow> string \<times> nat \<Rightarrow> (string \<times> nat) list" where
  "score_tag scores tc =
     foldl (\<lambda>sc (category, keywords).
              if any_keyword_in keywords (fst tc)
              then AList.map_entry category (\<lambda>s. s + snd tc) sc else sc)
       scores niche_categories"

definition niche_scores :: "post list \<Rightarrow> (string \<times> nat) list" where
  "niche_scores posts =
     foldl score_tag (map (\<lambda>(category, keywords). (category, 0)) niche_categories)
       (hashtag_counts posts)"

text \<open>\<open>round(x, 1)\<close>: to the nearest tenth, a tie to the even neighbour. The quotients
  are exact rationals here; Python rounds the double nearest to the quotient.\<close>

definition round1 :: "rat \<Rightarrow> rat" where
  "round1 x = of_int (round_half_even (x * 10)) / 10"

definition total_score :: "post list \<Rightarrow> nat" where
  "total_score posts =
     (let t = sum_list (map snd (niche_scores posts)) in if t = 0 then 1 else t)"

text \<open>The percentage of every category that scored, before the filter.\<close>

definition distribution :: "post list \<Rightarrow> (string \<times> rat) list" where
  "distribution posts =
     map (\<lambda>(category, score).
            (category, round1 (of_nat score / of_nat (total_score posts) * 100)))
       (filter (\<lambda>(category, score). 0 < score) (niche_scores posts))"

definition significant_distribution :: "post list \<Rightarrow> (string \<times> rat) list" where
  "significant_distribution posts = filter (\<lambda>(k, v). 2 \<le> v) (distribution posts)"

text \<open>\<open>sorted(..., key=score, reverse=True)\<close>: stable, highest score first.\<close>

definition sorted_niches :: "post list \<Rightarrow> (string \<times> nat) list" where
  "sorted_niches posts = sort_key (\<lambda>(category, score). - int score) (niche_scores posts)"

definition primary_niche :: "post list \<Rightarrow> string option" where
  "primary_niche posts =
     (case sorted_niches posts of
        [] \<Rightarrow> None
      | (category, score) # _ \<Rightarrow> if 0 < score then Some category else None)"

definition secondary_niches :: "post list \<Rightarrow> string list" where
  "secondary_niches posts =
     map fst (filter (\<lambda>(category, score). 0 < score) (take 3 (drop 1 (sorted_niches posts))))"

text \<open>The result of \<open>identify_niche\<close>, without \<open>confidence_scores\<close> (a truncation of a
  floating-point quotient that nothing below reads).\<close>

record niche_analysis =
  primary :: "string option"
  secondary :: "string list"
  niche_distribution :: "(string \<times> rat) list"

definition identify_niche :: "post list \<Rightarrow> niche_analysis" where
  "identify_niche posts =
     \<lparr>primary = primary_niche posts,
      secondary = secondary_niches posts,
      niche_distribution = significant_distribution posts\<rparr>"

text \<open>The number of occurrences of a lowercased tag among the hashtags of the posts.\<close>

definition tag_occurrences :: "post list \<Rightarrow> string \<Rightarrow> nat" where
  "tag_occurrences posts tag = count_list (map lower (all_hashtags posts)) tag"

definition mk_post :: "string \<Rightarrow> post" where
  "mk_post caption =
     \<lparr>caption_text = caption, taken_at = None, like_count = 0, comment_count = 0,
      is_paid_partnership = False, user_username = None, owner_username = None,
      coauthor_usernames = []\<rparr>"

text \<open>Auxiliary notions for the proofs: one step of the counting loop, and the number of
  entries of a category table that carry a given name and match a tag.\<close>

definition count_step :: "(string \<times> nat) list \<Rightarrow> string \<Rightarrow> (string \<times> nat) list" where
  "count_step counts tag = AList.update (lower tag)
                ((case map_of counts (lower tag) of None \<Rightarrow> 0 | Some n \<Rightarrow> n) + 1) counts"

definition hits :: "string \<Rightarrow> (string \<times> string list) list \<Rightarrow> string \<Rightarrow> nat" where
  "hits category cats tag =
     length (filter (\<lambda>(c, keywords). c = category \<and> any_keyword_in keywords tag) cats)"


section \<open>Gender detection (\<open>detect_gender_from_text\<close>)\<close>

text \<open>
  The reference tables that the module loads at start: the two name lists (sets of
  lowercased lines) and the lists \<open>female_dominated\<close> and \<open>male_dominated\<close> of
  \<open>gendered_niches.json\<close>. Their contents are not part of the sources; they are a
  parameter.
\<close>

record tables =
  MALE_NAMES :: "string set"
  FEMALE_NAMES :: "string set"
  female_dominated :: "string list"
  male_dominated :: "string list"

text \<open>
  The indicator patterns, each with IGNORECASE:
  \<^verbatim>\<open>\b(?:she|her|woman|girl|female|mom|mother|wife|daughter|sister)\b\<close> and the female
  sign; \<^verbatim>\<open>\b(?:he|him|man|boy|male|dad|father|husband|son|brother)\b\<close> and the male sign.
  The two signs (U+2640, U+2642) stand as their UTF-8 bytes.
\<close>

definition female_indicators :: "regex list" where
  "female_indicators =
     [ipat [WordB, Alts [''she'', ''her'', ''woman'', ''girl'', ''female'', ''mom'', ''mother'',
                         ''wife'', ''daughter'', ''sister''], WordB],
      ipat [Lit [CHR 0xE2, CHR 0x99, CHR 0x80]]]"

definition male_indicators :: "regex list" where
  "male_indicators =
     [ipat [WordB, Alts [''he'', ''him'', ''man'', ''boy'', ''male'', ''dad'', ''father'',
                         ''husband'', ''son'', ''brother''], WordB],
      ipat [Lit [CHR 0xE2, CHR 0x99, CHR 0x82]]]"

text \<open>\<open>for pattern in indicators: matches += len(re.findall(pattern, text))\<close>.\<close>

definition count_indicators :: "regex list \<Rightarrow> string \<Rightarrow> nat \<Rightarrow> nat" where
  "count_indicators indicators text matches =
     foldl (\<lambda>m pattern. m + length (findall pattern text)) matches indicators"

text \<open>The loop over the captions, on the pair \<open>(female_matches, male_matches)\<close>; an empty
  caption is skipped.\<close>

definition count_captions :: "string list \<Rightarrow> nat \<times> nat \<Rightarrow> nat \<times> nat" where
  "count_captions captions fm =
     foldl (\<lambda>(f, m) caption.
              if caption = [] then (f, m)
              else (count_indicators female_indicators caption f,
                    count_indicators male_indicators caption m))
       fm captions"

definition niche_in :: "string list \<Rightarrow> string \<Rightarrow> bool" where
  "niche_in keywords niche_lower = list_ex (\<lambda>keyword. sublist keyword niche_lower) keywords"

text \<open>
  The function. \<open>first_name\<close> and \<open>niche\<close> may be \<open>None\<close>. The scores and the confidence
  are Python floats: a literal such as \<open>0.35\<close> is the double nearest to 7/20, the quotient
  of two integers is the double nearest to the exact quotient, and each product and each
  sum is rounded. The integer scores \<open>-1\<close>, \<open>0\<close>, \<open>1\<close> convert exactly. The weighted sum
  associates to the left.
\<close>

definition detect_gender_from_text ::
  "tables \<Rightarrow> string \<Rightarrow> string list \<Rightarrow> string option \<Rightarrow> string option \<Rightarrow> string \<times> rat" where
  "detect_gender_from_text tb bio captions first_name niche =
     (let name_score =
            (if truthy first_name
             then (if lower (the first_name) \<in> MALE_NAMES tb then - 1
                   else if lower (the first_name) \<in> FEMALE_NAMES tb then 1 else 0)
             else (0::rat));
          fm0 = (if bio \<noteq> []
                 then (count_indicators female_indicators bio 0,
                       count_indicators male_indicators bio 0)
                 else (0, 0));
          fm = count_captions captions fm0;
          female_matches = fst fm;
          male_matches = snd fm;
          total_matches = female_matches + male_matches;
          content_score =
            (if 0 < total_matches
             then fdiv (of_nat female_matches - of_nat male_matches) (of_nat total_matches)
             else (0::rat));
          niche_score =
            (if truthy niche
             then (if niche_in (female_dominated tb) (lower (the niche)) then dbl (4 / 5)
                   else if niche_in (male_dominated tb) (lower (the niche)) then - dbl (4 / 5)
                   else 0)
             else (0::rat));
          final_score =
            fadd (fadd (fmul (dbl (1 / 2)) name_score) (fmul (dbl (7 / 20)) content_score))
              (fmul (dbl (3 / 20)) niche_score)
      in if dbl (1 / 10) < final_score then (''Female'', \<bar>final_score\<bar>)
         else if final_score < - dbl (1 / 10) then (''Male'', \<bar>final_score\<bar>)
         else if truthy niche \<and> niche_in (female_dominated tb) (lower (the niche))
           then (''Female'', dbl (3 / 5))
         else if truthy niche \<and> niche_in (male_dominated tb) (lower (the niche))
           then (''Male'', dbl (3 / 5))
         else if truthy first_name \<and> lower (the first_name) \<in> MALE_NAMES tb
           then (''Male'', dbl (7 / 10))
         else if truthy first_name \<and> lower (the first_name) \<in> FEMALE_NAMES tb
           then (''Female'', dbl (7 / 10))
         else (''Female'', dbl (1 / 2)))"

text \<open>The three sub-scores and the decision, in the words of the specification, with the
  arithmetic of Python floats.\<close>

definition spec_name_score :: "tables \<Rightarrow> string option \<Rightarrow> rat" where
  "spec_name_score tb first_name =
     (case first_name of
        None \<Rightarrow> 0
      | Some n \<Rightarrow> if n = [] then 0
                  else if lower n \<in> MALE_NAMES tb then - 1
                  else if lower n \<in> FEMALE_NAMES tb then 1 else 0)"

definition indicator_matches :: "regex list \<Rightarrow> string \<Rightarrow> string list \<Rightarrow> nat" where
  "indicator_matches indicators bio captions =
     sum_list (map (\<lambda>text. sum_list (map (\<lambda>pattern. length (findall pattern text)) indicators))
                 (bio # captions))"

definition spec_content_score :: "string \<Rightarrow> string list \<Rightarrow> rat" where
  "spec_content_score bio captions =
     (let f = indicator_matches female_indicators bio captions;
          m = indicator_matches male_indicators bio captions
      in if f + m = 0 then 0 else dbl ((of_nat f - of_nat m) / (of_nat f + of_nat m)))"

definition in_gendered_niche :: "string list \<Rightarrow> string option \<Rightarrow> bool" where
  "in_gendered_niche keywords niche =
     (case niche of
        None \<Rightarrow> False
      | Some n \<Rightarrow> n \<noteq> [] \<and> (\<exists>keyword \<in> set keywords. sublist keyword (lower n)))"

definition spec_niche_score :: "tables \<Rightarrow> string option \<Rightarrow> rat" where
  "spec_niche_score tb niche =
     (if in_gendered_niche (female_dominated tb) niche then dbl (4 / 5)
      else if in_gendered_niche (male_dominated tb) niche then - dbl (4 / 5) else 0)"

text \<open>\<open>0.5 * name + 0.35 * content + 0.15 * niche\<close>, each product and each sum rounded.\<close>

definition spec_final_score ::
  "tables \<Rightarrow> string \<Rightarrow> string list \<Rightarrow> string option \<Rightarrow> string option \<Rightarrow> rat" where
  "spec_final_score tb bio captions first_name niche =
     dbl (dbl (dbl (dbl (1 / 2) * spec_name_score tb first_name)
               + dbl (dbl (7 / 20) * spec_content_score bio captions))
          + dbl (dbl (3 / 20) * spec_niche_score tb niche))"

text \<open>The same sum over the rational numbers, without any rounding.\<close>

definition exact_final_score ::
  "tables \<Rightarrow> string \<Rightarrow> string list \<Rightarrow> string option \<Rightarrow> string option \<Rightarrow> rat" where
  "exact_final_score tb bio captions first_name niche =
     (let f = indicator_matches female_indicators bio captions;
          m = indicator_matches male_indicators bio captions
      in 1 / 2 * spec_name_score tb first_name
         + 7 / 20 * (if f + m = 0 then 0 else (of_nat f - of_nat m) / (of_nat f + of_nat m))
         + 3 / 20 * (if in_gendered_niche (female_dominated tb) niche then 4 / 5
                     else if in_gendered_niche (male_dominated tb) niche then - (4 / 5) else 0))"

definition name_listed :: "string set \<Rightarrow> string option \<Rightarrow> bool" where
  "name_listed names first_name =
     (case first_name of None \<Rightarrow> False | Some n \<Rightarrow> n \<noteq> [] \<and> lower n \<in> names)"

definition spec_fallback :: "tables \<Rightarrow> string option \<Rightarrow> string option \<Rightarrow> string \<times> rat" where
  "spec_fallback tb first_name niche =
     (if in_gendered_niche (female_dominated tb) niche then (''Female'', dbl (3 / 5))
      else if in_gendered_niche (male_dominated tb) niche then (''Male'', dbl (3 / 5))
      else if name_listed (MALE_NAMES tb) first_name then (''Male'', dbl (7 / 10))
      else if name_listed (FEMALE_NAMES tb) first_name then (''Female'', dbl (7 / 10))
      else (''Female'', dbl (1 / 2)))"

text \<open>Sample tables, and a bio with nine female indicators and one male indicator.\<close>

definition sample_tables :: tables where
  "sample_tables =
     \<lparr>MALE_NAMES = {''john''}, FEMALE_NAMES = {''anna''},
      female_dominated = [''beauty''], male_dominated = [''gaming'']\<rparr>"

definition nine_to_one :: string where
  "nine_to_one = ''she she she she she she she she she he''"

section \<open>The gender step of \<open>analyze_user_info\<close>\<close>

text \<open>\<open>s.split(sep)[0]\<close>: the part of \<open>s\<close> before the first occurrence of a non-empty
  separator, all of \<open>s\<close> when there is none.\<close>

fun split_before :: "string \<Rightarrow> string \<Rightarrow> string" where
  "split_before sep [] = []"
| "split_before sep (c # cs) = (if prefix sep (c # cs) then [] else c # split_before sep cs)"

text \<open>
  \<^verbatim>\<open>name_parts = full_name.split(' - ')[0].split(' ', 1) if ' - ' in full_name
                 else full_name.split(' ', 1)\<close>
  \<^verbatim>\<open>first_name = name_parts[0] if name_parts else None\<close>
  A split is never empty, so the first name is always a string (possibly empty).
\<close>

definition first_name_of :: "string \<Rightarrow> string option" where
  "first_name_of full_name =
     (if sublist '' - '' full_name
      then Some (split_before '' '' (split_before '' - '' full_name))
      else Some (split_before '' '' full_name))"

text \<open>
  From the computation of the niche to the special case for the name Chris: the pair
  \<open>(gender, confidence)\<close> after the override. The record that \<open>analyze_user_info\<close> returns
  stores \<open>gender\<close> under \<open>personal_details\<close>; \<open>confidence\<close> stays a local variable.
\<close>

definition analyze_user_info_gender ::
  "tables \<Rightarrow> string \<Rightarrow> string \<Rightarrow> post list \<Rightarrow> string \<times> rat" where
  "analyze_user_info_gender tb full_name bio posts =
     (let first_name = first_name_of full_name;
          niche_analysis = identify_niche posts;
          primary_niche = primary niche_analysis;
          captions = map caption_text posts;
          (gender, confidence) =
             detect_gender_from_text tb bio captions first_name primary_niche
      in if truthy first_name \<and> lower (the first_name) = ''chris'' \<and> gender = ''Female''
         then (''Male'', dbl (17 / 20))
         else (gender, confidence))"

text \<open>Empty reference tables.\<close>

definition no_tables :: tables where
  "no_tables = \<lparr>MALE_NAMES = {}, FEMALE_NAMES = {}, female_dominated = [], male_dominated = []\<rparr>"

section \<open>Posting cadence (\<open>analyze_post_info\<close>)\<close>

text \<open>The exceptions of the modelled code.\<close>

datatype error = UnboundLocalError string | KeyError string | TypeError | ValueError

text \<open>
  The \<open>posting_frequency\<close> entry of the analysis record, the only entry that
  \<open>analyze_post_info\<close> touches; \<open>analyze_user_info\<close> creates it with three \<open>None\<close> and two
  empty lists.
\<close>

record posting_frequency =
  overall_frequency :: "string option"
  days_since_last_post :: "int option"
  consistent_schedule :: "bool option"
  best_days :: "string list"
  best_times :: "string list"

definition initial_posting_frequency :: posting_frequency where
  "initial_posting_frequency =
     \<lparr>overall_frequency = None, days_since_last_post = None, consistent_schedule = None,
      best_days = [], best_times = []\<rparr>"

text \<open>
  \<open>datetime.fromtimestamp\<close> in a zone at a fixed offset (in seconds) from UTC: the name of
  the day (1 January 1970 was a Thursday) and the hour.
\<close>

definition day_name :: "int \<Rightarrow> int \<Rightarrow> string" where
  "day_name utc_offset ts =
     [''Monday'', ''Tuesday'', ''Wednesday'', ''Thursday'', ''Friday'', ''Saturday'', ''Sunday'']
       ! nat (((ts + utc_offset) div 86400 + 3) mod 7)"

definition hour_of :: "int \<Rightarrow> int \<Rightarrow> int" where
  "hour_of utc_offset ts = ((ts + utc_offset) mod 86400) div 3600"

text \<open>\<open>d[k] = d.get(k, 0) + 1\<close> on a dictionary in insertion order.\<close>

definition bump :: "'k \<Rightarrow> ('k \<times> nat) list \<Rightarrow> ('k \<times> nat) list" where
  "bump k d = AList.update k ((case map_of d k of None \<Rightarrow> 0 | Some n \<Rightarrow> n) + 1) d"

text \<open>The timestamps that are present and not zero (\<open>if timestamp:\<close>), in post order.\<close>

definition truthy_timestamps :: "post list \<Rightarrow> int list" where
  "truthy_timestamps posts =
     concat (map (\<lambda>p. case taken_at p of None \<Rightarrow> [] | Some t \<Rightarrow> if t = 0 then [] else [t]) posts)"

text \<open>\<open>time_diffs\<close>: the gaps between neighbours of the descending list, in days.\<close>

fun time_diffs :: "int list \<Rightarrow> rat list" where
  "time_diffs (a # b # ts) = (of_int (a - b) / (24 * 3600)) # time_diffs (b # ts)"
| "time_diffs ts = []"

definition frequency_name :: "rat \<Rightarrow> string" where
  "frequency_name avg_days_between_posts =
     (if avg_days_between_posts < 1 then ''Multiple times daily''
      else if avg_days_between_posts < 2 then ''Daily''
      else if avg_days_between_posts < 7 then ''Weekly''
      else if avg_days_between_posts < 14 then ''Bi-weekly''
      else if avg_days_between_posts < 31 then ''Monthly''
      else ''Infrequent'')"

definition time_ranges :: "(string \<times> int list) list" where
  "time_ranges =
     [(''Early Morning (5am-8am)'', [5, 6, 7, 8]),
      (''Morning (8am-12pm)'', [9, 10, 11, 12]),
      (''Afternoon (12pm-5pm)'', [13, 14, 15, 16, 17]),
      (''Evening (5pm-10pm)'', [18, 19, 20, 21, 22]),
      (''Night (10pm-5am)'', [23, 0, 1, 2, 3, 4])]"

definition range_counts :: "(int \<times> nat) list \<Rightarrow> (string \<times> nat) list" where
  "range_counts post_hours =
     foldl (\<lambda>rc (hour, count).
              foldl (\<lambda>rc (range_name, hours).
                       if hour \<in> set hours
                       then AList.map_entry range_name (\<lambda>c. c + count) rc else rc)
                rc time_ranges)
       (map (\<lambda>(range_name, hours). (range_name, 0)) time_ranges) post_hours"

text \<open>
  The function, on the posts of \<open>post_info\<close> and the \<open>posting_frequency\<close> entry; \<open>now\<close> is
  the current time in seconds. \<open>overall_frequency\<close>, \<open>days_since_last_post\<close> and
  \<open>consistent_schedule\<close> are assigned only inside \<open>if post_timestamps:\<close>, and the final
  \<open>update\<close> reads them in this order whatever happened before.
\<close>

definition analyze_post_info ::
  "int \<Rightarrow> int \<Rightarrow> post list \<Rightarrow> posting_frequency \<Rightarrow> error + posting_frequency" where
  "analyze_post_info utc_offset now posts pf =
     (if posts = [] then Inr pf
      else
        let stamps = truthy_timestamps posts;
            post_days = foldl (\<lambda>d t. bump (day_name utc_offset t) d) [] stamps;
            post_hours = foldl (\<lambda>d t. bump (hour_of utc_offset t) d) [] stamps;
            post_timestamps = rev (sort stamps);
            best_days' =
              (if post_days = [] then []
               else map fst (take 3 (sort_key (\<lambda>(day, n). - int n) post_days)));
            best_times' =
              (if post_hours = [] then []
               else map fst (filter (\<lambda>(r, n). 0 < n)
                       (take 2 (sort_key (\<lambda>(r, n). - int n) (range_counts post_hours)))))
        in if post_timestamps = [] then Inl (UnboundLocalError ''overall_frequency'')
           else
             let days = (now - hd post_timestamps) div 86400;
                 diffs = time_diffs post_timestamps;
                 avg_days_between_posts = sum_list diffs / of_nat (length diffs)
             in Inr \<lparr>overall_frequency =
                       Some (if 1 < length post_timestamps
                             then frequency_name avg_days_between_posts else ''N/A''),
                     days_since_last_post = Some days,
                     consistent_schedule =
                       (if 1 < length post_timestamps
                        then Some (\<not> list_ex (\<lambda>diff. 2 < \<bar>diff - avg_days_between_posts\<bar>) diffs)
                        else None),
                     best_days = best_days',
                     best_times = best_times'\<rparr>)"

section \<open>Brand collaborations (\<open>identify_collaborations\<close>)\<close>

text \<open>The per-token statistics, the provenance flags, and one entry of
  \<open>top_collaborations\<close>.\<close>

record tally =
  count :: nat
  is_recent :: bool

record sources =
  mention :: bool
  hashtag :: bool

record collab = tally +
  name :: string
  types :: "string list"
  engagement :: int
  source :: string

record counting =
  mentions_count :: "(string \<times> tally) list"
  hashtags_count :: "(string \<times> tally) list"
  brand_sources :: "(string \<times> sources) list"

text \<open>\<open>recent_threshold = 300\<close> days before \<open>now\<close> (in seconds); a post without a truthy
  \<open>taken_at\<close> is not recent.\<close>

definition recent_post :: "int \<Rightarrow> post \<Rightarrow> bool" where
  "recent_post now p =
     (case taken_at p of
        None \<Rightarrow> False
      | Some t \<Rightarrow> t \<noteq> 0 \<and> now - 300 * 86400 < t)"

text \<open>\<^verbatim>\<open>re.findall(r'@([A-Za-z0-9._]+)', caption)\<close>.\<close>

definition mention_pattern :: regex where
  "mention_pattern = pat [Lit ''@'', Cap Handle 1 None]"

definition stop_words :: "string list" where
  "stop_words =
     [''the'', ''and'', ''for'', ''from'', ''with'', ''this'', ''that'', ''have'', ''has'', ''her'',
      ''his'', ''our'', ''my'', ''your'', ''their'', ''its'', ''as'', ''at'', ''by'', ''to'', ''in'',
      ''on'', ''of'', ''or'', ''if'']"

text \<open>The body of \<open>for mention in mentions\<close>.\<close>

definition count_mention :: "bool \<Rightarrow> counting \<Rightarrow> string \<Rightarrow> counting" where
  "count_mention recent st m =
     (if length m < 3 then st
      else if lower m \<in> set stop_words then st
      else
        let st1 =
              (if map_of (mentions_count st) m = None
               then st\<lparr>mentions_count :=
                         AList.update m \<lparr>count = 0, is_recent = False\<rparr> (mentions_count st),
                       brand_sources :=
                         AList.update m \<lparr>mention = True, hashtag = False\<rparr> (brand_sources st)\<rparr>
               else st\<lparr>brand_sources :=
                         AList.map_entry m (\<lambda>s. s\<lparr>mention := True\<rparr>) (brand_sources st)\<rparr>)
        in st1\<lparr>mentions_count :=
                 AList.map_entry m
                   (\<lambda>t. \<lparr>count = count t + 1,
                         is_recent = (if recent \<and> \<not> is_recent t then True else is_recent t)\<rparr>)
                   (mentions_count st1)\<rparr>)"

text \<open>The body of \<open>for hashtag in hashtags\<close>.\<close>

definition count_hashtag :: "bool \<Rightarrow> counting \<Rightarrow> string \<Rightarrow> counting" where
  "count_hashtag recent st h =
     (let st1 =
            (if map_of (hashtags_count st) h = None
             then st\<lparr>hashtags_count :=
                       AList.update h \<lparr>count = 0, is_recent = False\<rparr> (hashtags_count st),
                     brand_sources :=
                       (if map_of (brand_sources st) h = None
                        then AList.update h \<lparr>mention = False, hashtag = True\<rparr> (brand_sources st)
                        else AList.map_entry h (\<lambda>s. s\<lparr>hashtag := True\<rparr>) (brand_sources st))\<rparr>
             else st)
      in st1\<lparr>hashtags_count :=
               AList.map_entry h
                 (\<lambda>t. \<lparr>count = count t + 1,
                       is_recent = (if recent \<and> \<not> is_recent t then True else is_recent t)\<rparr>)
                 (hashtags_count st1)\<rparr>)"

text \<open>The body of the first \<open>for post in posts\<close>.\<close>

definition count_post :: "int \<Rightarrow> counting \<Rightarrow> post \<Rightarrow> counting" where
  "count_post now st p =
     (if caption_text p = [] then st
      else
        let st1 = foldl (count_mention (recent_post now p)) st
                    (findall mention_pattern (caption_text p))
        in foldl (count_hashtag (recent_post now p)) st1
             (findall hashtag_pattern (caption_text p)))"

definition count_posts :: "int \<Rightarrow> post list \<Rightarrow> counting" where
  "count_posts now posts =
     foldl (count_post now) \<lparr>mentions_count = [], hashtags_count = [], brand_sources = []\<rparr> posts"

text \<open>
  The engagement pass. A post is a brand post for \<open>brand\<close> when its caption matches
  \<^verbatim>\<open>'@' + re.escape(brand) + r'\b'\<close> or \<^verbatim>\<open>'#' + re.escape(brand) + r'\b'\<close>, ignoring
  case. \<open>all_brands\<close> is built from a set, whose order is not observable: it is only
  tested for membership.
\<close>

definition brand_post :: "string \<Rightarrow> string \<Rightarrow> bool" where
  "brand_post brand caption =
     (search (ipat [Lit (CHR ''@'' # brand), WordB]) caption
      \<or> search (ipat [Lit (CHR ''#'' # brand), WordB]) caption)"

definition all_brands :: "counting \<Rightarrow> string list" where
  "all_brands st = remdups (map fst (mentions_count st) @ map fst (hashtags_count st))"

text \<open>\<open>branded_engagement\<close>: for each brand post, its engagement and its brands.\<close>

definition branded_engagement :: "counting \<Rightarrow> post list \<Rightarrow> (int \<times> string list) list" where
  "branded_engagement st posts =
     concat (map (\<lambda>p.
        let total_engagement = like_count p + comment_count p;
            post_brands = filter (\<lambda>brand. brand_post brand (caption_text p)) (all_brands st)
        in if post_brands = [] then [] else [(total_engagement, post_brands)]) posts)"

text \<open>\<open>round(avg_engagement)\<close> over the brand posts of \<open>brand\<close>, 0 without any; the
  quotient is exact.\<close>

definition avg_engagement :: "(int \<times> string list) list \<Rightarrow> string \<Rightarrow> int" where
  "avg_engagement be brand =
     (let brand_engagements = filter (\<lambda>item. brand \<in> set (snd item)) be
      in if brand_engagements = [] then 0
         else round_half_even
                (of_int (sum_list (map fst brand_engagements))
                 / of_nat (length brand_engagements)))"

definition ad_indicators :: "regex list" where
  "ad_indicators =
     [ipat [WordB, Alts [''ad'', ''sponsored'', ''paid'', ''partner'', ''collab'', ''ambassador''],
            WordB],
      ipat [Lit ''#ad'', WordB],
      ipat [Lit ''#sponsored'', WordB],
      ipat [Lit ''#paidpartner'', WordB],
      ipat [Lit ''#sponsored_by'', WordB],
      ipat [Lit ''#partnership'', WordB]]"

text \<open>\<open>types\<close>: \<open>['ad']\<close> when some post that contains the brand also matches an ad
  indicator, else \<open>['organic']\<close>. \<open>contains\<close> is the pattern of the loop at hand.\<close>

definition collab_types :: "regex \<Rightarrow> post list \<Rightarrow> string list" where
  "collab_types contains posts =
     (if list_ex (\<lambda>p. search contains (caption_text p)
                       \<and> list_ex (\<lambda>pattern. search pattern (caption_text p)) ad_indicators) posts
      then [''ad''] else [''organic''])"

definition mention_or_hashtag :: "string \<Rightarrow> regex" where
  "mention_or_hashtag brand =
     \<lparr>alternatives = [[Lit (CHR ''@'' # brand)], [Lit (CHR ''#'' # brand)]], ignorecase = True\<rparr>"

definition hashtag_only :: "string \<Rightarrow> regex" where
  "hashtag_only brand = ipat [Lit (CHR ''#'' # brand)]"

text \<open>\<open>' & '.join(source_type)\<close>.\<close>

definition source_str :: "sources option \<Rightarrow> string" where
  "source_str s =
     (case s of
        None \<Rightarrow> []
      | Some f \<Rightarrow>
          (if mention f \<and> hashtag f then ''mention & hashtag''
           else if mention f then ''mention''
           else if hashtag f then ''hashtag'' else []))"

definition make_collab ::
  "counting \<Rightarrow> (int \<times> string list) list \<Rightarrow> regex \<Rightarrow> post list \<Rightarrow> string \<times> tally \<Rightarrow> collab" where
  "make_collab st be contains posts bd =
     \<lparr>count = count (snd bd), is_recent = is_recent (snd bd),
      name = fst bd,
      types = collab_types contains posts,
      engagement = avg_engagement be (fst bd),
      source = source_str (map_of (brand_sources st) (fst bd))\<rparr>"

text \<open>The loop over \<open>mentions_count.items()\<close>: tokens counted once are skipped.\<close>

definition mention_brands :: "counting \<Rightarrow> (string \<times> tally) list" where
  "mention_brands st = filter (\<lambda>bd. \<not> count (snd bd) < 2) (mentions_count st)"

text \<open>The loop over \<open>hashtags_count.items()\<close>: tokens that are mentions too, and tokens
  counted once, are skipped.\<close>

definition hashtag_brands :: "counting \<Rightarrow> (string \<times> tally) list" where
  "hashtag_brands st =
     filter (\<lambda>bd. map_of (mentions_count st) (fst bd) = None \<and> \<not> count (snd bd) < 2)
       (hashtags_count st)"

definition all_collabs :: "counting \<Rightarrow> post list \<Rightarrow> collab list" where
  "all_collabs st posts =
     (let be = branded_engagement st posts
      in map (\<lambda>bd. make_collab st be (mention_or_hashtag (fst bd)) posts bd) (mention_brands st)
         @ map (\<lambda>bd. make_collab st be (hashtag_only (fst bd)) posts bd) (hashtag_brands st))"

text \<open>\<open>all_collabs.sort(key=lambda x: (-1 if x['is_recent'] else 0, -x['engagement']))\<close>.\<close>

definition sort_collabs :: "collab list \<Rightarrow> collab list" where
  "sort_collabs cs =
     sort_key (\<lambda>x. ((if is_recent x then - 1 else 0 :: int), - engagement x)) cs"

text \<open>The lists \<open>recent_brands\<close> and \<open>previous_brands\<close> as the two loops append to them,
  and their copies without repeated names.\<close>

definition recent_brands_raw :: "counting \<Rightarrow> (string \<times> string) list" where
  "recent_brands_raw st =
     map (\<lambda>bd. (fst bd, ''mention'')) (filter (\<lambda>bd. is_recent (snd bd)) (mention_brands st))
     @ map (\<lambda>bd. (fst bd, ''hashtag'')) (filter (\<lambda>bd. is_recent (snd bd)) (hashtag_brands st))"

definition previous_brands_raw :: "counting \<Rightarrow> (string \<times> string) list" where
  "previous_brands_raw st =
     map (\<lambda>bd. (fst bd, ''mention'')) (mention_brands st)
     @ map (\<lambda>bd. (fst bd, ''hashtag'')) (hashtag_brands st)"

fun first_by_name :: "string list \<Rightarrow> (string \<times> string) list \<Rightarrow> (string \<times> string) list" where
  "first_by_name processed [] = []"
| "first_by_name processed (item # items) =
     (if fst item \<in> set processed then first_by_name processed items
      else item # first_by_name (fst item # processed) items)"

text \<open>The creator's own username: \<open>posts[0]['node']['user']['username']\<close>, when there is
  a post.\<close>

definition uname_of :: "post list \<Rightarrow> string option" where
  "uname_of posts = (case posts of [] \<Rightarrow> None | p # _ \<Rightarrow> user_username p)"

definition status_hashtags :: "string list" where
  "status_hashtags =
     [''ads'', ''ad'', ''collaboration'', ''collab'', ''usemycode'', ''partnership'', ''partner'']"

text \<open>The four rules, each a loop over all posts that stops at the first hit.\<close>

fun rule1 :: "post list \<Rightarrow> string option" where
  "rule1 [] = None"
| "rule1 (p # ps) = (if is_paid_partnership p then Some ''Active'' else rule1 ps)"

fun rule2_tags :: "string \<Rightarrow> string list \<Rightarrow> string option" where
  "rule2_tags caption_lower [] = None"
| "rule2_tags caption_lower (tag # tags) =
     (if sublist (CHR ''#'' # tag) caption_lower then Some ''Active''
      else rule2_tags caption_lower tags)"

fun rule2 :: "post list \<Rightarrow> string option" where
  "rule2 [] = None"
| "rule2 (p # ps) =
     (case (if caption_text p \<noteq> [] then rule2_tags (lower (caption_text p)) status_hashtags
            else None) of
        Some s \<Rightarrow> Some s
      | None \<Rightarrow> rule2 ps)"

fun rule3 :: "string option \<Rightarrow> post list \<Rightarrow> string option" where
  "rule3 uname [] = None"
| "rule3 uname (p # ps) =
     (if truthy (owner_username p) \<and> owner_username p \<noteq> uname then Some ''Active''
      else rule3 uname ps)"

fun rule4_coauthors :: "string option \<Rightarrow> string option list \<Rightarrow> string option" where
  "rule4_coauthors uname [] = None"
| "rule4_coauthors uname (c # cs) =
     (if truthy c \<and> c \<noteq> uname then Some ''Active'' else rule4_coauthors uname cs)"

fun rule4 :: "string option \<Rightarrow> post list \<Rightarrow> string option" where
  "rule4 uname [] = None"
| "rule4 uname (p # ps) =
     (case rule4_coauthors uname (coauthor_usernames p) of
        Some s \<Rightarrow> Some s
      | None \<Rightarrow> rule4 uname ps)"

definition final_status :: "post list \<Rightarrow> string option" where
  "final_status posts =
     (let uname = uname_of posts;
          s1 = rule1 posts;
          s2 = (if s1 = None then rule2 posts else s1);
          s3 = (if s2 = None then rule3 uname posts else s2);
          s4 = (if s3 = None then rule4 uname posts else s3)
      in s4)"

text \<open>The result, without the averaged engagement figures of \<open>metrics\<close> and
  \<open>engagement_metrics\<close> (floating-point roundings that nothing below reads).\<close>

record collaboration_info =
  status :: "string option"
  recent_brands_with_source :: "(string \<times> string) list"
  previous_brands_with_source :: "(string \<times> string) list"
  recent_brands :: "string list"
  previous_brands :: "string list"
  total_collaborations :: nat
  recent_count :: nat
  top_collaborations :: "collab list"

definition identify_collaborations :: "int \<Rightarrow> post list \<Rightarrow> collaboration_info" where
  "identify_collaborations now posts =
     (let st = count_posts now posts;
          recent = first_by_name [] (recent_brands_raw st);
          previous = first_by_name [] (previous_brands_raw st)
      in \<lparr>status = final_status posts,
          recent_brands_with_source = recent,
          previous_brands_with_source = previous,
          recent_brands = map fst recent,
          previous_brands = map fst previous,
          total_collaborations = length previous,
          recent_count = length recent,
          top_collaborations = sort_collabs (all_collabs st posts)\<rparr>)"

text \<open>The mention tokens that the counting loop skips: shorter than 3 characters, or a
  stop word in lower case.\<close>

definition rejected_token :: "string \<Rightarrow> bool" where
  "rejected_token m = (length m < 3 \<or> lower m \<in> set stop_words)"

text \<open>What the counting loop maintains: a counted mention was not rejected; a token
  flagged as a mention is a counted mention; a counted hashtag that is not a counted
  mention is flagged as a hashtag.\<close>

definition counting_inv :: "counting \<Rightarrow> bool" where
  "counting_inv st =
     ((\<forall>k. map_of (mentions_count st) k \<noteq> None \<longrightarrow> \<not> rejected_token k)
      \<and> (\<forall>k s. map_of (brand_sources st) k = Some s \<and> mention s \<longrightarrow>
                 map_of (mentions_count st) k \<noteq> None)
      \<and> (\<forall>k. map_of (hashtags_count st) k \<noteq> None \<and> map_of (mentions_count st) k = None \<longrightarrow>
               (\<exists>s. map_of (brand_sources st) k = Some s \<and> hashtag s)))"

text \<open>An example timeline of the creator \<open>me\<close>: two posts that mention \<open>@nike\<close>, \<open>@the\<close> and
  \<open>@ab\<close> and carry the hashtag \<open>#the\<close>.\<close>

definition nike_posts :: "post list" where
  "nike_posts =
     [(mk_post ''new shoes @nike @the @ab #the'')
        \<lparr>taken_at := Some 1789000000, like_count := 10, comment_count := 2,
         user_username := Some ''me'', owner_username := Some ''me''\<rparr>,
      (mk_post ''again @nike and @The @ab #the'')
        \<lparr>taken_at := Some 1700000000, like_count := 5, comment_count := 0,
         user_username := Some ''me'', owner_username := Some ''me'',
         coauthor_usernames := [Some ''me'', None]\<rparr>]"

section \<open>Geo-resolution (\<open>location_processor\<close>)\<close>

text \<open>
  The reference database \<open>gps_db['countries']\<close>: dictionaries in declared order, as
  association lists. A country has a name, a bounding box and up to six kinds of
  subdivisions (an absent kind is the empty list); a subdivision has a name, a bounding
  box, its major cities and its landmarks (absent: empty); a landmark has coordinates and
  may carry a city and a county, which are strings. Coordinates are finite numbers, each
  the real number that it denotes.
\<close>

record bounds =
  north :: real
  south :: real
  east :: real
  west :: real

record coords =
  lat :: real
  lng :: real

record landmark_data = coords +
  landmark_city :: "string option"
  landmark_county :: "string option"

record subdivision_data =
  sub_name :: string
  sub_bounds :: bounds
  major_cities :: "(string \<times> coords) list"
  landmarks :: "(string \<times> landmark_data) list"

record country_data =
  country_name :: string
  country_bounds :: bounds
  states :: "(string \<times> subdivision_data) list"
  provinces :: "(string \<times> subdivision_data) list"
  regions :: "(string \<times> subdivision_data) list"
  emirates :: "(string \<times> subdivision_data) list"
  countries :: "(string \<times> subdivision_data) list"
  governorates :: "(string \<times> subdivision_data) list"

type_synonym gps_db = "(string \<times> country_data) list"

text \<open>
  The floating-point operations that \<open>haversine_distance\<close> uses: the functions of the
  \<open>math\<close> module and the operators of \<open>float\<close>. Their roundings are those of the platform
  and are not fixed by the sources, so they are a parameter. On finite numbers the
  operators do not raise, sine and cosine do not raise, \<open>math.sqrt\<close> raises \<open>ValueError\<close>
  on a negative number and \<open>math.asin\<close> outside the interval from -1 to 1.
\<close>

record float_ops =
  m_radians :: "real \<Rightarrow> real"
  m_sin :: "real \<Rightarrow> real"
  m_cos :: "real \<Rightarrow> real"
  m_asin :: "real \<Rightarrow> real"
  m_sqrt :: "real \<Rightarrow> real"
  flt_add :: "real \<Rightarrow> real \<Rightarrow> real"
  flt_sub :: "real \<Rightarrow> real \<Rightarrow> real"
  flt_mul :: "real \<Rightarrow> real \<Rightarrow> real"
  flt_div :: "real \<Rightarrow> real \<Rightarrow> real"
  flt_pow :: "real \<Rightarrow> nat \<Rightarrow> real"

text \<open>The operations without rounding.\<close>

definition exact_math :: float_ops where
  "exact_math =
     \<lparr>m_radians = (\<lambda>x. x * pi / 180), m_sin = sin, m_cos = cos, m_asin = arcsin,
      m_sqrt = sqrt, flt_add = (\<lambda>x y. x + y), flt_sub = (\<lambda>x y. x - y),
      flt_mul = (\<lambda>x y. x * y), flt_div = (\<lambda>x y. x / y), flt_pow = (\<lambda>x n. x ^ n)\<rparr>"

definition haversine_distance ::
  "float_ops \<Rightarrow> real \<Rightarrow> real \<Rightarrow> real \<Rightarrow> real \<Rightarrow> error + real" where
  "haversine_distance ops lat1 lon1 lat2 lon2 =
     (let rlat1 = m_radians ops lat1;
          rlon1 = m_radians ops lon1;
          rlat2 = m_radians ops lat2;
          rlon2 = m_radians ops lon2;
          dlon = flt_sub ops rlon2 rlon1;
          dlat = flt_sub ops rlat2 rlat1;
          a = flt_add ops
                (flt_pow ops (m_sin ops (flt_div ops dlat 2)) 2)
                (flt_mul ops (flt_mul ops (m_cos ops rlat1) (m_cos ops rlat2))
                   (flt_pow ops (m_sin ops (flt_div ops dlon 2)) 2))
      in if a < 0 then Inl ValueError
         else let s = m_sqrt ops a
              in if s < - 1 \<or> 1 < s then Inl ValueError
                 else let c = flt_mul ops 2 (m_asin ops s);
                          r = 6371
                      in Inr (flt_mul ops c r))"

definition is_within_bounds :: "real \<Rightarrow> real \<Rightarrow> bounds \<Rightarrow> bool" where
  "is_within_bounds la lo b = (south b \<le> la \<and> la \<le> north b \<and> west b \<le> lo \<and> lo \<le> east b)"

fun find_country :: "real \<Rightarrow> real \<Rightarrow> gps_db \<Rightarrow> (string \<times> country_data) option" where
  "find_country la lo [] = None"
| "find_country la lo ((country_code, cd) # rest) =
     (if is_within_bounds la lo (country_bounds cd) then Some (country_code, cd)
      else find_country la lo rest)"

text \<open>The inner loop of \<open>find_subdivision\<close>, over the subdivisions of one kind.\<close>

fun find_in_kind ::
  "real \<Rightarrow> real \<Rightarrow> string \<Rightarrow> (string \<times> subdivision_data) list \<Rightarrow>
   (string \<times> subdivision_data \<times> string) option" where
  "find_in_kind la lo subdivision_type [] = None"
| "find_in_kind la lo subdivision_type ((sub_code, sd) # rest) =
     (if is_within_bounds la lo (sub_bounds sd) then Some (sub_code, sd, subdivision_type)
      else find_in_kind la lo subdivision_type rest)"

definition subdivision_types :: "(string \<times> (country_data \<Rightarrow> (string \<times> subdivision_data) list)) list" where
  "subdivision_types =
     [(''states'', states), (''provinces'', provinces), (''regions'', regions),
      (''emirates'', emirates), (''countries'', countries), (''governorates'', governorates)]"

definition find_subdivision ::
  "real \<Rightarrow> real \<Rightarrow> country_data \<Rightarrow> (string \<times> subdivision_data \<times> string) option" where
  "find_subdivision la lo cd =
     first_some (\<lambda>(subdivision_type, kind). find_in_kind la lo subdivision_type (kind cd))
       subdivision_types"

text \<open>
  The loops of \<open>find_city\<close> and \<open>find_landmark\<close> carry the closest candidate so far;
  \<open>None\<close> is the start, where \<open>closest_distance\<close> is \<open>float('inf')\<close>. A loop ends at the
  first distance that raises.
\<close>

definition closer_than :: "real \<Rightarrow> ('a \<times> real) option \<Rightarrow> bool" where
  "closer_than distance closest =
     (case closest of None \<Rightarrow> True | Some (x, closest_distance) \<Rightarrow> distance < closest_distance)"

fun city_loop ::
  "float_ops \<Rightarrow> real \<Rightarrow> real \<Rightarrow> (string \<times> coords) list \<Rightarrow> (string \<times> real) option \<Rightarrow>
   error + (string \<times> real) option" where
  "city_loop ops la lo [] closest = Inr closest"
| "city_loop ops la lo (x # rest) closest =
     (case haversine_distance ops la lo (lat (snd x)) (lng (snd x)) of
        Inl e \<Rightarrow> Inl e
      | Inr distance \<Rightarrow>
          city_loop ops la lo rest
            (if closer_than distance closest then Some (fst x, distance) else closest))"

definition find_city ::
  "float_ops \<Rightarrow> real \<Rightarrow> real \<Rightarrow> subdivision_data \<Rightarrow> real \<Rightarrow> error + (string \<times> real) option" where
  "find_city ops la lo sd max_distance_km =
     (case city_loop ops la lo (major_cities sd) None of
        Inl e \<Rightarrow> Inl e
      | Inr None \<Rightarrow> Inr None
      | Inr (Some (closest_city, closest_distance)) \<Rightarrow>
          if closest_distance \<le> max_distance_km then Inr (Some (closest_city, closest_distance))
          else Inr None)"

fun landmark_loop ::
  "float_ops \<Rightarrow> real \<Rightarrow> real \<Rightarrow> real \<Rightarrow> (string \<times> landmark_data) list \<Rightarrow>
   ((string \<times> landmark_data) \<times> real) option \<Rightarrow>
   error + ((string \<times> landmark_data) \<times> real) option" where
  "landmark_loop ops la lo max_distance_km [] closest = Inr closest"
| "landmark_loop ops la lo max_distance_km (x # rest) closest =
     (case haversine_distance ops la lo (lat (snd x)) (lng (snd x)) of
        Inl e \<Rightarrow> Inl e
      | Inr distance \<Rightarrow>
          landmark_loop ops la lo max_distance_km rest
            (if closer_than distance closest \<and> distance \<le> max_distance_km
             then Some (x, distance) else closest))"

definition find_landmark ::
  "float_ops \<Rightarrow> real \<Rightarrow> real \<Rightarrow> subdivision_data \<Rightarrow> real \<Rightarrow>
   error + ((string \<times> landmark_data) \<times> real) option" where
  "find_landmark ops la lo sd max_distance_km =
     landmark_loop ops la lo max_distance_km (landmarks sd) None"

text \<open>The loop of \<open>find_county\<close>: the distance is computed for the landmarks that carry
  a county only.\<close>

fun county_scan ::
  "float_ops \<Rightarrow> real \<Rightarrow> real \<Rightarrow> (string \<times> landmark_data) list \<Rightarrow> error + string option" where
  "county_scan ops la lo [] = Inr None"
| "county_scan ops la lo ((landmark_name, ld) # rest) =
     (if landmark_county ld \<noteq> None
      then (case haversine_distance ops la lo (lat ld) (lng ld) of
              Inl e \<Rightarrow> Inl e
            | Inr distance \<Rightarrow>
                if distance \<le> 1 then Inr (landmark_county ld)
                else county_scan ops la lo rest)
      else county_scan ops la lo rest)"

definition find_county ::
  "float_ops \<Rightarrow> real \<Rightarrow> real \<Rightarrow> subdivision_data \<Rightarrow> error + string option" where
  "find_county ops la lo sd = county_scan ops la lo (landmarks sd)"

text \<open>The result of \<open>determine_location\<close>.\<close>

record location =
  city :: "string option"
  state :: "string option"
  country :: "string option"
  county :: "string option"
  landmark :: "string option"
  postal_code :: "string option"
  full_location :: "string option"
  approximate :: bool

definition empty_location :: location where
  "empty_location =
     \<lparr>city = None, state = None, country = None, county = None, landmark = None,
      postal_code = None, full_location = None, approximate = True\<rparr>"

text \<open>\<open>', '.join(parts)\<close>.\<close>

fun join_comma :: "string list \<Rightarrow> string" where
  "join_comma [] = []"
| "join_comma [p] = p"
| "join_comma (p # q # ps) = p @ '', '' @ join_comma (q # ps)"

text \<open>The block that runs when a subdivision was found, in its three steps: the
  landmark, the city, the county.\<close>

definition with_landmark ::
  "((string \<times> landmark_data) \<times> real) option \<Rightarrow> location \<Rightarrow> location" where
  "with_landmark found result1 =
     (case found of
        None \<Rightarrow> result1
      | Some ((landmark_name, landmark_info), landmark_distance) \<Rightarrow>
          if landmark_name \<noteq> []
          then
            let r1 = result1\<lparr>landmark := Some landmark_name\<rparr>;
                r2 = (if landmark_city landmark_info \<noteq> None
                      then r1\<lparr>city := landmark_city landmark_info\<rparr> else r1);
                r3 = (if landmark_county landmark_info \<noteq> None
                      then r2\<lparr>county := landmark_county landmark_info\<rparr> else r2)
            in r3
          else result1)"

definition with_city ::
  "float_ops \<Rightarrow> real \<Rightarrow> real \<Rightarrow> subdivision_data \<Rightarrow> location \<Rightarrow> error + location" where
  "with_city ops la lo sd result2 =
     (if \<not> truthy (city result2)
      then (case find_city ops la lo sd 50 of
              Inl e \<Rightarrow> Inl e
            | Inr None \<Rightarrow> Inr result2
            | Inr (Some (city_name, city_distance)) \<Rightarrow>
                if city_name \<noteq> [] then Inr (result2\<lparr>city := Some city_name\<rparr>) else Inr result2)
      else Inr result2)"

definition with_county ::
  "float_ops \<Rightarrow> real \<Rightarrow> real \<Rightarrow> string \<Rightarrow> subdivision_data \<Rightarrow> location \<Rightarrow> error + location" where
  "with_county ops la lo country_code sd result3 =
     (if country_code = ''USA'' \<and> \<not> truthy (county result3)
      then (case find_county ops la lo sd of
              Inl e \<Rightarrow> Inl e
            | Inr c \<Rightarrow> if truthy c then Inr (result3\<lparr>county := c\<rparr>) else Inr result3)
      else Inr result3)"

definition resolve_in_subdivision ::
  "float_ops \<Rightarrow> real \<Rightarrow> real \<Rightarrow> string \<Rightarrow> subdivision_data \<Rightarrow> location \<Rightarrow> error + location" where
  "resolve_in_subdivision ops la lo country_code sd result0 =
     (let result1 = result0\<lparr>state := Some (sub_name sd)\<rparr>
      in case find_landmark ops la lo sd 5 of
           Inl e \<Rightarrow> Inl e
         | Inr found \<Rightarrow>
             (case with_city ops la lo sd (with_landmark found result1) of
                Inl e \<Rightarrow> Inl e
              | Inr result3 \<Rightarrow> with_county ops la lo country_code sd result3))"

definition location_parts :: "string \<Rightarrow> location \<Rightarrow> string list" where
  "location_parts country_code result =
     (if truthy (landmark result) then [the (landmark result)] else [])
     @ (if truthy (city result) \<and> (\<not> truthy (landmark result) \<or> landmark result \<noteq> city result)
        then [the (city result)] else [])
     @ (if truthy (county result) \<and> country_code = ''USA''
        then [the (county result) @ '' County''] else [])
     @ (if truthy (state result) then [the (state result)] else [])
     @ (if truthy (country result) then [the (country result)] else [])"

definition determine_location :: "float_ops \<Rightarrow> real \<Rightarrow> real \<Rightarrow> gps_db \<Rightarrow> error + location" where
  "determine_location ops la lo db =
     (case find_country la lo db of
        None \<Rightarrow> Inr empty_location
      | Some (country_code, cd) \<Rightarrow>
          let result1 = empty_location\<lparr>country := Some (country_name cd)\<rparr>
          in case (case find_subdivision la lo cd of
                     None \<Rightarrow> Inr result1
                   | Some (sub_code, sd, sub_type) \<Rightarrow>
                       resolve_in_subdivision ops la lo country_code sd result1) of
               Inl e \<Rightarrow> Inl e
             | Inr result2 \<Rightarrow>
                 let parts = location_parts country_code result2
                 in if parts \<noteq> [] then Inr (result2\<lparr>full_location := Some (join_comma parts)\<rparr>)
                    else Inr (result2\<lparr>full_location := country result2\<rparr>))"

text \<open>
  The resolution in the words of the specification. A box contains a point whose
  latitude lies between its south and north sides and whose longitude lies between its
  west and east sides. The country is the first one, in declared order, whose box
  contains the point; the subdivision is the first one whose box contains the point, the
  kinds taken in their priority order.
\<close>

definition in_box :: "real \<Rightarrow> real \<Rightarrow> bounds \<Rightarrow> bool" where
  "in_box la lo b = (la \<in> {south b .. north b} \<and> lo \<in> {west b .. east b})"

definition spec_country :: "real \<Rightarrow> real \<Rightarrow> gps_db \<Rightarrow> (string \<times> country_data) option" where
  "spec_country la lo db = List.find (\<lambda>(country_code, cd). in_box la lo (country_bounds cd)) db"

definition spec_subdivision ::
  "real \<Rightarrow> real \<Rightarrow> country_data \<Rightarrow> (string \<times> subdivision_data) option" where
  "spec_subdivision la lo cd =
     List.find (\<lambda>(sub_code, sd). in_box la lo (sub_bounds sd))
       (states cd @ provinces cd @ regions cd @ emirates cd @ countries cd @ governorates cd)"

text \<open>
  The Haversine distance in kilometres from the point to a place, on a sphere of radius
  6371: with the latitudes \<open>p1\<close>, \<open>p2\<close> and the longitudes \<open>l1\<close>, \<open>l2\<close> in radians,
  \<open>6371 * 2 * asin (sqrt h)\<close> where
  \<open>h = sin ((p2 - p1) / 2)^2 + cos p1 * cos p2 * sin ((l2 - l1) / 2)^2\<close>, in the given
  arithmetic. It can be computed when \<open>h\<close> is not negative and its root is at most 1.
\<close>

definition haversine_term :: "float_ops \<Rightarrow> real \<Rightarrow> real \<Rightarrow> 'a coords_scheme \<Rightarrow> real" where
  "haversine_term ops la lo c =
     flt_add ops
       (flt_pow ops
          (m_sin ops (flt_div ops (flt_sub ops (m_radians ops (lat c)) (m_radians ops la)) 2)) 2)
       (flt_mul ops
          (flt_mul ops (m_cos ops (m_radians ops la)) (m_cos ops (m_radians ops (lat c))))
          (flt_pow ops
             (m_sin ops (flt_div ops (flt_sub ops (m_radians ops (lng c)) (m_radians ops lo)) 2)) 2))"

definition computable :: "float_ops \<Rightarrow> real \<Rightarrow> real \<Rightarrow> 'a coords_scheme \<Rightarrow> bool" where
  "computable ops la lo c =
     (0 \<le> haversine_term ops la lo c
      \<and> \<bar>m_sqrt ops (haversine_term ops la lo c)\<bar> \<le> 1)"

definition distance_to :: "float_ops \<Rightarrow> real \<Rightarrow> real \<Rightarrow> 'a coords_scheme \<Rightarrow> real" where
  "distance_to ops la lo c =
     flt_mul ops (flt_mul ops 2 (m_asin ops (m_sqrt ops (haversine_term ops la lo c)))) 6371"

text \<open>
  The landmark is the nearest one within 5 km and the city the nearest one within 50 km
  (the first of several at the same distance); the county is that of the first landmark
  within 1 km that carries one.
\<close>

definition nearest_within ::
  "float_ops \<Rightarrow> real \<Rightarrow> real \<Rightarrow> real \<Rightarrow> (string \<times> 'a coords_scheme) list \<Rightarrow>
   (string \<times> 'a coords_scheme) option" where
  "nearest_within ops la lo km xs =
     (let near = filter (\<lambda>x. distance_to ops la lo (snd x) \<le> km) xs
      in if near = [] then None
         else Some (arg_min_list (\<lambda>x. distance_to ops la lo (snd x)) near))"

definition spec_county :: "float_ops \<Rightarrow> real \<Rightarrow> real \<Rightarrow> subdivision_data \<Rightarrow> string option" where
  "spec_county ops la lo sd =
     (case List.find (\<lambda>(landmark_name, ld).
                        landmark_county ld \<noteq> None \<and> distance_to ops la lo ld \<le> 1)
             (landmarks sd) of
        None \<Rightarrow> None
      | Some (landmark_name, ld) \<Rightarrow> landmark_county ld)"

text \<open>The landmark that \<open>determine_location\<close> accepts: the nearest one within 5 km, when
  its name is not empty.\<close>

definition found_landmark ::
  "float_ops \<Rightarrow> real \<Rightarrow> real \<Rightarrow> subdivision_data \<Rightarrow> (string \<times> landmark_data) option" where
  "found_landmark ops la lo sd =
     (case nearest_within ops la lo 5 (landmarks sd) of
        None \<Rightarrow> None
      | Some (n, ld) \<Rightarrow> if n \<noteq> [] then Some (n, ld) else None)"

text \<open>The city and the county that the accepted landmark carries.\<close>

definition spec_landmark_city ::
  "float_ops \<Rightarrow> real \<Rightarrow> real \<Rightarrow> subdivision_data \<Rightarrow> string option" where
  "spec_landmark_city ops la lo sd =
     (case found_landmark ops la lo sd of None \<Rightarrow> None | Some (n, ld) \<Rightarrow> landmark_city ld)"

definition spec_landmark_county ::
  "float_ops \<Rightarrow> real \<Rightarrow> real \<Rightarrow> subdivision_data \<Rightarrow> string option" where
  "spec_landmark_county ops la lo sd =
     (case found_landmark ops la lo sd of None \<Rightarrow> None | Some (n, ld) \<Rightarrow> landmark_county ld)"

text \<open>The city: the landmark's, else the nearest major city within 50 km.\<close>

definition spec_city :: "float_ops \<Rightarrow> real \<Rightarrow> real \<Rightarrow> subdivision_data \<Rightarrow> string option" where
  "spec_city ops la lo sd =
     (if truthy (spec_landmark_city ops la lo sd) then spec_landmark_city ops la lo sd
      else (case nearest_within ops la lo 50 (major_cities sd) of
              None \<Rightarrow> spec_landmark_city ops la lo sd
            | Some (n, c) \<Rightarrow> if n \<noteq> [] then Some n else spec_landmark_city ops la lo sd))"

text \<open>The county: the landmark's, else (in the USA only) that of a landmark within
  1 km.\<close>

definition spec_resolved_county ::
  "float_ops \<Rightarrow> string \<Rightarrow> real \<Rightarrow> real \<Rightarrow> subdivision_data \<Rightarrow> string option" where
  "spec_resolved_county ops country_code la lo sd =
     (if country_code = ''USA'' \<and> \<not> truthy (spec_landmark_county ops la lo sd)
         \<and> truthy (spec_county ops la lo sd)
      then spec_county ops la lo sd else spec_landmark_county ops la lo sd)"

definition non_empty :: "string option list \<Rightarrow> string list" where
  "non_empty parts = map the (filter truthy parts)"

text \<open>\<open>full_location\<close>: the non-empty parts, joined in the order landmark, city (if
  distinct from the landmark), county with " County" (USA only), state, country; the
  country when there is no part.\<close>

definition spec_full_location ::
  "string \<Rightarrow> string option \<Rightarrow> string option \<Rightarrow> string option \<Rightarrow> string option \<Rightarrow>
   string option \<Rightarrow> string option" where
  "spec_full_location country_code the_landmark the_city the_county the_state the_country =
     (let parts =
            non_empty
              [the_landmark,
               (if the_landmark \<noteq> the_city \<or> \<not> truthy the_landmark then the_city else None),
               (if country_code = ''USA'' \<and> truthy the_county
                then map_option (\<lambda>c. c @ '' County'') the_county else None),
               the_state,
               the_country]
      in if parts = [] then the_country else Some (join_comma parts))"

definition spec_location :: "float_ops \<Rightarrow> real \<Rightarrow> real \<Rightarrow> gps_db \<Rightarrow> location" where
  "spec_location ops la lo db =
     (case spec_country la lo db of
        None \<Rightarrow> empty_location
      | Some (country_code, cd) \<Rightarrow>
          (case spec_subdivision la lo cd of
             None \<Rightarrow>
               \<lparr>city = None, state = None, country = Some (country_name cd), county = None,
                landmark = None, postal_code = None,
                full_location =
                  spec_full_location country_code None None None None (Some (country_name cd)),
                approximate = True\<rparr>
           | Some (sub_code, sd) \<Rightarrow>
               \<lparr>city = spec_city ops la lo sd,
                state = Some (sub_name sd),
                country = Some (country_name cd),
                county = spec_resolved_county ops country_code la lo sd,
                landmark = map_option fst (found_landmark ops la lo sd),
                postal_code = None,
                full_location =
                  spec_full_location country_code (map_option fst (found_landmark ops la lo sd))
                    (spec_city ops la lo sd) (spec_resolved_county ops country_code la lo sd)
                    (Some (sub_name sd)) (Some (country_name cd)),
                approximate = True\<rparr>))"

text \<open>
  The distances that the resolution needs can all be computed: those to every landmark
  of the resolved subdivision and, when the accepted landmark gives no city, those to
  every major city of it.
\<close>

definition distances_computable :: "float_ops \<Rightarrow> real \<Rightarrow> real \<Rightarrow> gps_db \<Rightarrow> bool" where
  "distances_computable ops la lo db =
     (case spec_country la lo db of
        None \<Rightarrow> True
      | Some (country_code, cd) \<Rightarrow>
          (case spec_subdivision la lo cd of
             None \<Rightarrow> True
           | Some (sub_code, sd) \<Rightarrow>
               (\<forall>x \<in> set (landmarks sd). computable ops la lo (snd x))
               \<and> (truthy (spec_landmark_city ops la lo sd)
                  \<or> (\<forall>x \<in> set (major_cities sd). computable ops la lo (snd x)))))"

text \<open>Auxiliary: the better of two candidates, the earlier one on a tie.\<close>

definition keep_closer :: "('a \<Rightarrow> real) \<Rightarrow> 'a \<Rightarrow> 'a \<Rightarrow> 'a" where
  "keep_closer f best x = (if f x < f best then x else best)"

text \<open>One step of each loop on distances that have been computed.\<close>

definition city_step ::
  "float_ops \<Rightarrow> real \<Rightarrow> real \<Rightarrow> (string \<times> real) option \<Rightarrow> string \<times> coords \<Rightarrow>
   (string \<times> real) option" where
  "city_step ops la lo closest x =
     (if closer_than (distance_to ops la lo (snd x)) closest
      then Some (fst x, distance_to ops la lo (snd x)) else closest)"

definition landmark_step ::
  "float_ops \<Rightarrow> real \<Rightarrow> real \<Rightarrow> real \<Rightarrow> ((string \<times> landmark_data) \<times> real) option \<Rightarrow>
   string \<times> landmark_data \<Rightarrow> ((string \<times> landmark_data) \<times> real) option" where
  "landmark_step ops la lo max_distance_km closest x =
     (if closer_than (distance_to ops la lo (snd x)) closest
         \<and> distance_to ops la lo (snd x) \<le> max_distance_km
      then Some (x, distance_to ops la lo (snd x)) else closest)"

text \<open>A small database: the United States with the state of New York, one major city
  and one landmark.\<close>

definition ny_db :: gps_db where
  "ny_db =
     [(''USA'',
       \<lparr>country_name = ''United States'',
        country_bounds = \<lparr>north = 49, south = 24, east = - 66, west = - 125\<rparr>,
        states =
          [(''NY'',
            \<lparr>sub_name = ''New York'',
             sub_bounds = \<lparr>north = 45, south = 40, east = - 71, west = - 80\<rparr>,
             major_cities = [(''New York City'', \<lparr>lat = 407 / 10, lng = - 74\<rparr>)],
             landmarks =
               [(''Times Square'',
                 \<lparr>lat = 20379 / 500, lng = - (14797 / 200),
                  landmark_city = Some ''New York City'',
                  landmark_county = Some ''New York''\<rparr>)]\<rparr>)],
        provinces = [], regions = [], emirates = [], countries = [], governorates = []\<rparr>)]"

text \<open>
  A second database: Canada before the United States, and New Jersey before New York.
  New York has four landmarks and three major cities on the meridian of the point
  (40.758, -73.985), at 0.02, 0.003, 0.006 and 0.1 degrees and at 1, 0.3 and 0.2 degrees of
  latitude from it.
\<close>

definition geo_db :: gps_db where
  "geo_db =
     [(''CAN'',
       \<lparr>country_name = ''Canada'',
        country_bounds = \<lparr>north = 83, south = 42, east = - 52, west = - 141\<rparr>,
        states = [],
        provinces =
          [(''ON'',
            \<lparr>sub_name = ''Ontario'',
             sub_bounds = \<lparr>north = 57, south = 40, east = - 73, west = - 96\<rparr>,
             major_cities = [], landmarks = []\<rparr>)],
        regions = [], emirates = [], countries = [], governorates = []\<rparr>),
      (''USA'',
       \<lparr>country_name = ''United States'',
        country_bounds = \<lparr>north = 49, south = 24, east = - 66, west = - 125\<rparr>,
        states =
          [(''NJ'',
            \<lparr>sub_name = ''New Jersey'',
             sub_bounds = \<lparr>north = 207 / 5, south = 389 / 10, east = - (149 / 2), west = - (378 / 5)\<rparr>,
             major_cities = [(''Newark'', \<lparr>lat = 20379 / 500, lng = - (14797 / 200)\<rparr>)],
             landmarks = []\<rparr>),
           (''NY'',
            \<lparr>sub_name = ''New York'',
             sub_bounds = \<lparr>north = 45, south = 40, east = - 71, west = - 80\<rparr>,
             major_cities =
               [(''Albany'', \<lparr>lat = 20879 / 500, lng = - (14797 / 200)\<rparr>),
                (''Yonkers'', \<lparr>lat = 20529 / 500, lng = - (14797 / 200)\<rparr>),
                (''New York City'', \<lparr>lat = 20479 / 500, lng = - (14797 / 200)\<rparr>)],
             landmarks =
               [(''Central Park'',
                 \<lparr>lat = 20389 / 500, lng = - (14797 / 200),
                  landmark_city = None, landmark_county = None\<rparr>),
                (''Times Square'',
                 \<lparr>lat = 40761 / 1000, lng = - (14797 / 200),
                  landmark_city = None, landmark_county = None\<rparr>),
                (''Bryant Park'',
                 \<lparr>lat = 10191 / 250, lng = - (14797 / 200),
                  landmark_city = Some ''Manhattan'', landmark_county = Some ''New York''\<rparr>),
                (''Yankee Stadium'',
                 \<lparr>lat = 20429 / 500, lng = - (14797 / 200),
                  landmark_city = Some ''Bronx'', landmark_county = Some ''Bronx''\<rparr>)]\<rparr>)],
        provinces = [], regions = [], emirates = [], countries = [], governorates = []\<rparr>)]"

text \<open>The resolution of the point (40.758, -73.985) in it.\<close>

definition geo_result :: location where
  "geo_result =
     \<lparr>city = Some ''New York City'', state = Some ''New York'',
      country = Some ''United States'', county = Some ''New York'',
      landmark = Some ''Times Square'', postal_code = None,
      full_location =
        Some ''Times Square, New York City, New York County, New York, United States'',
      approximate = True\<rparr>"

section \<open>The geo-resolution pass (\<open>process_instagram_data\<close>)\<close>

text \<open>
  The master collection is the list that \<open>json.load\<close> returns; its records are arbitrary
  JSON values. A dictionary is an association list in insertion order.
\<close>

datatype json =
    JNull
  | JBool bool
  | JNum real
  | JStr string
  | JArr "json list"
  | JObj "(string \<times> json) list"

text \<open>Truthiness, \<open>key in x\<close> and \<open>x[key]\<close> for a string key, as Python has them on the
  values of \<open>json.load\<close>.\<close>

fun py_truthy :: "json \<Rightarrow> bool" where
  "py_truthy JNull = False"
| "py_truthy (JBool b) = b"
| "py_truthy (JNum x) = (x \<noteq> 0)"
| "py_truthy (JStr s) = (s \<noteq> [])"
| "py_truthy (JArr xs) = (xs \<noteq> [])"
| "py_truthy (JObj kvs) = (kvs \<noteq> [])"

fun py_in :: "string \<Rightarrow> json \<Rightarrow> error + bool" where
  "py_in k (JObj kvs) = Inr (map_of kvs k \<noteq> None)"
| "py_in k (JStr s) = Inr (sublist k s)"
| "py_in k (JArr xs) = Inr (JStr k \<in> set xs)"
| "py_in k j = Inl TypeError"

fun py_item :: "json \<Rightarrow> string \<Rightarrow> error + json" where
  "py_item (JObj kvs) k = (case map_of kvs k of None \<Rightarrow> Inl (KeyError k) | Some v \<Rightarrow> Inr v)"
| "py_item j k = Inl TypeError"

text \<open>A JSON number as a coordinate; \<open>true\<close> and \<open>false\<close> are the numbers 1 and 0 in
  Python.\<close>

fun as_number :: "json \<Rightarrow> real option" where
  "as_number (JNum x) = Some x"
| "as_number (JBool b) = Some (if b then 1 else 0)"
| "as_number j = None"

fun to_json :: "string option \<Rightarrow> json" where
  "to_json None = JNull"
| "to_json (Some s) = JStr s"

text \<open>The assignments to \<open>home_location\<close>, a dictionary at this point: city, state and
  country always; landmark, county and \<open>full_location\<close> when the resolved value is
  truthy.\<close>

definition patch_home_location :: "location \<Rightarrow> (string \<times> json) list \<Rightarrow> (string \<times> json) list" where
  "patch_home_location location_data home_location =
     (let h1 = AList.update ''city'' (to_json (city location_data)) home_location;
          h2 = AList.update ''state'' (to_json (state location_data)) h1;
          h3 = AList.update ''country'' (to_json (country location_data)) h2;
          h4 = (if truthy (landmark location_data)
                then AList.update ''landmark'' (to_json (landmark location_data)) h3 else h3);
          h5 = (if truthy (county location_data)
                then AList.update ''county'' (to_json (county location_data)) h4 else h4);
          h6 = (if truthy (full_location location_data)
                then AList.update ''full_location'' (to_json (full_location location_data)) h5
                else h5)
      in h6)"

text \<open>
  The body of \<open>for user in updated_data\<close>: the record after the in-place update, or the
  exception. A coordinate that is not a number makes the comparisons of
  \<open>is_within_bounds\<close> raise \<open>TypeError\<close>; the model raises it before the lookup. An
  exception of \<open>determine_location\<close> ends the pass.
\<close>

definition process_user :: "float_ops \<Rightarrow> gps_db \<Rightarrow> json \<Rightarrow> error + json" where
  "process_user ops db user =
     (case py_in ''location_analysis'' user of
        Inl e \<Rightarrow> Inl e
      | Inr False \<Rightarrow> Inr user
      | Inr True \<Rightarrow>
     (case py_item user ''location_analysis'' of
        Inl e \<Rightarrow> Inl e
      | Inr location_analysis \<Rightarrow>
     (case py_in ''home_location'' location_analysis of
        Inl e \<Rightarrow> Inl e
      | Inr False \<Rightarrow> Inr user
      | Inr True \<Rightarrow>
     (case py_item location_analysis ''home_location'' of
        Inl e \<Rightarrow> Inl e
      | Inr home_location \<Rightarrow>
     if \<not> py_truthy home_location then Inr user
     else
     (case py_in ''coordinates'' home_location of
        Inl e \<Rightarrow> Inl e
      | Inr False \<Rightarrow> Inr user
      | Inr True \<Rightarrow>
     (case py_item home_location ''coordinates'' of
        Inl e \<Rightarrow> Inl e
      | Inr coordinates \<Rightarrow>
     if \<not> py_truthy coordinates then Inr user
     else
     (case py_item coordinates ''lat'' of
        Inl e \<Rightarrow> Inl e
      | Inr la \<Rightarrow>
     (case py_item coordinates ''lng'' of
        Inl e \<Rightarrow> Inl e
      | Inr lo \<Rightarrow>
     (case (as_number la, as_number lo) of
        (Some x, Some y) \<Rightarrow>
          (case (user, location_analysis, home_location) of
             (JObj u, JObj a, JObj h) \<Rightarrow>
               (case determine_location ops x y db of
                  Inl e \<Rightarrow> Inl e
                | Inr location_data \<Rightarrow>
                    Inr (JObj (AList.update ''location_analysis''
                                 (JObj (AList.update ''home_location''
                                          (JObj (patch_home_location location_data h))
                                          a))
                                 u)))
           | _ \<Rightarrow> Inl TypeError)
      | _ \<Rightarrow> Inl TypeError)))))))))"

text \<open>The loop over the records stops at the first exception; nothing is written
  then.\<close>

fun process_all :: "float_ops \<Rightarrow> gps_db \<Rightarrow> json list \<Rightarrow> error + json list" where
  "process_all ops db [] = Inr []"
| "process_all ops db (user # users) =
     (case process_user ops db user of
        Inl e \<Rightarrow> Inl e
      | Inr user' \<Rightarrow>
          (case process_all ops db users of
             Inl e \<Rightarrow> Inl e
           | Inr users' \<Rightarrow> Inr (user' # users')))"

text \<open>\<open>process_instagram_data\<close> on the loaded database and collection: the collection
  that it writes.\<close>

definition process_instagram_data ::
  "float_ops \<Rightarrow> gps_db \<Rightarrow> json list \<Rightarrow> error + json list" where
  "process_instagram_data ops db instagram_data = process_all ops db instagram_data"

text \<open>Reading a field of a record, and the \<open>home_location\<close> of a record.\<close>

definition field :: "string \<Rightarrow> json \<Rightarrow> json option" where
  "field k j = (case j of JObj kvs \<Rightarrow> map_of kvs k | _ \<Rightarrow> None)"

definition home_location_of :: "json \<Rightarrow> json option" where
  "home_location_of user =
     (case field ''location_analysis'' user of
        None \<Rightarrow> None
      | Some a \<Rightarrow> field ''home_location'' a)"

text \<open>The record has no home location, a null one, or one without (truthy)
  coordinates.\<close>

definition no_coordinates :: "json \<Rightarrow> bool" where
  "no_coordinates user =
     (case home_location_of user of
        None \<Rightarrow> True
      | Some JNull \<Rightarrow> True
      | Some (JObj h) \<Rightarrow>
          (case map_of h ''coordinates'' of None \<Rightarrow> True | Some c \<Rightarrow> \<not> py_truthy c)
      | Some j \<Rightarrow> False)"

text \<open>The second record is the first one with nothing but the value stored under
  \<open>location_analysis.home_location\<close> replaced.\<close>

definition only_home_location_differs :: "json \<Rightarrow> json \<Rightarrow> bool" where
  "only_home_location_differs user user' =
     (user' = user \<or>
      (\<exists>u a h'. user = JObj u \<and> map_of u ''location_analysis'' = Some (JObj a)
          \<and> map_of a ''home_location'' \<noteq> None
          \<and> user' = JObj (AList.update ''location_analysis''
                            (JObj (AList.update ''home_location'' h' a)) u)))"

text \<open>A sample collection: a record with coordinates, one whose home location has
  none, and one whose home location is null.\<close>

definition sample_data :: "json list" where
  "sample_data =
     [JObj [(''username'', JStr ''a''),
            (''location_analysis'',
             JObj [(''total_locations'', JNum 1),
                   (''home_location'',
                    JObj [(''city'', JStr ''Manhattan''), (''state'', JNull),
                          (''country'', JNull), (''count'', JNum 3),
                          (''coordinates'',
                           JObj [(''lat'', JNum (20379 / 500)),
                                 (''lng'', JNum (- (14797 / 200)))])])]),
            (''personal_details'', JObj [(''gender'', JStr ''Male'')])],
      JObj [(''username'', JStr ''b''),
            (''location_analysis'',
             JObj [(''home_location'',
                    JObj [(''city'', JStr ''Paris''), (''coordinates'', JNull)])])],
      JObj [(''username'', JStr ''c''),
            (''location_analysis'', JObj [(''home_location'', JNull)])]]"

text \<open>The sample collection after the pass over the sample database.\<close>

definition sample_updated :: "json list" where
  "sample_updated =
     [JObj [(''username'', JStr ''a''),
            (''location_analysis'',
             JObj [(''total_locations'', JNum 1),
                   (''home_location'',
                    JObj [(''city'', JStr ''New York City''), (''state'', JStr ''New York''),
                          (''country'', JStr ''United States''), (''count'', JNum 3),
                          (''coordinates'',
                           JObj [(''lat'', JNum (20379 / 500)),
                                 (''lng'', JNum (- (14797 / 200)))]),
                          (''landmark'', JStr ''Times Square''),
                          (''county'', JStr ''New York''),
                          (''full_location'',
                           JStr ''Times Square, New York City, New York County, New York, United States'')])]),
            (''personal_details'', JObj [(''gender'', JStr ''Male'')])],
      JObj [(''username'', JStr ''b''),
            (''location_analysis'',
             JObj [(''home_location'',
                    JObj [(''city'', JStr ''Paris''), (''coordinates'', JNull)])])],
      JObj [(''username'', JStr ''c''),
            (''location_analysis'', JObj [(''home_location'', JNull)])]]"

section \<open>Evaluation rules\<close>

lemmas text_eval =
  is_upper_def lower_char_def lower_def is_digit_def is_alpha_def is_word_def is_space_def
  digits_to_int_def

lemmas regex_eval =
  lit_prefix_def prev_after_def at_boundary_def rep_counts_def match_here_def
  findall_def search_def pat_def ipat_def



section \<open>Properties of the rounding to a double\<close>

text \<open>The doubles that the literals of the scoring code denote.\<close>

lemma dbl_literals:
  "dbl (1 / 2) = 1 / 2"
  "dbl (1 / 10) = 3602879701896397 / 36028797018963968"
  "dbl (3 / 20) = 5404319552844595 / 36028797018963968"
  "dbl (7 / 20) = 3152519739159347 / 9007199254740992"
  "dbl (3 / 5) = 5404319552844595 / 9007199254740992"
  "dbl (7 / 10) = 3152519739159347 / 4503599627370496"
  "dbl (4 / 5) = 3602879701896397 / 4503599627370496"
  "dbl (17 / 20) = 7656119366529843 / 9007199254740992"
  by code_simp+

lemma round_half_even_le: "x \<le> of_int n \<Longrightarrow> round_half_even x \<le> n"
proof -
  assume a: "x \<le> of_int n"
  have f: "\<lfloor>x\<rfloor> \<le> n" using a by (simp add: floor_le_iff)
  show ?thesis
  proof (cases "\<lfloor>x\<rfloor> = n")
    case True
    have "of_int \<lfloor>x\<rfloor> \<le> x" by (rule of_int_floor_le)
    then have "x = of_int \<lfloor>x\<rfloor>" using a True by simp
    then have "x - of_int \<lfloor>x\<rfloor> < 1 / 2" by simp
    then show ?thesis using True by (simp add: round_half_even_def Let_def)
  next
    case False
    then have "\<lfloor>x\<rfloor> + 1 \<le> n" using f by simp
    then show ?thesis by (simp add: round_half_even_def Let_def)
  qed
qed

lemma round_half_even_ge: "of_int n \<le> x \<Longrightarrow> n \<le> round_half_even x"
proof -
  assume a: "of_int n \<le> x"
  have f: "n \<le> \<lfloor>x\<rfloor>" using a by (simp add: le_floor_iff)
  then show ?thesis by (simp add: round_half_even_def Let_def)
qed

lemma round_half_even_error: "\<bar>of_int (round_half_even x) - x\<bar> \<le> 1 / 2"
proof -
  have b: "of_int \<lfloor>x\<rfloor> \<le> x" "x < of_int \<lfloor>x\<rfloor> + 1" by linarith+
  consider "x - of_int \<lfloor>x\<rfloor> < 1 / 2" | "1 / 2 < x - of_int \<lfloor>x\<rfloor>"
    | "x - of_int \<lfloor>x\<rfloor> = 1 / 2" by linarith
  then show ?thesis
  proof cases
    case 1
    then show ?thesis using b unfolding round_half_even_def Let_def by simp
  next
    case 2
    then show ?thesis using b unfolding round_half_even_def Let_def by simp
  next
    case 3
    then show ?thesis using b unfolding round_half_even_def Let_def by simp
  qed
qed

lemma pow2_powi: "pow2 e = 2 powi e"
  by (simp add: pow2_def power_int_def power_one_over inverse_eq_divide)

lemma pow2_pos: "0 < pow2 e"
  by (simp add: pow2_powi)

lemma pow2_add: "pow2 (a + b) = pow2 a * pow2 b"
  by (simp add: pow2_powi power_int_add)

lemma pow2_nat: "pow2 (int n) = 2 ^ n"
  by (simp add: pow2_def)

lemma bitlen_pow2_bounds:
  assumes "0 < p"
  shows "pow2 (bitlen p - 1) \<le> of_int p" and "of_int p < pow2 (bitlen p)"
proof -
  have b: "2 ^ nat (bitlen p - 1) \<le> p" "p < 2 ^ nat (bitlen p)"
    using bitlen_bounds [OF assms] by simp_all
  have n: "1 \<le> bitlen p"
    using assms by (simp add: bitlen_alt_def)
  have "pow2 (bitlen p - 1) = 2 ^ nat (bitlen p - 1)"
    using n by (simp add: pow2_def)
  also have "\<dots> = of_int (2 ^ nat (bitlen p - 1))" by simp
  also have "\<dots> \<le> of_int p" using b(1) by (simp only: of_int_le_iff)
  finally show "pow2 (bitlen p - 1) \<le> of_int p" .
  have "(of_int p :: rat) < of_int (2 ^ nat (bitlen p))" using b(2) by (simp only: of_int_less_iff)
  also have "\<dots> = pow2 (bitlen p)" using n by (simp add: pow2_def)
  finally show "of_int p < pow2 (bitlen p)" .
qed

text \<open>For a positive number, the exponent of its binade.\<close>

lemma binade_bounds:
  assumes "0 < x"
  shows "pow2 (binade x) \<le> x" and "x < pow2 (binade x + 1)"
proof -
  obtain p q where pq: "quotient_of x = (p, q)" by (cases "quotient_of x")
  have q: "0 < q" using pq by (rule quotient_of_denom_pos)
  have x: "x = of_int p / of_int q" using pq by (rule quotient_of_div)
  have p: "0 < p" using assms q unfolding x by (simp add: zero_less_divide_iff)
  define e0 where "e0 = bitlen p - bitlen q"
  note bp = bitlen_pow2_bounds [OF p] and bq = bitlen_pow2_bounds [OF q]
  have qq: "(0::rat) < of_int q" using q by simp
  have lo: "pow2 (e0 - 1) \<le> x"
  proof -
    have "pow2 (e0 - 1) * pow2 (bitlen q) = pow2 (bitlen p - 1)"
      unfolding e0_def pow2_add [symmetric] by simp
    then have "pow2 (e0 - 1) * pow2 (bitlen q) \<le> of_int p" using bp(1) by simp
    moreover have "pow2 (e0 - 1) * of_int q \<le> pow2 (e0 - 1) * pow2 (bitlen q)"
      using bq(2) pow2_pos [of "e0 - 1"] by (intro mult_left_mono) simp_all
    ultimately have "pow2 (e0 - 1) * of_int q \<le> of_int p" by simp
    then show ?thesis unfolding x using qq by (simp add: pos_le_divide_eq)
  qed
  have hi: "x < pow2 (e0 + 1)"
  proof -
    have "pow2 (e0 + 1) * pow2 (bitlen q - 1) = pow2 (bitlen p)"
      unfolding e0_def pow2_add [symmetric] by simp
    moreover have "pow2 (e0 + 1) * pow2 (bitlen q - 1) \<le> pow2 (e0 + 1) * of_int q"
      using bq(1) pow2_pos [of "e0 + 1"] by (intro mult_left_mono) simp_all
    ultimately have "of_int p < pow2 (e0 + 1) * of_int q" using bp(2) by simp
    then show ?thesis unfolding x using qq by (simp add: pos_divide_less_eq)
  qed
  have b: "binade x = (if pow2 e0 \<le> x then e0 else e0 - 1)"
    by (simp add: binade_def pq e0_def Let_def)
  show "pow2 (binade x) \<le> x" using lo by (simp add: b)
  show "x < pow2 (binade x + 1)" using hi by (simp add: b)
qed

text \<open>
  The rounding of a number other than 0 is a multiple of the unit in the last place of
  its binade, with a significand of 53 bits, and lies within half a unit of the number;
  on a tie the significand is even.
\<close>

lemma dbl_nearest:
  assumes "x \<noteq> 0"
  defines "u \<equiv> pow2 (binade \<bar>x\<bar> - 52)"
  shows "dbl x = of_int (round_half_even (x / u)) * u"
    and "2 ^ 52 \<le> \<bar>round_half_even (x / u)\<bar>"
    and "\<bar>round_half_even (x / u)\<bar> \<le> 2 ^ 53"
    and "\<bar>dbl x - x\<bar> \<le> u / 2"
proof -
  define m where "m = round_half_even (x / u)"
  have u: "0 < u" unfolding u_def by (rule pow2_pos)
  show d: "dbl x = of_int (round_half_even (x / u)) * u"
    using assms(1) by (simp add: dbl_def Let_def u_def)
  have a: "0 < \<bar>x\<bar>" using assms(1) by simp
  note b = binade_bounds [OF a]
  have e: "pow2 (binade \<bar>x\<bar>) = 2 ^ 52 * u"
  proof -
    have "binade \<bar>x\<bar> = 52 + (binade \<bar>x\<bar> - 52)" by simp
    then have "pow2 (binade \<bar>x\<bar>) = pow2 (52 + (binade \<bar>x\<bar> - 52))" by (simp only:)
    also have "\<dots> = pow2 52 * u" unfolding u_def by (rule pow2_add)
    finally show ?thesis by (simp add: pow2_def)
  qed
  have e1: "pow2 (binade \<bar>x\<bar> + 1) = 2 ^ 53 * u"
  proof -
    have "binade \<bar>x\<bar> + 1 = 53 + (binade \<bar>x\<bar> - 52)" by simp
    then have "pow2 (binade \<bar>x\<bar> + 1) = pow2 (53 + (binade \<bar>x\<bar> - 52))" by (simp only:)
    also have "\<dots> = pow2 53 * u" unfolding u_def by (rule pow2_add)
    finally show ?thesis by (simp add: pow2_def)
  qed
  have lo: "2 ^ 52 \<le> \<bar>x\<bar> / u" using b(1) u unfolding e by (simp add: pos_le_divide_eq)
  have hi: "\<bar>x\<bar> / u \<le> 2 ^ 53" using b(2) u unfolding e1 by (simp add: pos_divide_le_eq)
  have ax: "\<bar>x\<bar> / u = \<bar>x / u\<bar>" using u by simp
  have lo': "2 ^ 52 \<le> \<bar>x / u\<bar>" using lo unfolding ax .
  have hi': "\<bar>x / u\<bar> \<le> 2 ^ 53" using hi unfolding ax .
  show "2 ^ 52 \<le> \<bar>round_half_even (x / u)\<bar>"
  proof (cases "0 \<le> x / u")
    case True
    then have "2 ^ 52 \<le> x / u" using lo' by (simp only: abs_of_nonneg)
    then have "of_int (2 ^ 52) \<le> x / u" by simp
    then have "2 ^ 52 \<le> round_half_even (x / u)" by (rule round_half_even_ge)
    then show ?thesis by simp
  next
    case False
    then have "\<bar>x / u\<bar> = - (x / u)" by (simp only: abs_if) simp
    then have "2 ^ 52 \<le> - (x / u)" using lo' by (simp only:)
    then have "x / u \<le> of_int (- (2 ^ 52))" by simp
    then have "round_half_even (x / u) \<le> - (2 ^ 52)" by (rule round_half_even_le)
    then show ?thesis by simp
  qed
  show "\<bar>round_half_even (x / u)\<bar> \<le> 2 ^ 53"
  proof -
    have "x / u \<le> 2 ^ 53" "- (2 ^ 53) \<le> x / u"
      using hi' by (simp_all only: abs_le_iff) simp_all
    then have c: "x / u \<le> of_int (2 ^ 53)" "of_int (- (2 ^ 53)) \<le> x / u" by simp_all
    have "round_half_even (x / u) \<le> 2 ^ 53" using c(1) by (rule round_half_even_le)
    moreover have "- (2 ^ 53) \<le> round_half_even (x / u)" using c(2) by (rule round_half_even_ge)
    ultimately show ?thesis by simp
  qed
  show "\<bar>dbl x - x\<bar> \<le> u / 2"
  proof -
    have "dbl x - x = (of_int (round_half_even (x / u)) - x / u) * u"
      unfolding d using u by (simp add: left_diff_distrib)
    then have "\<bar>dbl x - x\<bar> = \<bar>of_int (round_half_even (x / u)) - x / u\<bar> * u"
      using u by (simp add: abs_mult)
    also have "\<dots> \<le> 1 / 2 * u"
      using round_half_even_error [of "x / u"] u by (intro mult_right_mono) simp_all
    finally show ?thesis by simp
  qed
qed

lemma binade_unit:
  assumes "0 < x" "x \<le> 1"
  shows "binade x \<le> 0"
proof -
  obtain p q where pq: "quotient_of x = (p, q)" by (cases "quotient_of x")
  have q: "0 < q" using pq by (rule quotient_of_denom_pos)
  have x: "x = of_int p / of_int q" using pq by (rule quotient_of_div)
  have "p \<le> q" using assms(2) q unfolding x by (simp add: pos_divide_le_eq)
  then have "bitlen p \<le> bitlen q"
    by (simp add: bitlen_def floorlog_mono)
  then show ?thesis
    by (simp add: binade_def pq Let_def)
qed

text \<open>Rounding does not leave the interval from -1 to 1.\<close>

lemma dbl_unit:
  assumes "\<bar>x\<bar> \<le> 1"
  shows "\<bar>dbl x\<bar> \<le> 1"
proof (cases "x = 0")
  case True
  then show ?thesis by (simp add: dbl_def)
next
  case False
  define n where "n = nat (52 - binade \<bar>x\<bar>)"
  define r where "r = round_half_even (x * 2 ^ n)"
  have b: "binade \<bar>x\<bar> \<le> 0" using False assms by (intro binade_unit) auto
  then have u: "pow2 (binade \<bar>x\<bar> - 52) = 1 / 2 ^ n"
    by (simp add: pow2_def n_def)
  have d: "dbl x = of_int r / 2 ^ n"
    using False by (simp add: dbl_def Let_def u r_def)
  have "x * 2 ^ n \<le> 1 * 2 ^ n" using assms by (intro mult_right_mono) (auto simp: abs_le_iff)
  then have "x * 2 ^ n \<le> of_int (2 ^ n)" by simp
  then have 1: "r \<le> 2 ^ n" unfolding r_def by (rule round_half_even_le)
  have "- 1 * 2 ^ n \<le> x * 2 ^ n" using assms by (intro mult_right_mono) (auto simp: abs_le_iff)
  then have "of_int (- (2 ^ n)) \<le> x * 2 ^ n" by simp
  then have 2: "- (2 ^ n) \<le> r" unfolding r_def by (rule round_half_even_ge)
  have 3: "(of_int r :: rat) \<le> of_int (2 ^ n)" using 1 by (simp only: of_int_le_iff)
  have 4: "(of_int (- (2 ^ n)) :: rat) \<le> of_int r" using 2 by (simp only: of_int_le_iff)
  have 5: "(of_int r :: rat) / 2 ^ n \<le> 1" using 3 by (simp add: pos_divide_le_eq)
  have 6: "- 1 \<le> (of_int r :: rat) / 2 ^ n" using 4 by (simp add: pos_le_divide_eq)
  show ?thesis unfolding d using 5 6 by (simp only: abs_le_iff) simp
qed

section \<open>Properties of \<open>extract_age\<close>\<close>

lemma direct_age_find:
  "direct_age ps text =
     List.find plausible_age
       (map (\<lambda>ms. digits_to_int (hd ms))
          (filter (\<lambda>ms. ms \<noteq> []) (map (\<lambda>p. findall p text) ps)))"
  by (induction ps) (auto simp: plausible_age_def Let_def split: list.splits)

lemma direct_age_plausible: "direct_age ps text = Some n \<Longrightarrow> 13 \<le> n \<and> n \<le> 100"
  by (induction ps) (auto simp: Let_def split: list.splits if_splits)

lemma birth_year_age_ge: "birth_year_age cy ps text = Some n \<Longrightarrow> 13 \<le> n"
  by (induction ps) (auto simp: Let_def split: list.splits if_splits)

text \<open>
  Claim C8, as the code has it. \<open>extract_age\<close> reads only the first match of each direct
  age pattern, in the fixed pattern order, and returns \<open>(N, group)\<close> for the first of
  these values \<open>N\<close> with \<open>13 \<le> N \<le> 100\<close>; the group is "Under 18" below 18, "18-24"
  below 25, "25-29" below 30, "25-34" below 35, "35-44" below 45 and "45+" otherwise.
  An age that is returned is never below 13. In particular every text in which the
  first match of \<^verbatim>\<open>(?:I am|I'm)\s+(\d{1,2})\<close> captures 23 yields \<open>(23, "18-24")\<close>.
\<close>

theorem extract_age_first_plausible:
  assumes "text \<noteq> []"
  shows "(\<forall>N. List.find plausible_age (first_mentions text) = Some N \<longrightarrow>
            extract_age current_year text =
              (Some N,
               Some (if N < 18 then ''Under 18'' else if N < 25 then ''18-24''
                     else if N < 30 then ''25-29'' else if N < 35 then ''25-34''
                     else if N < 45 then ''35-44'' else ''45+'')))
       \<and> (\<forall>n g. extract_age current_year text = (Some n, g) \<longrightarrow> 13 \<le> n)
       \<and> (take 1 (findall (age_patterns ! 0) text) = [''23''] \<longrightarrow>
            extract_age current_year text = (Some 23, Some ''18-24''))"
proof (intro conjI allI impI)
  fix N assume "List.find plausible_age (first_mentions text) = Some N"
  then have "direct_age age_patterns text = Some N"
    by (simp add: direct_age_find first_mentions_def)
  with assms show "extract_age current_year text =
              (Some N,
               Some (if N < 18 then ''Under 18'' else if N < 25 then ''18-24''
                     else if N < 30 then ''25-29'' else if N < 35 then ''25-34''
                     else if N < 45 then ''35-44'' else ''45+''))"
    by (simp add: extract_age_def age_group_of_def)
next
  fix n g assume "extract_age current_year text = (Some n, g)"
  with assms show "13 \<le> n"
    by (auto simp: extract_age_def split: option.splits
             dest: direct_age_plausible birth_year_age_ge)
next
  assume "take 1 (findall (age_patterns ! 0) text) = [''23'']"
  then obtain ms where ms: "findall (age_patterns ! 0) text = ''23'' # ms"
    by (cases "findall (age_patterns ! 0) text") auto
  have "direct_age age_patterns text = Some 23"
    using ms by (simp add: age_patterns_def digits_to_int_def)
  with assms show "extract_age current_year text = (Some 23, Some ''18-24'')"
    by (simp add: extract_age_def age_group_of_def)
qed

text \<open>The bio \<open>I'm 23\<close>.\<close>

theorem extract_age_first_plausible_witness:
  "extract_age 2026 (''I'' @ [CHR 0x27] @ ''m 23'') = (Some 23, Some ''18-24'')"
  using extract_age_first_plausible [of "''I'' @ [CHR 0x27] @ ''m 23''" 2026]
  by (simp add: age_patterns_def regex_eval text_eval)

text \<open>
  The text \<open>I'm 45. I'm 23\<close> contains the direct age mention \<open>I'm 23\<close>, whose value lies in
  13..100, and the result is \<open>(45, "45+")\<close>: a mention after the first match of its
  pattern is never read.
\<close>

theorem extract_age_later_mention_counterexample:
  "findall (age_patterns ! 0) (''I'' @ [CHR 0x27] @ ''m 45. I'' @ [CHR 0x27] @ ''m 23'')
      = [''45'', ''23'']
   \<and> plausible_age 23
   \<and> extract_age 2026 (''I'' @ [CHR 0x27] @ ''m 45. I'' @ [CHR 0x27] @ ''m 23'')
      = (Some 45, Some ''45+'')"
  by (simp add: extract_age_def age_patterns_def age_group_of_def plausible_age_def
        regex_eval text_eval)

section \<open>Properties of \<open>identify_niche\<close>\<close>

subsection \<open>The frequency table\<close>

lemma hashtag_counts_fold: "hashtag_counts posts = foldl count_step [] (all_hashtags posts)"
  unfolding hashtag_counts_def count_step_def ..

lemma count_fold_distinct:
  "distinct (map fst counts) \<Longrightarrow> distinct (map fst (foldl count_step counts ts))"
  by (induction ts arbitrary: counts) (simp_all add: count_step_def distinct_update)

lemma count_fold_lookup:
  "map_of (foldl count_step counts ts) t =
     (if count_list (map lower ts) t = 0 then map_of counts t
      else Some ((case map_of counts t of None \<Rightarrow> 0 | Some n \<Rightarrow> n) + count_list (map lower ts) t))"
proof (induction ts arbitrary: counts)
  case Nil
  then show ?case by simp
next
  case (Cons a ts)
  show ?case
    by (simp add: Cons.IH) (auto simp: count_step_def update_conv' split: option.splits)
qed

lemma hashtag_counts_distinct: "distinct (map fst (hashtag_counts posts))"
  by (simp add: hashtag_counts_fold count_fold_distinct)

lemma hashtag_counts_lookup:
  "map_of (hashtag_counts posts) t =
     (if tag_occurrences posts t = 0 then None else Some (tag_occurrences posts t))"
  by (simp add: hashtag_counts_fold count_fold_lookup tag_occurrences_def)

lemma hashtag_counts_set:
  "set (hashtag_counts posts) =
     (\<lambda>t. (t, tag_occurrences posts t)) ` set (map lower (all_hashtags posts))"
proof -
  have pos: "\<And>t. t \<in> set (map lower (all_hashtags posts)) \<longleftrightarrow> tag_occurrences posts t \<noteq> 0"
    unfolding tag_occurrences_def by (metis count_list_0_iff)
  show ?thesis
  proof (rule set_eqI)
    fix x :: "string \<times> nat"
    obtain t n where x: "x = (t, n)" by (cases x)
    have "(t, n) \<in> set (hashtag_counts posts) \<longleftrightarrow> map_of (hashtag_counts posts) t = Some n"
      using hashtag_counts_distinct by (simp add: map_of_eq_Some_iff)
    also have "\<dots> \<longleftrightarrow> tag_occurrences posts t \<noteq> 0 \<and> n = tag_occurrences posts t"
      by (auto simp: hashtag_counts_lookup)
    also have "\<dots> \<longleftrightarrow> (t, n) \<in> (\<lambda>t. (t, tag_occurrences posts t)) ` set (map lower (all_hashtags posts))"
      using pos by auto
    finally show "x \<in> set (hashtag_counts posts) \<longleftrightarrow>
        x \<in> (\<lambda>t. (t, tag_occurrences posts t)) ` set (map lower (all_hashtags posts))"
      by (simp add: x)
  qed
qed

subsection \<open>The scoring loops\<close>

lemma score_inner_lookup:
  "map_of (foldl (\<lambda>sc (category, keywords).
              if any_keyword_in keywords tag
              then AList.map_entry category (\<lambda>s. s + n) sc else sc) scores cats) c0
   = map_option (\<lambda>s. s + n * hits c0 cats tag) (map_of scores c0)"
proof (induction cats arbitrary: scores)
  case Nil
  then show ?case by (simp add: hits_def option.map_ident)
next
  case (Cons a cats)
  obtain c kws where a: "a = (c, kws)" by (cases a)
  show ?case
    by (cases "map_of scores c0")
       (auto simp: a Cons.IH hits_def map_of_map_entry)
qed

lemma score_tag_lookup:
  "map_of (score_tag scores (tag, n)) c0 =
     map_option (\<lambda>s. s + n * hits c0 niche_categories tag) (map_of scores c0)"
  unfolding score_tag_def by (simp add: score_inner_lookup)

lemma score_fold_lookup:
  "map_of (foldl score_tag scores counts) c0 =
     map_option (\<lambda>s. s + sum_list (map (\<lambda>(tag, n). n * hits c0 niche_categories tag) counts))
       (map_of scores c0)"
proof (induction counts arbitrary: scores)
  case Nil
  then show ?case by (simp add: option.map_ident)
next
  case (Cons a counts)
  obtain t n where a: "a = (t, n)" by (cases a)
  show ?case
    by (cases "map_of scores c0") (simp_all add: a Cons.IH score_tag_lookup add.assoc)
qed

lemma niche_categories_distinct: "distinct (map fst niche_categories)"
  by (simp add: niche_categories_def)

lemma hits_member:
  assumes "(category, keywords) \<in> set niche_categories"
  shows "hits category niche_categories tag = (if any_keyword_in keywords tag then 1 else 0)"
proof -
  have gen: "distinct (map fst cats) \<Longrightarrow> (category, keywords) \<in> set cats \<Longrightarrow>
       hits category cats tag = (if any_keyword_in keywords tag then 1 else 0)" for cats
  proof (induction cats)
    case Nil
    then show ?case by simp
  next
    case (Cons a cats)
    obtain c kws where a: "a = (c, kws)" by (cases a)
    show ?case
    proof (cases "a = (category, keywords)")
      case True
      have "filter (\<lambda>(c, keywords). c = category \<and> any_keyword_in keywords tag) cats = []"
        using Cons.prems(1) True by (auto simp: filter_empty_conv image_iff)
      then show ?thesis using True by (simp add: hits_def)
    next
      case False
      then have mem: "(category, keywords) \<in> set cats" using Cons.prems(2) by simp
      then have "c \<noteq> category" using Cons.prems(1) a by (auto simp: image_iff)
      then show ?thesis using Cons.IH mem Cons.prems(1) by (simp add: hits_def a)
    qed
  qed
  show ?thesis by (rule gen [OF niche_categories_distinct assms])
qed

lemma initial_scores_lookup_gen:
  "map_of (map (\<lambda>(category, keywords). (category, 0::nat)) cats) c =
     (if c \<in> fst ` set cats then Some 0 else None)"
  by (induction cats) (auto split: prod.splits)

lemma initial_scores_lookup:
  "(category, keywords) \<in> set niche_categories \<Longrightarrow>
   map_of (map (\<lambda>(category, keywords). (category, 0::nat)) niche_categories) category = Some 0"
  by (force simp: initial_scores_lookup_gen)


lemma niche_scores_lookup:
  assumes "(category, keywords) \<in> set niche_categories"
  shows "map_of (niche_scores posts) category =
     Some (sum_list (map (\<lambda>(tag, n). if any_keyword_in keywords tag then n else 0)
             (hashtag_counts posts)))"
proof -
  have "(\<lambda>(tag, n). n * hits category niche_categories tag) =
        (\<lambda>(tag, n::nat). if any_keyword_in keywords tag then n else 0)"
    by (auto simp: hits_member [OF assms] fun_eq_iff)
  then show ?thesis
    unfolding niche_scores_def
    by (simp add: score_fold_lookup initial_scores_lookup [OF assms])
qed

lemma sum_over_counts:
  "sum_list (map (\<lambda>(tag, n). g tag n) (hashtag_counts posts)) =
     (\<Sum>tag \<in> set (map lower (all_hashtags posts)). g tag (tag_occurrences posts tag))"
proof -
  have d: "distinct (hashtag_counts posts)"
    using hashtag_counts_distinct distinct_map by blast
  have inj: "inj_on (\<lambda>t. (t, tag_occurrences posts t)) (set (map lower (all_hashtags posts)))"
    by (rule inj_onI) simp
  have "sum_list (map (\<lambda>(tag, n). g tag n) (hashtag_counts posts)) =
        sum (\<lambda>(tag, n). g tag n) (set (hashtag_counts posts))"
    by (rule sum_list_distinct_conv_sum_set [OF d])
  also have "\<dots> = (\<Sum>tag \<in> set (map lower (all_hashtags posts)). g tag (tag_occurrences posts tag))"
    by (simp only: hashtag_counts_set sum.reindex [OF inj]) simp
  finally show ?thesis .
qed

text \<open>
  Claim C7. For every category of the table and every post list, the category's score is
  the sum, over the distinct lowercased hashtags of the captions, of the tag's number of
  occurrences when some keyword of the category is a substring of the tag, and of 0
  otherwise. In particular, when \<open>#fitfam\<close> (in any letter case) occurs in a caption,
  its occurrences are part of the score of \<open>Fitness\<close>: the keyword \<open>fit\<close> is a substring.
\<close>

theorem niche_score_substring:
  "((category, keywords) \<in> set niche_categories \<longrightarrow>
      map_of (niche_scores posts) category =
        Some (\<Sum>tag \<in> set (map lower (all_hashtags posts)).
                if (\<exists>keyword \<in> set keywords. sublist keyword tag)
                then tag_occurrences posts tag else 0))
   \<and> (''fitfam'' \<in> set (map lower (all_hashtags posts)) \<longrightarrow>
        (\<exists>s. map_of (niche_scores posts) ''Fitness'' = Some s \<and>
             0 < tag_occurrences posts ''fitfam'' \<and> tag_occurrences posts ''fitfam'' \<le> s))"
proof (intro conjI impI)
  assume m: "(category, keywords) \<in> set niche_categories"
  show "map_of (niche_scores posts) category =
        Some (\<Sum>tag \<in> set (map lower (all_hashtags posts)).
                if (\<exists>keyword \<in> set keywords. sublist keyword tag)
                then tag_occurrences posts tag else 0)"
    using sum_over_counts [of "\<lambda>tag n. if any_keyword_in keywords tag then n else 0" posts]
    by (simp add: niche_scores_lookup [OF m] any_keyword_in_def list_ex_iff)
next
  let ?T = "set (map lower (all_hashtags posts))"
  let ?kws = "[''fitness'', ''workout'', ''gym'', ''exercise'', ''health'', ''training'',
        ''muscle'', ''fit'']"
  let ?f = "\<lambda>tag. if any_keyword_in ?kws tag then tag_occurrences posts tag else 0"
  assume f: "''fitfam'' \<in> ?T"
  have m: "(''Fitness'', ?kws) \<in> set niche_categories"
    by (simp add: niche_categories_def)
  have s: "map_of (niche_scores posts) ''Fitness'' = Some (sum ?f ?T)"
    using sum_over_counts [of "\<lambda>tag n. if any_keyword_in ?kws tag then n else 0" posts]
    by (simp add: niche_scores_lookup [OF m])
  have "sublist ''fit'' ''fitfam''"
    by (simp add: sublist_Cons_right)
  then have k: "any_keyword_in ?kws ''fitfam''"
    by (simp add: any_keyword_in_def)
  have "?f ''fitfam'' \<le> sum ?f ?T"
    by (rule member_le_sum [OF f]) simp_all
  then have le: "tag_occurrences posts ''fitfam'' \<le> sum ?f ?T"
    using k by simp
  have pos: "0 < tag_occurrences posts ''fitfam''"
    using f unfolding tag_occurrences_def by (metis count_list_0_iff gr0I)
  show "\<exists>s. map_of (niche_scores posts) ''Fitness'' = Some s \<and>
             0 < tag_occurrences posts ''fitfam'' \<and> tag_occurrences posts ''fitfam'' \<le> s"
    using s le pos by blast
qed

lemmas niche_eval =
  extract_hashtags_def all_hashtags_def hashtag_counts_def hashtag_pattern_def
  any_keyword_in_def score_tag_def niche_scores_def niche_categories_def mk_post_def
  tag_occurrences_def sublist_Cons_right prefix_Cons

text \<open>One post with the caption \<open>leg day #FitFam\<close>.\<close>

theorem niche_score_substring_witness:
  "map_of (niche_scores [mk_post ''leg day #FitFam'']) ''Fitness'' = Some 1
   \<and> tag_occurrences [mk_post ''leg day #FitFam''] ''fitfam'' = 1"
  using niche_score_substring [of "''Fitness''" "[''fitness'', ''workout'', ''gym'', ''exercise'', ''health'', ''training'',
        ''muscle'', ''fit'']" "[mk_post ''leg day #FitFam'']"]
  by (simp add: niche_eval regex_eval text_eval)



















section \<open>Properties of \<open>detect_gender_from_text\<close>\<close>

lemma count_indicators_sum:
  "count_indicators inds text m = m + sum_list (map (\<lambda>pattern. length (findall pattern text)) inds)"
  unfolding count_indicators_def by (induction inds arbitrary: m) auto

lemma findall_empty: "findall re [] = []"
  by (simp add: findall_def)

lemma count_captions_sum:
  "count_captions captions (f, m) =
     (f + sum_list (map (\<lambda>text. sum_list (map (\<lambda>pattern. length (findall pattern text)) female_indicators)) captions),
      m + sum_list (map (\<lambda>text. sum_list (map (\<lambda>pattern. length (findall pattern text)) male_indicators)) captions))"
  unfolding count_captions_def
  by (induction captions arbitrary: f m) (auto simp: count_indicators_sum findall_empty)

lemma matches_bio:
  "(if bio \<noteq> [] then (count_indicators female_indicators bio 0, count_indicators male_indicators bio 0) else (0, 0))
   = (sum_list (map (\<lambda>pattern. length (findall pattern bio)) female_indicators),
      sum_list (map (\<lambda>pattern. length (findall pattern bio)) male_indicators))"
  by (auto simp: count_indicators_sum findall_empty)

lemma matches_total:
  "count_captions captions
     (if bio \<noteq> [] then (count_indicators female_indicators bio 0, count_indicators male_indicators bio 0) else (0, 0))
   = (indicator_matches female_indicators bio captions, indicator_matches male_indicators bio captions)"
  by (simp only: matches_bio count_captions_sum indicator_matches_def list.map sum_list.Cons)

lemma spec_content_score_range: "- 1 \<le> spec_content_score bio captions \<and> spec_content_score bio captions \<le> 1"
proof -
  have "\<bar>dbl ((of_nat f - of_nat m) / (of_nat f + of_nat m))\<bar> \<le> 1"
    if "f + m \<noteq> 0" for f m :: nat
  proof -
    have p: "0 < (of_nat f + of_nat m :: rat)" using that
      by (metis of_nat_0_less_iff of_nat_add neq0_conv)
    have "\<bar>(of_nat f - of_nat m) / (of_nat f + of_nat m :: rat)\<bar> \<le> 1"
      using p by (simp add: abs_le_iff pos_le_divide_eq pos_divide_le_eq)
    then show ?thesis by (rule dbl_unit)
  qed
  then show ?thesis unfolding spec_content_score_def Let_def by (auto simp: abs_le_iff)
qed

text \<open>
  Claim C4. The name score is -1, 0 or 1 (male list first, then female list), the content
  score is \<open>(f - m) / (f + m)\<close> over the indicator matches of the bio and all captions
  (0 without matches) and lies in [-1, 1], the niche score is 0.8, -0.8 or 0; the result
  is Female with \<open>|score|\<close> when the weighted score \<open>0.5 name + 0.35 content + 0.15 niche\<close>
  exceeds 0.1, Male with \<open>|score|\<close> when it is below -0.1, and otherwise the fallback
  chain: the gendered niche lists (0.6), then the name lists (0.7), then Female at 0.5.
  The numbers are Python floats: every literal, quotient, product and sum is rounded to
  the nearest double. The indicator matches are those of the matcher of this theory,
  whose word class is that of ASCII.
\<close>

theorem detect_gender_weighted_score:
  "spec_name_score tb first_name \<in> {- 1, 0, 1}
   \<and> - 1 \<le> spec_content_score bio captions \<and> spec_content_score bio captions \<le> 1
   \<and> spec_niche_score tb niche \<in> {- dbl (4 / 5), 0, dbl (4 / 5)}
   \<and> detect_gender_from_text tb bio captions first_name niche =
       (if dbl (1 / 10) < spec_final_score tb bio captions first_name niche
        then (''Female'', \<bar>spec_final_score tb bio captions first_name niche\<bar>)
        else if spec_final_score tb bio captions first_name niche < - dbl (1 / 10)
        then (''Male'', \<bar>spec_final_score tb bio captions first_name niche\<bar>)
        else spec_fallback tb first_name niche)"
proof (intro conjI)
  show "spec_name_score tb first_name \<in> {- 1, 0, 1}"
    by (simp add: spec_name_score_def split: option.splits)
  show "- 1 \<le> spec_content_score bio captions" "spec_content_score bio captions \<le> 1"
    using spec_content_score_range by blast+
  show "spec_niche_score tb niche \<in> {- dbl (4 / 5), 0, dbl (4 / 5)}"
    by (simp add: spec_niche_score_def)
  have n: "(if truthy first_name
             then (if lower (the first_name) \<in> MALE_NAMES tb then - 1
                   else if lower (the first_name) \<in> FEMALE_NAMES tb then 1 else 0)
             else (0::rat)) = spec_name_score tb first_name"
    by (cases first_name) (auto simp: spec_name_score_def)
  have g: "\<And>kws. (truthy niche \<and> niche_in kws (lower (the niche))) = in_gendered_niche kws niche"
    by (cases niche) (auto simp: in_gendered_niche_def niche_in_def list_ex_iff)
  have k: "(if truthy niche
             then (if niche_in (female_dominated tb) (lower (the niche)) then dbl (4 / 5)
                   else if niche_in (male_dominated tb) (lower (the niche)) then - dbl (4 / 5)
                   else 0)
             else (0::rat)) = spec_niche_score tb niche"
    using g [of "female_dominated tb"] g [of "male_dominated tb"]
    by (auto simp: spec_niche_score_def)
  have l: "\<And>names. (truthy first_name \<and> lower (the first_name) \<in> names) = name_listed names first_name"
    by (cases first_name) (auto simp: name_listed_def)
  have c: "(let fm = count_captions captions
     (if bio \<noteq> [] then (count_indicators female_indicators bio 0, count_indicators male_indicators bio 0) else (0, 0));
          female_matches = fst fm; male_matches = snd fm;
          total_matches = female_matches + male_matches
        in (if 0 < total_matches
             then fdiv (of_nat female_matches - of_nat male_matches) (of_nat total_matches)
             else (0::rat))) = spec_content_score bio captions"
    by (simp only: matches_total) (simp add: spec_content_score_def fdiv_def Let_def)
  show "detect_gender_from_text tb bio captions first_name niche =
       (if dbl (1 / 10) < spec_final_score tb bio captions first_name niche
        then (''Female'', \<bar>spec_final_score tb bio captions first_name niche\<bar>)
        else if spec_final_score tb bio captions first_name niche < - dbl (1 / 10)
        then (''Male'', \<bar>spec_final_score tb bio captions first_name niche\<bar>)
        else spec_fallback tb first_name niche)"
    unfolding detect_gender_from_text_def
    using c by (simp only: Let_def n k g l spec_final_score_def spec_fallback_def fadd_def fmul_def)
qed

text \<open>A profile named Anna in a listed female niche, with three female and one male
  indicator in her bio and captions: the score is \<open>0.5 + 0.35 * 0.5 + 0.15 * 0.8\<close>, the
  double \<open>0.795\<close>. And a profile named John in the same niche, with nine female and one
  male indicator: the score is \<open>-0.5 + 0.35 * 0.8 + 0.15 * 0.8\<close>, the double
  \<open>-0.10000000000000003\<close>, which is below the double \<open>-0.1\<close>.\<close>

lemma anna_score:
  "spec_final_score sample_tables ''Mom and wife. He says hi'' [''her day'', []]
     (Some ''Anna'') (Some ''Beauty'') = 7160723407519089 / 9007199254740992"
  by code_simp

lemma john_score:
  "spec_final_score sample_tables nine_to_one [] (Some ''John'') (Some ''Beauty'')
   = - (1801439850948199 / 18014398509481984)"
  by code_simp

text \<open>With a single female indicator instead, the score of the second profile is
  \<open>-0.5 + 0.35 + 0.15 * 0.8\<close>, within the thresholds, and the fallback chain answers from
  the niche list.\<close>

lemma john_fallback:
  "spec_final_score sample_tables ''she'' [] (Some ''John'') (Some ''Beauty'')
   = - (135107988821115 / 4503599627370496)"
  "spec_fallback sample_tables (Some ''John'') (Some ''Beauty'') = (''Female'', dbl (3 / 5))"
  by code_simp+

theorem detect_gender_weighted_score_witness:
  "detect_gender_from_text sample_tables ''Mom and wife. He says hi'' [''her day'', []]
     (Some ''Anna'') (Some ''Beauty'') = (''Female'', 7160723407519089 / 9007199254740992)
   \<and> detect_gender_from_text sample_tables nine_to_one [] (Some ''John'') (Some ''Beauty'')
     = (''Male'', 1801439850948199 / 18014398509481984)
   \<and> detect_gender_from_text sample_tables ''she'' [] (Some ''John'') (Some ''Beauty'')
     = (''Female'', 5404319552844595 / 9007199254740992)"
  using detect_gender_weighted_score
     [of sample_tables "Some ''Anna''" "''Mom and wife. He says hi''" "[''her day'', []]"
         "Some ''Beauty''"]
    detect_gender_weighted_score
     [of sample_tables "Some ''John''" nine_to_one "[]" "Some ''Beauty''"]
    detect_gender_weighted_score
     [of sample_tables "Some ''John''" "''she''" "[]" "Some ''Beauty''"]
  by (simp add: anna_score john_score john_fallback dbl_literals)

text \<open>
  On the second profile the sum over the rational numbers is exactly -1/10, which is not
  below -1/10; without rounding the result would be that of the fallback chain, Female
  at 0.6.
\<close>

lemma rounding_at_threshold:
  "exact_final_score sample_tables nine_to_one [] (Some ''John'') (Some ''Beauty'') = - (1 / 10)"
  "spec_fallback sample_tables (Some ''John'') (Some ''Beauty'')
   = (''Female'', 5404319552844595 / 9007199254740992)"
  "detect_gender_from_text sample_tables nine_to_one [] (Some ''John'') (Some ''Beauty'')
   = (''Male'', 1801439850948199 / 18014398509481984)"
  by code_simp+

section \<open>The override for the name Chris\<close>

lemma detect_gender_label:
  "fst (detect_gender_from_text tb bio captions first_name niche) \<in> {''Female'', ''Male''}"
  unfolding detect_gender_from_text_def Let_def by simp

text \<open>
  Claim C2, as the code has it. For every profile whose first name is "Chris" in any
  letter case, and any bio, captions and tables, the final gender is "Male"; the
  confidence is 0.85 when the scoring chain said Female, and the chain's own confidence
  when the chain said Male.
\<close>

theorem chris_override:
  assumes "first_name_of full_name = Some n" and "lower n = ''chris''"
  shows "fst (analyze_user_info_gender tb full_name bio posts) = ''Male''
       \<and> snd (analyze_user_info_gender tb full_name bio posts) =
           (if fst (detect_gender_from_text tb bio (map caption_text posts) (Some n)
                      (primary (identify_niche posts))) = ''Female''
            then dbl (17 / 20)
            else snd (detect_gender_from_text tb bio (map caption_text posts) (Some n)
                        (primary (identify_niche posts))))"
proof -
  obtain g c where gc: "detect_gender_from_text tb bio (map caption_text posts) (Some n)
                      (primary (identify_niche posts)) = (g, c)"
    by (cases "detect_gender_from_text tb bio (map caption_text posts) (Some n)
                      (primary (identify_niche posts))")
  have "g \<in> {''Female'', ''Male''}"
    using detect_gender_label [of tb bio "map caption_text posts" "Some n"
        "primary (identify_niche posts)"] gc by simp
  moreover have "n \<noteq> []" using assms(2) by (auto simp: lower_def)
  ultimately show ?thesis
    using assms gc by (auto simp: analyze_user_info_gender_def Let_def)
qed

lemma no_posts_scores: "primary_niche [] = None"
  by (simp add: primary_niche_def sorted_niches_def niche_scores_def hashtag_counts_def
        all_hashtags_def niche_categories_def)

text \<open>The profile "Chris Evans" with the bio "he/him" and no posts, with empty tables.\<close>

lemma chris_chain:
  "detect_gender_from_text no_tables ''he/him'' [] (Some ''Chris'') None = (''Male'', dbl (7 / 20))"
  by code_simp

theorem chris_override_witness:
  "analyze_user_info_gender no_tables ''Chris Evans'' ''he/him'' [] = (''Male'', dbl (7 / 20))"
proof -
  have n: "first_name_of ''Chris Evans'' = Some ''Chris''"
    by (simp add: first_name_of_def sublist_Cons_right prefix_Cons)
  have l: "lower ''Chris'' = ''chris''"
    by (simp add: text_eval)
  from chris_override [OF n l, of no_tables "''he/him''" "[]"]
  show ?thesis
    by (simp add: chris_chain identify_niche_def no_posts_scores prod_eq_iff)
qed

text \<open>
  On that profile the chain itself answers Male, with the score
  \<open>|0.35 * ((0 - 2) / 2)| = 0.35\<close>; the override does not fire and the confidence stays 0.35,
  not 0.85.
\<close>

theorem chris_confidence_counterexample:
  "first_name_of ''Chris Evans'' = Some ''Chris''
   \<and> snd (analyze_user_info_gender no_tables ''Chris Evans'' ''he/him'' []) = dbl (7 / 20)
   \<and> dbl (7 / 20) \<noteq> dbl (17 / 20)"
proof -
  have n: "first_name_of ''Chris Evans'' = Some ''Chris''"
    by (simp add: first_name_of_def sublist_Cons_right prefix_Cons)
  have k: "dbl (7 / 20) \<noteq> dbl (17 / 20)"
    by (simp add: dbl_literals)
  have a: "snd (analyze_user_info_gender no_tables ''Chris Evans'' ''he/him'' []) = dbl (7 / 20)"
    by (simp add: n chris_chain analyze_user_info_gender_def identify_niche_def no_posts_scores
          Let_def)
  from n a k show ?thesis by (simp only:) simp
qed

section \<open>The posting cadence without timestamps\<close>

lemma truthy_timestamps_none:
  "(\<forall>p \<in> set posts. taken_at p = None \<or> taken_at p = Some 0) \<Longrightarrow> truthy_timestamps posts = []"
  unfolding truthy_timestamps_def by (induction posts) auto

text \<open>
  Claim C3 fails on the code. For a non-empty post list in which no post carries a
  \<open>taken_at\<close> timestamp (absent, null or zero), \<open>analyze_post_info\<close> does not return a
  record: the final update reads \<open>overall_frequency\<close>, which was never assigned, and
  raises \<open>UnboundLocalError\<close>. The caller \<open>analyze_creator_data\<close> catches it and returns
  \<open>None\<close>, so the creator gets no record at all.
\<close>

theorem analyze_post_info_unbound:
  assumes "posts \<noteq> []" and "\<forall>p \<in> set posts. taken_at p = None \<or> taken_at p = Some 0"
  shows "analyze_post_info utc_offset now posts pf = Inl (UnboundLocalError ''overall_frequency'')"
  using assms(1) truthy_timestamps_none [OF assms(2)]
  by (simp add: analyze_post_info_def Let_def)

text \<open>One post with a caption and no \<open>taken_at\<close>, on the record that \<open>analyze_user_info\<close>
  has just built.\<close>

theorem analyze_post_info_unbound_witness:
  "analyze_post_info 0 1790000000 [mk_post ''hello''] initial_posting_frequency
   = Inl (UnboundLocalError ''overall_frequency'')"
  using analyze_post_info_unbound [of "[mk_post ''hello'']" 0 1790000000 initial_posting_frequency]
  by (simp add: mk_post_def)

section \<open>Properties of \<open>identify_collaborations\<close>\<close>

subsection \<open>The status\<close>











subsection \<open>Rejected mention tokens\<close>

lemma count_mention_inv: "counting_inv st \<Longrightarrow> counting_inv (count_mention r st m)"
  unfolding counting_inv_def count_mention_def Let_def rejected_token_def
  by (auto simp: update_conv' map_of_map_entry split: option.splits if_splits)

lemma count_hashtag_inv: "counting_inv st \<Longrightarrow> counting_inv (count_hashtag r st h)"
  unfolding counting_inv_def count_hashtag_def Let_def
  by (auto simp: update_conv' map_of_map_entry split: option.splits if_splits)

lemma fold_inv:
  "(\<And>s x. P s \<Longrightarrow> P (f s x)) \<Longrightarrow> P s \<Longrightarrow> P (foldl f s xs)"
  by (induction xs arbitrary: s) auto

lemma count_post_inv: "counting_inv st \<Longrightarrow> counting_inv (count_post now st p)"
  unfolding count_post_def Let_def
  by (auto intro!: fold_inv count_mention_inv count_hashtag_inv)

lemma count_posts_inv: "counting_inv (count_posts now posts)"
  unfolding count_posts_def
proof (rule fold_inv)
  show "\<And>s x. counting_inv s \<Longrightarrow> counting_inv (count_post now s x)"
    by (rule count_post_inv)
  show "counting_inv \<lparr>mentions_count = [], hashtags_count = [], brand_sources = []\<rparr>"
    by (simp add: counting_inv_def)
qed

lemma first_by_name_subset: "set (first_by_name processed items) \<subseteq> set items"
  by (induction processed items rule: first_by_name.induct) auto

lemma mention_brand_ok:
  assumes "bd \<in> set (mention_brands (count_posts now posts))"
  shows "\<not> rejected_token (fst bd)"
proof -
  have "bd \<in> set (mentions_count (count_posts now posts))"
    using assms by (simp add: mention_brands_def)
  then have "map_of (mentions_count (count_posts now posts)) (fst bd) \<noteq> None"
    by (metis map_of_eq_None_iff image_eqI)
  then show ?thesis
    using count_posts_inv [of now posts] by (simp add: counting_inv_def)
qed

lemma hashtag_brand_source:
  assumes "bd \<in> set (hashtag_brands (count_posts now posts))"
  shows "source_str (map_of (brand_sources (count_posts now posts)) (fst bd)) = ''hashtag''"
proof -
  let ?st = "count_posts now posts"
  have m: "map_of (mentions_count ?st) (fst bd) = None"
    and h: "bd \<in> set (hashtags_count ?st)"
    using assms by (simp_all add: hashtag_brands_def)
  have hn: "map_of (hashtags_count ?st) (fst bd) \<noteq> None"
    using h by (metis map_of_eq_None_iff image_eqI)
  from count_posts_inv [of now posts] m hn
  obtain s where s: "map_of (brand_sources ?st) (fst bd) = Some s" "hashtag s"
    unfolding counting_inv_def by blast
  have "\<not> mention s"
    using count_posts_inv [of now posts] m s(1) unfolding counting_inv_def by blast
  then show ?thesis using s by (simp add: source_str_def)
qed

text \<open>
  Claim C10. For every list of posts, no entry of \<open>top_collaborations\<close> that has a source
  other than "hashtag", and no entry of \<open>recent_brands\<close> or \<open>previous_brands\<close> recorded with
  the source "mention", bears a name shorter than 3 characters or a name that is, in
  lower case, one of the stop words: such a mention token is never counted. The two
  plain name lists are the names of the lists with sources.
\<close>

theorem rejected_mentions_never_reported:
  "(\<forall>e \<in> set (top_collaborations (identify_collaborations now posts)).
       source e \<noteq> ''hashtag'' \<longrightarrow> 3 \<le> length (name e) \<and> lower (name e) \<notin> set stop_words)
   \<and> (\<forall>n. (n, ''mention'') \<in> set (recent_brands_with_source (identify_collaborations now posts)) \<longrightarrow>
         3 \<le> length n \<and> lower n \<notin> set stop_words)
   \<and> (\<forall>n. (n, ''mention'') \<in> set (previous_brands_with_source (identify_collaborations now posts)) \<longrightarrow>
         3 \<le> length n \<and> lower n \<notin> set stop_words)
   \<and> recent_brands (identify_collaborations now posts) =
        map fst (recent_brands_with_source (identify_collaborations now posts))
   \<and> previous_brands (identify_collaborations now posts) =
        map fst (previous_brands_with_source (identify_collaborations now posts))"
proof (intro conjI ballI allI impI)
  let ?st = "count_posts now posts"
  fix e assume e: "e \<in> set (top_collaborations (identify_collaborations now posts))"
    and src: "source e \<noteq> ''hashtag''"
  from e have "e \<in> set (all_collabs ?st posts)"
    by (simp add: identify_collaborations_def Let_def sort_collabs_def)
  then consider bd where "bd \<in> set (mention_brands ?st)" "name e = fst bd"
    | bd where "bd \<in> set (hashtag_brands ?st)"
        "source e = source_str (map_of (brand_sources ?st) (fst bd))"
    by (auto simp: all_collabs_def Let_def make_collab_def)
  then have "\<not> rejected_token (name e)"
  proof cases
    case 1
    then show ?thesis using mention_brand_ok by metis
  next
    case 2
    then show ?thesis using hashtag_brand_source src by metis
  qed
  then show "3 \<le> length (name e)" "lower (name e) \<notin> set stop_words"
    by (auto simp: rejected_token_def)
next
  let ?st = "count_posts now posts"
  fix n assume "(n, ''mention'') \<in> set (recent_brands_with_source (identify_collaborations now posts))"
  then have "(n, ''mention'') \<in> set (recent_brands_raw ?st)"
    using first_by_name_subset by (auto simp: identify_collaborations_def Let_def)
  then obtain bd where "bd \<in> set (mention_brands ?st)" "n = fst bd"
    by (auto simp: recent_brands_raw_def)
  then have "\<not> rejected_token n" using mention_brand_ok by metis
  then show "3 \<le> length n" "lower n \<notin> set stop_words"
    by (auto simp: rejected_token_def)
next
  let ?st = "count_posts now posts"
  fix n assume "(n, ''mention'') \<in> set (previous_brands_with_source (identify_collaborations now posts))"
  then have "(n, ''mention'') \<in> set (previous_brands_raw ?st)"
    using first_by_name_subset by (auto simp: identify_collaborations_def Let_def)
  then obtain bd where "bd \<in> set (mention_brands ?st)" "n = fst bd"
    by (auto simp: previous_brands_raw_def)
  then have "\<not> rejected_token n" using mention_brand_ok by metis
  then show "3 \<le> length n" "lower n \<notin> set stop_words"
    by (auto simp: rejected_token_def)
next
  show "recent_brands (identify_collaborations now posts) =
        map fst (recent_brands_with_source (identify_collaborations now posts))"
    by (simp add: identify_collaborations_def Let_def)
  show "previous_brands (identify_collaborations now posts) =
        map fst (previous_brands_with_source (identify_collaborations now posts))"
    by (simp add: identify_collaborations_def Let_def)
qed


lemma nike_posts_counting:
  "count_posts 1790000000 nike_posts =
     \<lparr>mentions_count = [(''nike'', \<lparr>count = 2, is_recent = True\<rparr>)],
      hashtags_count = [(''the'', \<lparr>count = 2, is_recent = True\<rparr>)],
      brand_sources = [(''nike'', \<lparr>mention = True, hashtag = False\<rparr>),
                       (''the'', \<lparr>mention = False, hashtag = True\<rparr>)]\<rparr>"
  by code_simp

lemma nike_previous:
  "previous_brands_with_source (identify_collaborations 1790000000 nike_posts)
   = [(''nike'', ''mention''), (''the'', ''hashtag'')]"
  by (simp add: identify_collaborations_def Let_def nike_posts_counting previous_brands_raw_def
        mention_brands_def hashtag_brands_def)

text \<open>In the sample timeline \<open>@the\<close> and \<open>@ab\<close> occur twice and are not reported as
  mentions; \<open>@nike\<close> is, and \<open>the\<close> is reported as the hashtag it also is.\<close>

theorem rejected_mentions_never_reported_witness:
  "previous_brands_with_source (identify_collaborations 1790000000 nike_posts)
     = [(''nike'', ''mention''), (''the'', ''hashtag'')]
   \<and> 3 \<le> length ''nike'' \<and> lower ''nike'' \<notin> set stop_words"
proof -
  have "(''nike'', ''mention'')
          \<in> set (previous_brands_with_source (identify_collaborations 1790000000 nike_posts))"
    by (simp add: nike_previous)
  with rejected_mentions_never_reported [of 1790000000 nike_posts] nike_previous
  show ?thesis by blast
qed
section \<open>Properties of \<open>determine_location\<close>\<close>

lemma is_within_bounds_box: "is_within_bounds la lo b = in_box la lo b"
  by (auto simp: is_within_bounds_def in_box_def)

lemma find_country_spec: "find_country la lo db = spec_country la lo db"
  unfolding spec_country_def by (induction db) (auto simp: is_within_bounds_box)

lemma find_in_kind_find:
  "find_in_kind la lo ty xs =
     map_option (\<lambda>(sub_code, sd). (sub_code, sd, ty))
       (List.find (\<lambda>(sub_code, sd). in_box la lo (sub_bounds sd)) xs)"
  by (induction xs) (auto simp: is_within_bounds_box)

lemma find_append:
  "List.find P (xs @ ys) = (case List.find P xs of None \<Rightarrow> List.find P ys | Some x \<Rightarrow> Some x)"
  by (induction xs) auto

lemma find_subdivision_spec:
  "map_option (\<lambda>(sub_code, sd, sub_type). (sub_code, sd)) (find_subdivision la lo cd)
   = spec_subdivision la lo cd"
  unfolding find_subdivision_def spec_subdivision_def subdivision_types_def
  by (auto simp: find_in_kind_find find_append split: option.splits)

subsection \<open>The distance\<close>

lemma haversine_spec:
  "haversine_distance ops la lo (lat c) (lng c) =
     (if computable ops la lo c then Inr (distance_to ops la lo c) else Inl ValueError)"
  by (auto simp: haversine_distance_def computable_def distance_to_def haversine_term_def Let_def)

subsection \<open>Nearest\<close>

lemma arg_min_list_step:
  fixes f :: "'a \<Rightarrow> real"
  shows "arg_min_list f (x # y # ys) = arg_min_list f ((if f y < f x then y else x) # ys)"
  by (cases ys) (auto simp: Let_def)

lemma foldl_keep_closer:
  "foldl (keep_closer f) x ys = arg_min_list f (x # ys)"
proof (induction ys arbitrary: x)
  case Nil
  then show ?case by simp
next
  case (Cons y ys)
  have "foldl (keep_closer f) x (y # ys) = foldl (keep_closer f) (keep_closer f x y) ys"
    by simp
  also have "\<dots> = arg_min_list f (keep_closer f x y # ys)"
    by (rule Cons.IH)
  also have "\<dots> = arg_min_list f (x # y # ys)"
    by (simp only: keep_closer_def arg_min_list_step [of f x y ys])
  finally show ?case .
qed

lemma keep_closer_le: "f (foldl (keep_closer f) b xs) \<le> f b"
proof (induction xs arbitrary: b)
  case Nil
  then show ?case by simp
next
  case (Cons x xs)
  have "f (foldl (keep_closer f) (keep_closer f b x) xs) \<le> f (keep_closer f b x)"
    by (rule Cons.IH)
  also have "\<dots> \<le> f b" by (simp add: keep_closer_def)
  finally show ?case by simp
qed

lemma keep_closer_filter:
  "f b \<le> km \<Longrightarrow>
   foldl (keep_closer f) b (filter (\<lambda>x. f x \<le> km) xs) = foldl (keep_closer f) b xs"
proof (induction xs arbitrary: b)
  case Nil
  then show ?case by simp
next
  case (Cons x xs)
  have k: "f (keep_closer f b x) \<le> km"
    using Cons.prems by (simp add: keep_closer_def)
  show ?case
  proof (cases "f x \<le> km")
    case True
    then show ?thesis using Cons.IH [OF k] by simp
  next
    case False
    then have "keep_closer f b x = b" using Cons.prems by (simp add: keep_closer_def)
    then show ?thesis using False Cons.IH [OF Cons.prems] by simp
  qed
qed

lemma keep_closer_near:
  "f (foldl (keep_closer f) y ys) \<le> km \<Longrightarrow>
   \<exists>z zs. filter (\<lambda>x. f x \<le> km) (y # ys) = z # zs
        \<and> foldl (keep_closer f) z zs = foldl (keep_closer f) y ys"
proof (induction ys arbitrary: y)
  case Nil
  then show ?case by simp
next
  case (Cons y' ys)
  show ?case
  proof (cases "f y \<le> km")
    case True
    then show ?thesis using keep_closer_filter [of f y km "y' # ys"] by simp
  next
    case False
    show ?thesis
    proof (cases "f y' < f y")
      case True
      then have "foldl (keep_closer f) y (y' # ys) = foldl (keep_closer f) y' ys"
        by (simp add: keep_closer_def)
      then show ?thesis using Cons.IH [of y'] Cons.prems False by simp
    next
      case n: False
      then have e: "foldl (keep_closer f) y (y' # ys) = foldl (keep_closer f) y ys"
        by (simp add: keep_closer_def)
      have "\<not> f y' \<le> km" using n False by simp
      then show ?thesis using Cons.IH [of y] Cons.prems False e by simp
    qed
  qed
qed

lemma keep_closer_far:
  "\<not> f (foldl (keep_closer f) y ys) \<le> km \<Longrightarrow> filter (\<lambda>x. f x \<le> km) (y # ys) = []"
proof -
  assume a: "\<not> f (foldl (keep_closer f) y ys) \<le> km"
  have "f (arg_min_list f (y # ys)) = Min (f ` set (y # ys))"
    by (rule f_arg_min_list_f) simp
  then have "f (arg_min_list f (y # ys)) \<le> f x" if "x \<in> set (y # ys)" for x
    using that by (simp only:) (rule Min_le, auto)
  hence "\<And>x. x \<in> set (y # ys) \<Longrightarrow> \<not> f x \<le> km"
    using a by (simp only: foldl_keep_closer) (meson order_trans)
  then show ?thesis by (simp only: filter_empty_conv) blast
qed

subsection \<open>The loops of find_landmark and find_city\<close>

lemma landmark_loop_fold:
  "landmark_loop ops la lo km xs closest =
     (if \<forall>x \<in> set xs. computable ops la lo (snd x)
      then Inr (foldl (landmark_step ops la lo km) closest xs) else Inl ValueError)"
  by (induction xs arbitrary: closest) (auto simp: haversine_spec landmark_step_def)

lemma city_loop_fold:
  "city_loop ops la lo xs closest =
     (if \<forall>x \<in> set xs. computable ops la lo (snd x)
      then Inr (foldl (city_step ops la lo) closest xs) else Inl ValueError)"
  by (induction xs arbitrary: closest) (auto simp: haversine_spec city_step_def)

lemma county_scan_find:
  "\<forall>x \<in> set xs. computable ops la lo (snd x) \<Longrightarrow>
   county_scan ops la lo xs =
     Inr (case List.find (\<lambda>(landmark_name, ld).
                        landmark_county ld \<noteq> None \<and> distance_to ops la lo ld \<le> 1) xs of
        None \<Rightarrow> None
      | Some (landmark_name, ld) \<Rightarrow> landmark_county ld)"
proof (induction xs)
  case Nil
  then show ?case by simp
next
  case (Cons x xs)
  obtain landmark_name ld where x: "x = (landmark_name, ld)" by (cases x)
  have c: "computable ops la lo ld" using Cons.prems x by simp
  have ih: "county_scan ops la lo xs =
     Inr (case List.find (\<lambda>(landmark_name, ld).
                        landmark_county ld \<noteq> None \<and> distance_to ops la lo ld \<le> 1) xs of
        None \<Rightarrow> None
      | Some (landmark_name, ld) \<Rightarrow> landmark_county ld)"
    using Cons.IH Cons.prems by simp
  show ?case
  proof (cases "landmark_county ld \<noteq> None \<and> distance_to ops la lo ld \<le> 1")
    case True
    then show ?thesis using c by (simp add: x haversine_spec)
  next
    case False
    then show ?thesis using c ih by (auto simp: x haversine_spec)
  qed
qed

lemma landmark_fold_some:
  "d = distance_to ops la lo (snd b) \<Longrightarrow>
   foldl (landmark_step ops la lo km) (Some (b, d)) xs
   = (let m = foldl (keep_closer (\<lambda>x. distance_to ops la lo (snd x))) b
                (filter (\<lambda>x. distance_to ops la lo (snd x) \<le> km) xs)
      in Some (m, distance_to ops la lo (snd m)))"
proof (induction xs arbitrary: b d)
  case Nil
  then show ?case by simp
next
  case (Cons x xs)
  let ?dx = "distance_to ops la lo (snd x)"
  show ?case
  proof (cases "?dx < d \<and> ?dx \<le> km")
    case True
    then have "landmark_step ops la lo km (Some (b, d)) x = Some (x, ?dx)"
      by (simp add: landmark_step_def closer_than_def)
    then show ?thesis
      using True Cons.prems Cons.IH [of ?dx x]
      by (simp add: keep_closer_def)
  next
    case False
    then have s: "landmark_step ops la lo km (Some (b, d)) x = Some (b, d)"
      by (auto simp: landmark_step_def closer_than_def)
    show ?thesis
    proof (cases "?dx \<le> km")
      case True
      then have "\<not> ?dx < d" using False by simp
      then show ?thesis
        using True s Cons.prems Cons.IH [of d b] by (simp add: keep_closer_def)
    next
      case f: False
      then show ?thesis using s Cons.prems Cons.IH [of d b] by simp
    qed
  qed
qed

lemma landmark_fold_none:
  "foldl (landmark_step ops la lo km) None xs
   = (case filter (\<lambda>x. distance_to ops la lo (snd x) \<le> km) xs of
        [] \<Rightarrow> None
      | y # ys \<Rightarrow> (let m = foldl (keep_closer (\<lambda>x. distance_to ops la lo (snd x))) y ys
                   in Some (m, distance_to ops la lo (snd m))))"
proof (induction xs)
  case Nil
  then show ?case by simp
next
  case (Cons x xs)
  show ?case
  proof (cases "distance_to ops la lo (snd x) \<le> km")
    case True
    then have "landmark_step ops la lo km None x = Some (x, distance_to ops la lo (snd x))"
      by (simp add: landmark_step_def closer_than_def)
    then show ?thesis
      using True landmark_fold_some [of "distance_to ops la lo (snd x)" ops la lo x km xs]
      by simp
  next
    case False
    then have "landmark_step ops la lo km None x = None"
      by (simp add: landmark_step_def closer_than_def)
    then show ?thesis using False Cons.IH by simp
  qed
qed

lemma find_landmark_spec:
  "find_landmark ops la lo sd km =
     (if \<forall>x \<in> set (landmarks sd). computable ops la lo (snd x)
      then Inr (map_option (\<lambda>m. (m, distance_to ops la lo (snd m)))
                  (nearest_within ops la lo km (landmarks sd)))
      else Inl ValueError)"
  by (simp only: find_landmark_def landmark_loop_fold landmark_fold_none)
     (simp add: nearest_within_def Let_def foldl_keep_closer split: list.splits)

lemma city_fold_some:
  "d = distance_to ops la lo (snd b) \<Longrightarrow>
   foldl (city_step ops la lo) (Some (fst b, d)) xs
   = (let m = foldl (keep_closer (\<lambda>x. distance_to ops la lo (snd x))) b xs
      in Some (fst m, distance_to ops la lo (snd m)))"
proof (induction xs arbitrary: b d)
  case Nil
  then show ?case by simp
next
  case (Cons x xs)
  let ?dx = "distance_to ops la lo (snd x)"
  show ?case
  proof (cases "?dx < d")
    case True
    then have "city_step ops la lo (Some (fst b, d)) x = Some (fst x, ?dx)"
      by (simp add: city_step_def closer_than_def)
    then show ?thesis
      using True Cons.prems Cons.IH [of ?dx x] by (simp add: keep_closer_def)
  next
    case False
    then have "city_step ops la lo (Some (fst b, d)) x = Some (fst b, d)"
      by (simp add: city_step_def closer_than_def)
    then show ?thesis
      using False Cons.prems Cons.IH [of d b] by (simp add: keep_closer_def)
  qed
qed

lemma city_fold_none:
  "foldl (city_step ops la lo) None xs
   = (case xs of
        [] \<Rightarrow> None
      | y # ys \<Rightarrow> (let m = foldl (keep_closer (\<lambda>x. distance_to ops la lo (snd x))) y ys
                   in Some (fst m, distance_to ops la lo (snd m))))"
proof (cases xs)
  case Nil
  then show ?thesis by simp
next
  case (Cons x ys)
  have "city_step ops la lo None x = Some (fst x, distance_to ops la lo (snd x))"
    by (simp add: city_step_def closer_than_def)
  then show ?thesis
    using city_fold_some [of "distance_to ops la lo (snd x)" ops la lo x ys]
    by (simp add: Cons)
qed

lemma find_city_pure:
  "(case foldl (city_step ops la lo) None xs of
      None \<Rightarrow> None
    | Some (closest_city, closest_distance) \<Rightarrow>
        if closest_distance \<le> km then Some (closest_city, closest_distance) else None)
   = map_option (\<lambda>m. (fst m, distance_to ops la lo (snd m))) (nearest_within ops la lo km xs)"
proof (cases xs)
  case Nil
  then show ?thesis by (simp add: nearest_within_def)
next
  case (Cons y ys)
  let ?f = "\<lambda>x. distance_to ops la lo (snd x)"
  let ?m = "foldl (keep_closer ?f) y ys"
  let ?lhs = "(case foldl (city_step ops la lo) None xs of
      None \<Rightarrow> None
    | Some (closest_city, closest_distance) \<Rightarrow>
        if closest_distance \<le> km then Some (closest_city, closest_distance) else None)"
  have fc: "?lhs = (if ?f ?m \<le> km then Some (fst ?m, ?f ?m) else None)"
    by (simp only: city_fold_none) (simp add: Cons Let_def)
  show ?thesis
  proof (cases "?f ?m \<le> km")
    case True
    from keep_closer_near [of ?f y ys km, OF True]
    obtain z zs where z: "filter (\<lambda>x. ?f x \<le> km) (y # ys) = z # zs"
      "foldl (keep_closer ?f) z zs = ?m" by blast
    have "nearest_within ops la lo km xs = Some ?m"
      unfolding nearest_within_def Cons Let_def
      using z by (simp add: foldl_keep_closer [symmetric])
    then show ?thesis using True fc by simp
  next
    case False
    have "filter (\<lambda>x. ?f x \<le> km) (y # ys) = []"
      by (rule keep_closer_far [of ?f y ys km, OF False])
    then have "nearest_within ops la lo km xs = None"
      unfolding nearest_within_def Cons Let_def by simp
    then show ?thesis using False fc by simp
  qed
qed

lemma find_city_spec:
  "find_city ops la lo sd km =
     (if \<forall>x \<in> set (major_cities sd). computable ops la lo (snd x)
      then Inr (map_option (\<lambda>m. (fst m, distance_to ops la lo (snd m)))
                  (nearest_within ops la lo km (major_cities sd)))
      else Inl ValueError)"
proof (cases "\<forall>x \<in> set (major_cities sd). computable ops la lo (snd x)")
  case True
  have "find_city ops la lo sd km =
      Inr (case foldl (city_step ops la lo) None (major_cities sd) of
      None \<Rightarrow> None
    | Some (closest_city, closest_distance) \<Rightarrow>
        if closest_distance \<le> km then Some (closest_city, closest_distance) else None)"
    using True by (simp add: find_city_def city_loop_fold split: option.splits)
  then have "find_city ops la lo sd km =
      Inr (map_option (\<lambda>m. (fst m, distance_to ops la lo (snd m)))
             (nearest_within ops la lo km (major_cities sd)))"
    by (simp only: find_city_pure)
  then show ?thesis using True by simp
next
  case False
  have "city_loop ops la lo (major_cities sd) None = Inl ValueError"
    by (simp only: city_loop_fold False if_False)
  then show ?thesis by (simp only: find_city_def False if_False sum.case)
qed

lemma find_county_spec:
  "\<forall>x \<in> set (landmarks sd). computable ops la lo (snd x) \<Longrightarrow>
   find_county ops la lo sd = Inr (spec_county ops la lo sd)"
  by (simp add: find_county_def spec_county_def county_scan_find)

subsection \<open>The resolution inside a subdivision\<close>

lemma with_landmark_spec:
  assumes "r0 = empty_location\<lparr>country := c0\<rparr>"
  shows "with_landmark
           (map_option (\<lambda>m. (m, distance_to ops la lo (snd m)))
              (nearest_within ops la lo 5 (landmarks sd)))
           (r0\<lparr>state := Some (sub_name sd)\<rparr>)
         = \<lparr>city = spec_landmark_city ops la lo sd, state = Some (sub_name sd), country = c0,
            county = spec_landmark_county ops la lo sd,
            landmark = map_option fst (found_landmark ops la lo sd),
            postal_code = None, full_location = None, approximate = True\<rparr>"
  unfolding with_landmark_def found_landmark_def spec_landmark_city_def
    spec_landmark_county_def assms empty_location_def Let_def
  by (cases "nearest_within ops la lo 5 (landmarks sd)") auto

lemma with_city_spec:
  assumes "city r = spec_landmark_city ops la lo sd"
  shows "with_city ops la lo sd r =
     (if truthy (spec_landmark_city ops la lo sd)
         \<or> (\<forall>x \<in> set (major_cities sd). computable ops la lo (snd x))
      then Inr (r\<lparr>city := spec_city ops la lo sd\<rparr>) else Inl ValueError)"
proof (cases "truthy (spec_landmark_city ops la lo sd)")
  case True
  then show ?thesis using assms by (simp add: with_city_def spec_city_def)
next
  case False
  show ?thesis
  proof (cases "\<forall>x \<in> set (major_cities sd). computable ops la lo (snd x)")
    case True
    have f: "find_city ops la lo sd 50 =
       Inr (map_option (\<lambda>m. (fst m, distance_to ops la lo (snd m)))
              (nearest_within ops la lo 50 (major_cities sd)))"
      using True by (simp add: find_city_spec)
    show ?thesis
      using False True assms
      by (cases "nearest_within ops la lo 50 (major_cities sd)")
         (auto simp: with_city_def spec_city_def f)
  next
    case nc: False
    have f: "find_city ops la lo sd 50 = Inl ValueError"
      by (simp only: find_city_spec nc if_False)
    show ?thesis
      using False assms by (simp only: with_city_def f nc) simp
  qed
qed

lemma with_county_spec:
  assumes "\<forall>x \<in> set (landmarks sd). computable ops la lo (snd x)"
    and "county r = spec_landmark_county ops la lo sd"
  shows "with_county ops la lo code sd r =
           Inr (r\<lparr>county := spec_resolved_county ops code la lo sd\<rparr>)"
  using assms(2)
  by (auto simp: with_county_def spec_resolved_county_def find_county_spec [OF assms(1)])

lemma resolve_spec:
  assumes "r0 = empty_location\<lparr>country := c0\<rparr>"
  shows "resolve_in_subdivision ops la lo code sd r0 =
     (if (\<forall>x \<in> set (landmarks sd). computable ops la lo (snd x))
         \<and> (truthy (spec_landmark_city ops la lo sd)
            \<or> (\<forall>x \<in> set (major_cities sd). computable ops la lo (snd x)))
      then Inr \<lparr>city = spec_city ops la lo sd, state = Some (sub_name sd), country = c0,
                county = spec_resolved_county ops code la lo sd,
                landmark = map_option fst (found_landmark ops la lo sd),
                postal_code = None, full_location = None, approximate = True\<rparr>
      else Inl ValueError)"
proof (cases "\<forall>x \<in> set (landmarks sd). computable ops la lo (snd x)")
  case False
  have "find_landmark ops la lo sd 5 = Inl ValueError"
    by (simp only: find_landmark_spec False if_False)
  then show ?thesis
    by (simp only: resolve_in_subdivision_def Let_def False) simp
next
  case True
  let ?r2 = "\<lparr>city = spec_landmark_city ops la lo sd, state = Some (sub_name sd), country = c0,
            county = spec_landmark_county ops la lo sd,
            landmark = map_option fst (found_landmark ops la lo sd),
            postal_code = None, full_location = None, approximate = True\<rparr>"
  have l: "find_landmark ops la lo sd 5 =
      Inr (map_option (\<lambda>m. (m, distance_to ops la lo (snd m)))
             (nearest_within ops la lo 5 (landmarks sd)))"
    using True by (simp add: find_landmark_spec)
  have r: "resolve_in_subdivision ops la lo code sd r0 =
      (case with_city ops la lo sd ?r2 of
         Inl e \<Rightarrow> Inl e
       | Inr result3 \<Rightarrow> with_county ops la lo code sd result3)"
    by (simp only: resolve_in_subdivision_def Let_def l sum.case
          with_landmark_spec [OF assms])
  have c: "with_city ops la lo sd ?r2 =
     (if truthy (spec_landmark_city ops la lo sd)
         \<or> (\<forall>x \<in> set (major_cities sd). computable ops la lo (snd x))
      then Inr (?r2\<lparr>city := spec_city ops la lo sd\<rparr>) else Inl ValueError)"
    by (rule with_city_spec) simp
  have k: "with_county ops la lo code sd (?r2\<lparr>city := spec_city ops la lo sd\<rparr>) =
           Inr (?r2\<lparr>city := spec_city ops la lo sd,
                     county := spec_resolved_county ops code la lo sd\<rparr>)"
    by (rule with_county_spec [OF True]) simp
  show ?thesis
    unfolding r c using True k by simp
qed

lemma location_parts_spec:
  "(if location_parts code r \<noteq> [] then Some (join_comma (location_parts code r)) else country r)
   = spec_full_location code (landmark r) (city r) (county r) (state r) (country r)"
proof -
  have t: "\<And>x. truthy x \<Longrightarrow> \<exists>s. x = Some s \<and> s \<noteq> []"
    by (metis truthy.elims(2))
  have "location_parts code r =
     non_empty
       [landmark r,
        (if landmark r \<noteq> city r \<or> \<not> truthy (landmark r) then city r else None),
        (if code = ''USA'' \<and> truthy (county r)
         then map_option (\<lambda>c. c @ '' County'') (county r) else None),
        state r,
        country r]"
    unfolding location_parts_def non_empty_def
    by (cases "county r") (auto dest!: t)
  then show ?thesis
    by (simp only: spec_full_location_def Let_def) simp
qed

lemma finish_spec:
  "(let parts = location_parts code r
    in if parts \<noteq> [] then Inr (r\<lparr>full_location := Some (join_comma parts)\<rparr>)
       else Inr (r\<lparr>full_location := country r\<rparr>))
   = Inr (r\<lparr>full_location :=
              spec_full_location code (landmark r) (city r) (county r) (state r) (country r)\<rparr>)"
  by (simp add: Let_def location_parts_spec [symmetric])

lemma determine_location_spec:
  "determine_location ops la lo db =
     (if distances_computable ops la lo db then Inr (spec_location ops la lo db)
      else Inl ValueError)"
proof (cases "find_country la lo db")
  case None
  then have sc: "spec_country la lo db = None" by (simp add: find_country_spec)
  show ?thesis
    by (simp add: determine_location_def None spec_location_def distances_computable_def sc)
next
  case (Some cc)
  obtain code cd where cc: "cc = (code, cd)" by (cases cc)
  have sc: "spec_country la lo db = Some (code, cd)"
    using Some cc by (simp add: find_country_spec)
  let ?r1 = "empty_location\<lparr>country := Some (country_name cd)\<rparr>"
  show ?thesis
  proof (cases "find_subdivision la lo cd")
    case None
    then have ss: "spec_subdivision la lo cd = None"
      using find_subdivision_spec [of la lo cd] by simp
    have d: "determine_location ops la lo db =
        Inr (?r1\<lparr>full_location := spec_full_location code (landmark ?r1) (city ?r1) (county ?r1)
                                 (state ?r1) (country ?r1)\<rparr>)"
      by (simp only: determine_location_def Some cc None option.case prod.case sum.case Let_def
            finish_spec [unfolded Let_def])
    have s: "spec_location ops la lo db =
         \<lparr>city = None, state = None, country = Some (country_name cd), county = None,
                landmark = None, postal_code = None,
                full_location =
                  spec_full_location code None None None None (Some (country_name cd)),
                approximate = True\<rparr>"
      by (simp only: spec_location_def sc ss option.case prod.case)
    have c: "distances_computable ops la lo db"
      by (simp add: distances_computable_def sc ss)
    show ?thesis
      unfolding d s using c by (simp add: empty_location_def)
  next
    case sub: (Some t)
    obtain sub_code sd ty where t: "t = (sub_code, sd, ty)" by (cases t)
    have ss: "spec_subdivision la lo cd = Some (sub_code, sd)"
      using find_subdivision_spec [of la lo cd] sub t by simp
    define ok where "ok = ((\<forall>x \<in> set (landmarks sd). computable ops la lo (snd x))
         \<and> (truthy (spec_landmark_city ops la lo sd)
            \<or> (\<forall>x \<in> set (major_cities sd). computable ops la lo (snd x))))"
    let ?r = "\<lparr>city = spec_city ops la lo sd, state = Some (sub_name sd),
                country = Some (country_name cd),
                county = spec_resolved_county ops code la lo sd,
                landmark = map_option fst (found_landmark ops la lo sd),
                postal_code = None, full_location = None, approximate = True\<rparr>"
    have c: "distances_computable ops la lo db = ok"
      by (simp add: distances_computable_def sc ss ok_def)
    have r: "resolve_in_subdivision ops la lo code sd ?r1 = (if ok then Inr ?r else Inl ValueError)"
      unfolding ok_def by (rule resolve_spec) simp
    have s: "spec_location ops la lo db =
               ?r\<lparr>full_location :=
                  spec_full_location code (landmark ?r) (city ?r) (county ?r) (state ?r)
                    (country ?r)\<rparr>"
      by (simp only: spec_location_def sc ss option.case prod.case) simp
    show ?thesis
    proof (cases ok)
      case True
      have "determine_location ops la lo db =
          Inr (?r\<lparr>full_location :=
                  spec_full_location code (landmark ?r) (city ?r) (county ?r) (state ?r)
                    (country ?r)\<rparr>)"
        by (simp only: determine_location_def Some cc sub t option.case prod.case Let_def r
              True if_True sum.case finish_spec [unfolded Let_def])
      then show ?thesis using True c s by (simp only: if_True)
    next
      case False
      have "determine_location ops la lo db = Inl ValueError"
        by (simp only: determine_location_def Some cc sub t option.case prod.case Let_def r
              False if_False sum.case)
      then show ?thesis using False c by (simp only: if_False)
    qed
  qed
qed

lemma nearest_within_nearest:
  "(case nearest_within ops la lo km xs of
      None \<Rightarrow> (\<forall>x \<in> set xs. \<not> distance_to ops la lo (snd x) \<le> km)
    | Some x \<Rightarrow> x \<in> set xs \<and> distance_to ops la lo (snd x) \<le> km
                \<and> (\<forall>y \<in> set xs. distance_to ops la lo (snd x) \<le> distance_to ops la lo (snd y)))"
proof -
  let ?f = "\<lambda>x. distance_to ops la lo (snd x)"
  let ?near = "filter (\<lambda>x. ?f x \<le> km) xs"
  show ?thesis
  proof (cases "?near = []")
    case True
    then show ?thesis
      unfolding nearest_within_def Let_def by (auto simp: filter_empty_conv)
  next
    case False
    let ?m = "arg_min_list ?f ?near"
    have mem: "?m \<in> set ?near" by (rule arg_min_list_in [OF False])
    have mn: "?f ?m = Min (?f ` set ?near)" by (rule f_arg_min_list_f [OF False])
    have le: "?f ?m \<le> ?f y" if "y \<in> set xs" for y
    proof (cases "?f y \<le> km")
      case True
      then have "y \<in> set ?near" using that by simp
      then show ?thesis by (simp only: mn) (rule Min_le, auto)
    next
      case f: False
      then show ?thesis using mem by auto
    qed
    show ?thesis
      unfolding nearest_within_def Let_def using False mem le by auto
  qed
qed

subsection \<open>Exact arithmetic\<close>

lemma haversine_term_range:
  fixes p q d :: real
  defines "h \<equiv> (sin ((q - p) / 2))\<^sup>2 + cos p * cos q * (sin d)\<^sup>2"
  shows "0 \<le> h" and "h \<le> 1"
proof -
  define s where "s = (sin d)\<^sup>2"
  define c1 where "c1 = cos (p - q)"
  define c2 where "c2 = cos (p + q)"
  have s: "0 \<le> s" "s \<le> 1"
    using abs_sin_le_one [of d] by (simp_all add: s_def abs_square_le_1)
  have c1: "- 1 \<le> c1" "c1 \<le> 1" by (simp_all add: c1_def)
  have c2: "- 1 \<le> c2" "c2 \<le> 1" by (simp_all add: c2_def)
  have t: "2 * ((q - p) / 2) = q - p" by simp
  have "cos (q - p) = 1 - 2 * (sin ((q - p) / 2))\<^sup>2"
    using cos_double_sin [of "(q - p) / 2"] unfolding t .
  moreover have "cos (q - p) = c1"
    unfolding c1_def using cos_minus [of "p - q"] by simp
  ultimately have a: "(sin ((q - p) / 2))\<^sup>2 = (1 - c1) / 2" by simp
  have b: "cos p * cos q = (c1 + c2) / 2"
    unfolding c1_def c2_def by (rule cos_times_cos)
  have h: "2 * h = 1 - c1 + s * (c1 + c2)"
    unfolding h_def a b s_def by (simp add: field_simps)
  have "0 \<le> (1 - s) * (1 - c1)" "0 \<le> s * (1 + c2)"
    using s c1 c2 by (simp_all add: mult_nonneg_nonneg)
  then have "0 \<le> (1 - s) * (1 - c1) + s * (1 + c2)"
    by (rule add_nonneg_nonneg)
  also have "\<dots> = 2 * h" unfolding h by (simp add: algebra_simps)
  finally show "0 \<le> h" by simp
  have "0 \<le> (1 - s) * (1 + c1)" "0 \<le> s * (1 - c2)"
    using s c1 c2 by (simp_all add: mult_nonneg_nonneg)
  then have "0 \<le> (1 - s) * (1 + c1) + s * (1 - c2)"
    by (rule add_nonneg_nonneg)
  also have "\<dots> = 2 - 2 * h" unfolding h by (simp add: algebra_simps)
  finally show "h \<le> 1" by simp
qed

lemma haversine_exact:
  "haversine_distance exact_math la1 lo1 la2 lo2 =
     Inr (2 * arcsin (sqrt ((sin ((la2 * pi / 180 - la1 * pi / 180) / 2))\<^sup>2
                            + cos (la1 * pi / 180) * cos (la2 * pi / 180)
                              * (sin ((lo2 * pi / 180 - lo1 * pi / 180) / 2))\<^sup>2))
          * 6371)"
proof -
  let ?h = "(sin ((la2 * pi / 180 - la1 * pi / 180) / 2))\<^sup>2
              + cos (la1 * pi / 180) * cos (la2 * pi / 180)
                * (sin ((lo2 * pi / 180 - lo1 * pi / 180) / 2))\<^sup>2"
  have r: "0 \<le> ?h" "?h \<le> 1"
    by (rule haversine_term_range)+
  have s: "0 \<le> sqrt ?h" "sqrt ?h \<le> 1"
    using r by simp_all
  have n: "\<not> ?h < 0" "\<not> (sqrt ?h < - 1 \<or> 1 < sqrt ?h)"
    using r s by linarith+
  show ?thesis
    unfolding haversine_distance_def exact_math_def Let_def float_ops.simps
    by (simp only: n if_False)
qed

lemma computable_exact: "computable exact_math la lo c"
proof -
  let ?h = "(sin ((lat c * pi / 180 - la * pi / 180) / 2))\<^sup>2
              + cos (la * pi / 180) * cos (lat c * pi / 180)
                * (sin ((lng c * pi / 180 - lo * pi / 180) / 2))\<^sup>2"
  have e: "haversine_term exact_math la lo c = ?h"
    by (simp add: haversine_term_def exact_math_def)
  have r: "0 \<le> ?h" "?h \<le> 1"
    by (rule haversine_term_range)+
  then have "0 \<le> sqrt ?h" "sqrt ?h \<le> 1" by simp_all
  then show ?thesis
    using r unfolding computable_def e by (simp add: exact_math_def)
qed

lemma distances_computable_exact: "distances_computable exact_math la lo db"
  by (simp add: distances_computable_def computable_exact split: option.splits)

text \<open>Along a meridian the distance is the arc of the difference of the latitudes.\<close>

lemma arcsin_abs_sin:
  assumes "\<bar>x\<bar> \<le> pi / 2"
  shows "arcsin (sqrt ((sin x)\<^sup>2)) = \<bar>x\<bar>"
proof (cases "0 \<le> x")
  case True
  then have "0 \<le> sin x" using assms by (intro sin_ge_zero) (auto simp: abs_le_iff)
  then have "sqrt ((sin x)\<^sup>2) = sin x" by simp
  then show ?thesis using True assms by (simp add: arcsin_sin abs_le_iff)
next
  case False
  then have "0 \<le> sin (- x)" using assms by (intro sin_ge_zero) (auto simp: abs_le_iff)
  then have "sqrt ((sin x)\<^sup>2) = sin (- x)" by simp
  then have "arcsin (sqrt ((sin x)\<^sup>2)) = - x"
    using False assms by (simp only:) (rule arcsin_sin, auto simp: abs_le_iff)
  then show ?thesis using False by simp
qed

lemma meridian_distance:
  assumes "\<bar>la2 - la1\<bar> \<le> 180"
  shows "haversine_distance exact_math la1 lo la2 lo = Inr (6371 * \<bar>la2 - la1\<bar> * pi / 180)"
proof -
  define x where "x = (la2 * pi / 180 - la1 * pi / 180) / 2"
  define y where "y = \<bar>la2 - la1\<bar> * (pi / 360)"
  have "x = (la2 - la1) * (pi / 360)"
    unfolding x_def by (simp add: left_diff_distrib diff_divide_distrib)
  then have "\<bar>x\<bar> = \<bar>(la2 - la1) * (pi / 360)\<bar>" by (simp only:)
  also have "\<dots> = \<bar>la2 - la1\<bar> * \<bar>pi / 360\<bar>" by (rule abs_mult)
  also have "\<bar>pi / 360\<bar> = pi / 360" by simp
  finally have xy: "\<bar>x\<bar> = y" unfolding y_def .
  have "y \<le> 180 * (pi / 360)"
    unfolding y_def using assms by (intro mult_right_mono) simp_all
  then have b: "\<bar>x\<bar> \<le> pi / 2" using xy by simp
  have "arcsin (sqrt ((sin x)\<^sup>2)) = y"
    using arcsin_abs_sin [OF b] xy by simp
  then have "haversine_distance exact_math la1 lo la2 lo = Inr (2 * y * 6371)"
    unfolding x_def by (simp add: haversine_exact)
  then show ?thesis unfolding y_def by simp
qed

text \<open>
  Claim C5. For every coordinate, every database and every floating-point arithmetic,
  \<open>determine_location\<close> computes the resolution of the specification, unless a distance
  that it needs cannot be computed, and then it raises \<open>ValueError\<close>: the country is the
  first in declared order whose box contains the point; the subdivision is the first
  containing box over the kinds in the order states, provinces, regions, emirates,
  countries, governorates; the landmark is the nearest landmark of that subdivision within
  5 km, with its city and county when it carries them; the city, when the landmark gave
  none, is the nearest major city within 50 km; the county, in the USA and when the
  landmark gave none, is that of the first landmark within 1 km that carries one;
  \<open>full_location\<close> joins the non-empty parts landmark, city (if distinct from the
  landmark), county with " County" (USA only), state, country with ", ", and is the
  country name, or null without a country, when there is no part. A name that is the
  empty string counts as not resolved. The nearest element within a radius is in the
  list, within the radius, and no element of the list is nearer. The distance that the
  code computes is the Haversine distance in the given arithmetic; in exact arithmetic it
  is \<open>6371 * 2 * asin (sqrt h)\<close> with the angles in radians, and can always be computed.
\<close>

theorem determine_location_resolution:
  "determine_location ops la lo db =
     (if distances_computable ops la lo db then Inr (spec_location ops la lo db)
      else Inl ValueError)
   \<and> (case nearest_within ops la lo km xs of
         None \<Rightarrow> (\<forall>x \<in> set xs. \<not> distance_to ops la lo (snd x) \<le> km)
       | Some x \<Rightarrow> x \<in> set xs \<and> distance_to ops la lo (snd x) \<le> km
                   \<and> (\<forall>y \<in> set xs. distance_to ops la lo (snd x) \<le> distance_to ops la lo (snd y)))
   \<and> haversine_distance ops la lo (lat c) (lng c) =
       (if computable ops la lo c then Inr (distance_to ops la lo c) else Inl ValueError)
   \<and> distance_to exact_math la lo c =
       6371 * (2 * arcsin (sqrt ((sin ((lat c * pi / 180 - la * pi / 180) / 2))\<^sup>2
                 + cos (la * pi / 180) * cos (lat c * pi / 180)
                   * (sin ((lng c * pi / 180 - lo * pi / 180) / 2))\<^sup>2)))
   \<and> distances_computable exact_math la lo db"
proof (intro conjI)
  show "determine_location ops la lo db =
     (if distances_computable ops la lo db then Inr (spec_location ops la lo db)
      else Inl ValueError)"
    by (rule determine_location_spec)
  show "case nearest_within ops la lo km xs of
         None \<Rightarrow> (\<forall>x \<in> set xs. \<not> distance_to ops la lo (snd x) \<le> km)
       | Some x \<Rightarrow> x \<in> set xs \<and> distance_to ops la lo (snd x) \<le> km
                   \<and> (\<forall>y \<in> set xs. distance_to ops la lo (snd x) \<le> distance_to ops la lo (snd y))"
    by (rule nearest_within_nearest)
  show "haversine_distance ops la lo (lat c) (lng c) =
       (if computable ops la lo c then Inr (distance_to ops la lo c) else Inl ValueError)"
    by (rule haversine_spec)
  show "distance_to exact_math la lo c =
       6371 * (2 * arcsin (sqrt ((sin ((lat c * pi / 180 - la * pi / 180) / 2))\<^sup>2
                 + cos (la * pi / 180) * cos (lat c * pi / 180)
                   * (sin ((lng c * pi / 180 - lo * pi / 180) / 2))\<^sup>2)))"
    by (simp add: distance_to_def haversine_term_def exact_math_def)
  show "distances_computable exact_math la lo db"
    by (rule distances_computable_exact)
qed

text \<open>The point (40.758, -73.985) in the two sample databases, in exact arithmetic. In
  the second one the distances are 2.22, 0.33, 0.67 and 11.1 km to the landmarks and 111,
  33.4 and 22.2 km to the cities.\<close>

lemma ny_eval:
  "determine_location exact_math (20379 / 500) (- (14797 / 200)) ny_db =
     Inr \<lparr>city = Some ''New York City'', state = Some ''New York'',
      country = Some ''United States'', county = Some ''New York'',
      landmark = Some ''Times Square'', postal_code = None,
      full_location =
        Some ''Times Square, New York City, New York County, New York, United States'',
      approximate = True\<rparr>"
  by (simp add: determine_location_def ny_db_def is_within_bounds_def find_subdivision_def
        subdivision_types_def resolve_in_subdivision_def find_landmark_def
        closer_than_def meridian_distance Let_def location_parts_def
        empty_location_def find_city_def find_county_def with_landmark_def with_city_def
        with_county_def)

lemma geo_eval:
  "determine_location exact_math (20379 / 500) (- (14797 / 200)) geo_db = Inr geo_result"
  using pi_ge_two pi_less_4
  by (simp add: determine_location_def geo_db_def geo_result_def is_within_bounds_def
        find_subdivision_def subdivision_types_def resolve_in_subdivision_def
        find_landmark_def closer_than_def meridian_distance Let_def location_parts_def
        empty_location_def find_city_def find_county_def with_landmark_def with_city_def
        with_county_def)

text \<open>With a square root that returns 2, no distance can be computed, and the
  resolution of the same point raises.\<close>

theorem determine_location_resolution_witness:
  "determine_location exact_math (20379 / 500) (- (14797 / 200)) geo_db = Inr geo_result
   \<and> spec_location exact_math (20379 / 500) (- (14797 / 200)) geo_db = geo_result
   \<and> determine_location (exact_math\<lparr>m_sqrt := \<lambda>x. 2\<rparr>) (20379 / 500) (- (14797 / 200)) geo_db
       = Inl ValueError"
proof -
  note r = determine_location_resolution [of exact_math "20379 / 500" "- (14797 / 200)" geo_db]
  have "determine_location exact_math (20379 / 500) (- (14797 / 200)) geo_db =
     (if distances_computable exact_math (20379 / 500) (- (14797 / 200)) geo_db
      then Inr (spec_location exact_math (20379 / 500) (- (14797 / 200)) geo_db)
      else Inl ValueError)"
    using r by (rule conjunct1)
  moreover have "distances_computable exact_math (20379 / 500) (- (14797 / 200)) geo_db"
    using r by (rule conjunct2 [THEN conjunct2, THEN conjunct2, THEN conjunct2])
  ultimately have a: "determine_location exact_math (20379 / 500) (- (14797 / 200)) geo_db
        = Inr geo_result
      \<and> spec_location exact_math (20379 / 500) (- (14797 / 200)) geo_db = geo_result"
    using geo_eval by simp
  have n: "\<not> distances_computable (exact_math\<lparr>m_sqrt := \<lambda>x. 2\<rparr>) (20379 / 500)
              (- (14797 / 200)) geo_db"
    by (simp add: distances_computable_def spec_country_def spec_subdivision_def in_box_def
          geo_db_def computable_def) blast
  have "determine_location (exact_math\<lparr>m_sqrt := \<lambda>x. 2\<rparr>) (20379 / 500) (- (14797 / 200)) geo_db =
     (if distances_computable (exact_math\<lparr>m_sqrt := \<lambda>x. 2\<rparr>) (20379 / 500) (- (14797 / 200)) geo_db
      then Inr (spec_location (exact_math\<lparr>m_sqrt := \<lambda>x. 2\<rparr>) (20379 / 500) (- (14797 / 200))
                  geo_db)
      else Inl ValueError)"
    using determine_location_resolution
      [of "exact_math\<lparr>m_sqrt := \<lambda>x. 2\<rparr>" "20379 / 500" "- (14797 / 200)" geo_db]
    by (rule conjunct1)
  then have "determine_location (exact_math\<lparr>m_sqrt := \<lambda>x. 2\<rparr>) (20379 / 500) (- (14797 / 200))
               geo_db = Inl ValueError"
    using n by simp
  with a show ?thesis by simp
qed


section \<open>The frame of the geo-resolution pass\<close>

lemma py_item_obj: "py_item j k = Inr v \<Longrightarrow> \<exists>kvs. j = JObj kvs \<and> map_of kvs k = Some v"
  by (cases j) (auto split: option.splits)

lemma process_user_cases:
  assumes "process_user ops db user = Inr user'"
  shows "user' = user \<or>
     (\<exists>u av hv co x y location_data.
        user = JObj u \<and> map_of u ''location_analysis'' = Some (JObj av)
        \<and> map_of av ''home_location'' = Some (JObj hv)
        \<and> map_of hv ''coordinates'' = Some co \<and> py_truthy co
        \<and> determine_location ops x y db = Inr location_data
        \<and> user' = JObj (AList.update ''location_analysis''
                            (JObj (AList.update ''home_location''
                                     (JObj (patch_home_location location_data hv))
                                     av)) u))"
proof (cases user)
  case (JObj u)
  show ?thesis
  proof (cases "map_of u ''location_analysis''")
    case None
    then show ?thesis using assms JObj by (simp add: process_user_def)
  next
    case (Some a)
    show ?thesis
    proof (cases a)
      case (JObj av)
      note a = this
      show ?thesis
      proof (cases "map_of av ''home_location''")
        case None
        then show ?thesis using assms \<open>user = JObj u\<close> Some a by (simp add: process_user_def)
      next
        case hl: (Some h)
        show ?thesis
        proof (cases h)
          case (JObj hv)
          show ?thesis
          proof (cases "map_of hv ''coordinates''")
            case None
            then show ?thesis
              using assms \<open>user = JObj u\<close> Some a hl JObj
              by (auto simp: process_user_def split: if_splits)
          next
            case co: (Some c)
            show ?thesis
            proof (cases "py_truthy c \<and> hv \<noteq> []")
              case True
              then show ?thesis
                using assms \<open>user = JObj u\<close> Some a hl JObj co
                by (auto simp: process_user_def split: sum.splits option.splits if_splits)
            next
              case False
              then show ?thesis
                using assms \<open>user = JObj u\<close> Some a hl JObj co
                by (auto simp: process_user_def split: if_splits)
            qed
          qed
        qed (use assms \<open>user = JObj u\<close> Some a hl in
              \<open>auto simp: process_user_def split: sum.splits bool.splits if_splits\<close>)
      qed
    qed (use assms \<open>user = JObj u\<close> Some in
          \<open>auto simp: process_user_def split: sum.splits bool.splits if_splits\<close>)
  qed
qed (use assms in \<open>auto simp: process_user_def split: sum.splits bool.splits if_splits\<close>)

lemma process_user_frame:
  assumes "process_user ops db user = Inr user'"
  shows "only_home_location_differs user user' \<and> (no_coordinates user \<longrightarrow> user' = user)"
  using process_user_cases [OF assms]
  unfolding only_home_location_differs_def no_coordinates_def home_location_of_def field_def
  by auto

lemma process_all_pointwise:
  "process_all ops db users = Inr out \<Longrightarrow>
   length out = length users \<and> (\<forall>i < length users. process_user ops db (users ! i) = Inr (out ! i))"
proof (induction users arbitrary: out)
  case Nil
  then show ?case by simp
next
  case (Cons user users)
  from Cons.prems obtain user' users' where
    p: "process_user ops db user = Inr user'" "process_all ops db users = Inr users'" "out = user' # users'"
    by (auto split: sum.splits)
  from Cons.IH [OF p(2)] p show ?case
    by (auto simp: nth_Cons split: nat.splits)
qed

lemma frame_fields:
  assumes "only_home_location_differs user user'"
  shows "(\<forall>k. k \<noteq> ''location_analysis'' \<longrightarrow> field k user' = field k user)"
    and "(\<forall>a a'. field ''location_analysis'' user = Some a \<and> field ''location_analysis'' user' = Some a' \<longrightarrow>
            (\<forall>k. k \<noteq> ''home_location'' \<longrightarrow> field k a' = field k a))"
  using assms unfolding only_home_location_differs_def field_def
  by (auto simp: update_conv' split: json.splits)


text \<open>
  Claim C9. When the pass completes, the output has one record for each input record, in
  the same order; each output record is the input record with nothing but the value
  under \<open>location_analysis.home_location\<close> replaced, so every other top-level field and
  every other field of \<open>location_analysis\<close> is unchanged; and a record whose home location
  is absent, null or without coordinates is unchanged as a whole.
\<close>

theorem geo_pass_frame:
  assumes "process_instagram_data ops db instagram_data = Inr updated_data"
  shows "length updated_data = length instagram_data
     \<and> (\<forall>i < length instagram_data.
          only_home_location_differs (instagram_data ! i) (updated_data ! i)
          \<and> (\<forall>k. k \<noteq> ''location_analysis'' \<longrightarrow>
                 field k (updated_data ! i) = field k (instagram_data ! i))
          \<and> (\<forall>a a'. field ''location_analysis'' (instagram_data ! i) = Some a
                  \<and> field ''location_analysis'' (updated_data ! i) = Some a' \<longrightarrow>
                 (\<forall>k. k \<noteq> ''home_location'' \<longrightarrow> field k a' = field k a))
          \<and> (no_coordinates (instagram_data ! i) \<longrightarrow> updated_data ! i = instagram_data ! i))"
proof -
  from assms have p: "process_all ops db instagram_data = Inr updated_data"
    by (simp add: process_instagram_data_def)
  note pw = process_all_pointwise [OF p]
  show ?thesis
  proof (intro conjI allI impI)
    show "length updated_data = length instagram_data" using pw by simp
  next
    fix i assume i: "i < length instagram_data"
    then have u: "process_user ops db (instagram_data ! i) = Inr (updated_data ! i)"
      using pw by simp
    note fr = process_user_frame [OF u]
    show "only_home_location_differs (instagram_data ! i) (updated_data ! i)"
      using fr by simp
    { fix k :: string assume "k \<noteq> ''location_analysis''"
      then show "field k (updated_data ! i) = field k (instagram_data ! i)"
        using frame_fields(1) fr by blast }
    { assume "no_coordinates (instagram_data ! i)"
      then show "updated_data ! i = instagram_data ! i" using fr by simp }
    { fix a a' k
      assume "field ''location_analysis'' (instagram_data ! i) = Some a
                  \<and> field ''location_analysis'' (updated_data ! i) = Some a'"
        and "k \<noteq> ''home_location''"
      then show "field k a' = field k a"
        using frame_fields(2) fr by blast }
  qed
qed

lemma sample_run: "process_instagram_data exact_math ny_db sample_data = Inr sample_updated"
  by (simp add: process_instagram_data_def sample_data_def sample_updated_def process_user_def
        ny_eval patch_home_location_def)

text \<open>On the sample collection, the record with coordinates keeps its other fields, and
  the two records without coordinates come out as they went in.\<close>

theorem geo_pass_frame_witness:
  "process_instagram_data exact_math ny_db sample_data = Inr sample_updated
   \<and> length sample_updated = 3
   \<and> field ''personal_details'' (sample_updated ! 0) = field ''personal_details'' (sample_data ! 0)
   \<and> sample_updated ! 1 = sample_data ! 1
   \<and> sample_updated ! 2 = sample_data ! 2"
proof -
  note f = geo_pass_frame [OF sample_run]
  have l: "length sample_data = 3" by (simp add: sample_data_def)
  have n1: "no_coordinates (sample_data ! 1)"
    by (simp add: sample_data_def no_coordinates_def home_location_of_def field_def)
  have n2: "no_coordinates (sample_data ! 2)"
    by (simp add: sample_data_def no_coordinates_def home_location_of_def field_def)
  have "length sample_updated = 3" using f l by simp
  moreover have "field ''personal_details'' (sample_updated ! 0)
                 = field ''personal_details'' (sample_data ! 0)"
    using f l by simp
  moreover have "sample_updated ! 1 = sample_data ! 1" using f l n1 by simp
  moreover have "sample_updated ! 2 = sample_data ! 2" using f l n2 by simp
  ultimately show ?thesis using sample_run by simp
qed

end
